theory Spec2Isabelle
  imports Complex_Main "HOL-Library.Word" "HOL-Library.Log_Nat"
begin

unbundle bit_operations_syntax

section \<open>Python values: bytes, exceptions, struct.unpack\<close>

text \<open>
  A Python \<^verbatim>\<open>bytes\<close> object is a list of 8-bit words. Python integers are unbounded, so
  every decoded number is a \<open>nat\<close> (unsigned formats) or an \<open>int\<close> (signed formats).
  Every exception class that the modelled code can raise is a constructor of \<open>exn\<close>;
  a function that can raise returns \<open>exn + 'a\<close>, with \<open>Inl\<close> for the exception.
\<close>

type_synonym byte = "8 word"
type_synonym bytes = "byte list"

datatype exn =
    StructError | ValueError | UserWarning | NameError | KeyError | IndexError
  | AttributeError | ImportError | UnboundLocalError | ZeroDivisionError | OverflowError
  | IOError | OSError | TypeError | OtherException

text \<open>The slice \<^verbatim>\<open>xs[a:b]\<close> for non-negative \<open>a\<close> and \<open>b\<close>: it never raises and is cut at the end.\<close>

definition slice :: "'a list \<Rightarrow> nat \<Rightarrow> nat \<Rightarrow> 'a list" where
  "slice xs a b = take (b - a) (drop a xs)"

text \<open>Little-endian unsigned decoding, as the \<^verbatim>\<open><\<close> formats of \<^verbatim>\<open>struct\<close> do.\<close>

fun le_nat :: "bytes \<Rightarrow> nat" where
  "le_nat [] = 0"
| "le_nat (b # bs) = unat b + 256 * le_nat bs"

text \<open>\<^verbatim>\<open>struct.unpack\<close> raises \<^verbatim>\<open>struct.error\<close> unless the buffer has exactly the size of the format.\<close>

definition unpack_HHII :: "bytes \<Rightarrow> exn + (nat \<times> nat \<times> nat \<times> nat)" where
  "unpack_HHII d =
     (if length d \<noteq> 12 then Inl StructError
      else Inr (le_nat (slice d 0 2), le_nat (slice d 2 4), le_nat (slice d 4 8),
                le_nat (slice d 8 12)))"

definition unpack_IIII :: "bytes \<Rightarrow> exn + (nat \<times> nat \<times> nat \<times> nat)" where
  "unpack_IIII d =
     (if length d \<noteq> 16 then Inl StructError
      else Inr (le_nat (slice d 0 4), le_nat (slice d 4 8), le_nat (slice d 8 12),
                le_nat (slice d 12 16)))"

definition unpack_QIIQ :: "bytes \<Rightarrow> exn + (nat \<times> nat \<times> nat \<times> nat)" where
  "unpack_QIIQ d =
     (if length d \<noteq> 24 then Inl StructError
      else Inr (le_nat (slice d 0 8), le_nat (slice d 8 12), le_nat (slice d 12 16),
                le_nat (slice d 16 24)))"

definition unpack_II :: "bytes \<Rightarrow> exn + (nat \<times> nat)" where
  "unpack_II d =
     (if length d \<noteq> 8 then Inl StructError
      else Inr (le_nat (slice d 0 4), le_nat (slice d 4 8)))"

definition unpack_QI :: "bytes \<Rightarrow> exn + (nat \<times> nat)" where
  "unpack_QI d =
     (if length d \<noteq> 12 then Inl StructError
      else Inr (le_nat (slice d 0 8), le_nat (slice d 8 12)))"

definition unpack_I :: "bytes \<Rightarrow> exn + nat" where
  "unpack_I d = (if length d \<noteq> 4 then Inl StructError else Inr (le_nat d))"

text \<open>\<^verbatim>\<open>UUID(bytes=b)\<close> raises \<^verbatim>\<open>ValueError\<close> unless \<open>b\<close> has 16 bytes.\<close>

definition UUID_of_bytes :: "bytes \<Rightarrow> exn + bytes" where
  "UUID_of_bytes b = (if length b \<noteq> 16 then Inl ValueError else Inr b)"

text \<open>\<^verbatim>\<open>posixpath.basename\<close>: what follows the last slash.\<close>

definition basename :: "string \<Rightarrow> string" where
  "basename p = rev (takeWhile (\<lambda>c. c \<noteq> CHR ''/'') (rev p))"

text \<open>
  A file object: its content and the position of the cursor. \<^verbatim>\<open>read(n)\<close> returns at most
  \<open>n\<close> bytes (fewer at the end of the file) and moves the cursor past what it returned;
  \<^verbatim>\<open>seek\<close> sets the cursor, \<^verbatim>\<open>tell\<close> reads it.
\<close>

record vfile =
  content :: bytes
  fpos :: nat

definition fread :: "vfile \<Rightarrow> nat \<Rightarrow> bytes \<times> vfile" where
  "fread f n =
     (let got = slice (content f) (fpos f) (fpos f + n)
      in (got, f\<lparr>fpos := fpos f + length got\<rparr>))"

definition fseek :: "vfile \<Rightarrow> nat \<Rightarrow> vfile" where
  "fseek f p = f\<lparr>fpos := p\<rparr>"

section \<open>The shared-cache strings (dsc) file, \<^verbatim>\<open>dsc_file.py\<close>\<close>

text \<open>
  A range entry is the list \<^verbatim>\<open>[uuid_index, v_off, data_offset, data_len]\<close>, a uuid entry the
  list \<^verbatim>\<open>[v_off, size, uuid, lib_path, lib_name]\<close>. The dictionaries \<^verbatim>\<open>range_entries\<close> and
  \<^verbatim>\<open>uuid_entry_dict\<close> are association lists in insertion order; the code stores a key only
  after checking that it is absent, so no key occurs twice and \<^verbatim>\<open>len\<close> of the dictionary
  is the length of the list. The flag \<open>file_is_valid\<close> is \<^verbatim>\<open>self._file.is_valid\<close>.
\<close>

record range_entry =
  uuid_index :: nat
  v_off :: nat
  data_offset :: nat
  data_len :: nat

record uuid_entry =
  u_v_off :: nat
  u_size :: nat
  u_uuid :: bytes
  lib_path :: string
  lib_name :: string

record Dsc =
  format_version :: "(nat \<times> nat) option"
  uuid_entries :: "uuid_entry list"
  uuid_entry_dict :: "(nat \<times> uuid_entry) list"
  uuid_entry_offsets :: "nat list"
  num_uuid_entries :: nat
  range_entries :: "(nat \<times> range_entry) list"
  range_entry_offsets :: "nat list"
  num_range_entries :: nat
  file_is_valid :: bool

definition Dsc_init :: Dsc where
  "Dsc_init = \<lparr>format_version = None, uuid_entries = [], uuid_entry_dict = [],
     uuid_entry_offsets = [], num_uuid_entries = 0, range_entries = [],
     range_entry_offsets = [], num_range_entries = 0, file_is_valid = True\<rparr>"

definition hcsd :: bytes where
  "hcsd = [0x68, 0x63, 0x73, 0x64]"

text \<open>One range record: 16 bytes in version 1, 24 bytes in version 2, no other version.\<close>

definition read_range_entry :: "nat \<Rightarrow> vfile \<Rightarrow> exn + (range_entry \<times> vfile)" where
  "read_range_entry major f =
     (if major = 1 then
        (case fread f 16 of (range_entry_data, f') \<Rightarrow>
           (case unpack_IIII range_entry_data of
              Inl e \<Rightarrow> Inl e
            | Inr (ui, vo, dof, dl) \<Rightarrow>
                Inr (\<lparr>uuid_index = ui, v_off = vo, data_offset = dof, data_len = dl\<rparr>, f')))
      else if major = 2 then
        (case fread f 24 of (range_entry_data, f') \<Rightarrow>
           (case unpack_QIIQ range_entry_data of
              Inl e \<Rightarrow> Inl e
            | Inr (vo, dof, dl, ui) \<Rightarrow>
                Inr (\<lparr>uuid_index = ui, v_off = vo, data_offset = dof, data_len = dl\<rparr>, f')))
      else Inl UserWarning)"

text \<open>
  The loop \<^verbatim>\<open>while len(self.range_entries) < num_range_entries\<close>: each round reads one record,
  raises \<^verbatim>\<open>ValueError\<close> when its \<open>v_off\<close> is already a key, and stores it otherwise.
\<close>

function Dsc_range_loop :: "nat \<Rightarrow> nat \<Rightarrow> vfile \<Rightarrow> Dsc \<Rightarrow> Dsc \<times> (exn + vfile)" where
  "Dsc_range_loop major n f d =
     (if length (range_entries d) < n then
        (case read_range_entry major f of
           Inl e \<Rightarrow> (d, Inl e)
         | Inr (re, f') \<Rightarrow>
             if v_off re \<in> set (map fst (range_entries d)) then (d, Inl ValueError)
             else Dsc_range_loop major n f'
                    (d\<lparr>range_entries := range_entries d @ [(v_off re, re)]\<rparr>))
      else (d, Inr f))"
  by pat_completeness auto
termination
  by (relation "measure (\<lambda>(major, n, f, d). n - length (range_entries d))") auto

declare Dsc_range_loop.simps [simp del]

text \<open>
  One uuid record, read at \<open>uuid_entry_offset\<close>: 28 bytes in version 1, 32 bytes in version 2,
  then the library path at the record's data offset. \<open>ReadCString\<close> is the method
  \<^verbatim>\<open>_ReadCString\<close> of the base class \<^verbatim>\<open>data_format.BinaryDataFormat\<close>; it is a parameter.
\<close>

definition read_uuid_entry ::
  "(bytes \<Rightarrow> exn + string) \<Rightarrow> nat \<Rightarrow> vfile \<Rightarrow> nat \<Rightarrow> exn + (uuid_entry \<times> vfile \<times> nat)" where
  "read_uuid_entry ReadCString major f uuid_entry_offset =
     (if major = 1 then
        (case fread (fseek f uuid_entry_offset) 28 of (uuid_entry_data, f1) \<Rightarrow>
           (case unpack_II (slice uuid_entry_data 0 8) of
              Inl e \<Rightarrow> Inl e
            | Inr (vo, sz) \<Rightarrow>
               (case UUID_of_bytes (slice uuid_entry_data 8 24) of
                  Inl e \<Rightarrow> Inl e
                | Inr uuid_object \<Rightarrow>
                   (case unpack_I (drop 24 uuid_entry_data) of
                      Inl e \<Rightarrow> Inl e
                    | Inr dof \<Rightarrow>
                       (case fread (fseek f1 dof) 1024 of (path_data, f2) \<Rightarrow>
                          (case ReadCString path_data of
                             Inl e \<Rightarrow> Inl e
                           | Inr p \<Rightarrow>
                               Inr (\<lparr>u_v_off = vo, u_size = sz, u_uuid = uuid_object,
                                     lib_path = p, lib_name = basename p\<rparr>,
                                    f2, uuid_entry_offset + 28)))))))
      else if major = 2 then
        (case fread (fseek f uuid_entry_offset) 32 of (uuid_entry_data, f1) \<Rightarrow>
           (case unpack_QI (slice uuid_entry_data 0 12) of
              Inl e \<Rightarrow> Inl e
            | Inr (vo, sz) \<Rightarrow>
               (case UUID_of_bytes (slice uuid_entry_data 12 28) of
                  Inl e \<Rightarrow> Inl e
                | Inr uuid_object \<Rightarrow>
                   (case unpack_I (drop 28 uuid_entry_data) of
                      Inl e \<Rightarrow> Inl e
                    | Inr dof \<Rightarrow>
                       (case fread (fseek f1 dof) 1024 of (path_data, f2) \<Rightarrow>
                          (case ReadCString path_data of
                             Inl e \<Rightarrow> Inl e
                           | Inr p \<Rightarrow>
                               Inr (\<lparr>u_v_off = vo, u_size = sz, u_uuid = uuid_object,
                                     lib_path = p, lib_name = basename p\<rparr>,
                                    f2, uuid_entry_offset + 32)))))))
      else Inl UserWarning)"

text \<open>
  The loop \<^verbatim>\<open>while len(self.uuid_entries) < num_uuid_entries\<close>: the entry is appended to
  \<^verbatim>\<open>uuid_entries\<close> before its \<open>v_off\<close> is checked against \<^verbatim>\<open>uuid_entry_dict\<close>.
\<close>

function Dsc_uuid_loop ::
  "(bytes \<Rightarrow> exn + string) \<Rightarrow> nat \<Rightarrow> nat \<Rightarrow> vfile \<Rightarrow> nat \<Rightarrow> Dsc \<Rightarrow> Dsc \<times> (exn + vfile)" where
  "Dsc_uuid_loop ReadCString major n f uuid_entry_offset d =
     (if length (uuid_entries d) < n then
        (case read_uuid_entry ReadCString major f uuid_entry_offset of
           Inl e \<Rightarrow> (d, Inl e)
         | Inr (ue, f', off') \<Rightarrow>
             (let d1 = d\<lparr>uuid_entries := uuid_entries d @ [ue]\<rparr>
              in if u_v_off ue \<in> set (map fst (uuid_entry_dict d1)) then (d1, Inl ValueError)
                 else Dsc_uuid_loop ReadCString major n f' off'
                        (d1\<lparr>uuid_entry_dict := uuid_entry_dict d1 @ [(u_v_off ue, ue)]\<rparr>)))
      else (d, Inr f))"
  by pat_completeness auto
termination
  by (relation "measure (\<lambda>(r, major, n, f, off, d). n - length (uuid_entries d))") auto

declare Dsc_uuid_loop.simps [simp del]

text \<open>
  \<^verbatim>\<open>Dsc._ParseFileObject\<close>. On a wrong signature the code evaluates
  \<^verbatim>\<open>binascii.hexlify(...)\<close> to build its log message, but \<^verbatim>\<open>dsc_file.py\<close> imports only
  \<^verbatim>\<open>os\<close>, \<^verbatim>\<open>posixpath\<close>, \<^verbatim>\<open>struct\<close>, \<^verbatim>\<open>UUID\<close>, \<^verbatim>\<open>bisect_right\<close>, \<^verbatim>\<open>data_format\<close> and \<^verbatim>\<open>logger\<close>: the name
  \<^verbatim>\<open>binascii\<close> is unbound and the evaluation raises \<^verbatim>\<open>NameError\<close> before the
  \<^verbatim>\<open>return False\<close> that follows it.
\<close>

definition Dsc_ParseFileObject ::
  "(bytes \<Rightarrow> exn + string) \<Rightarrow> Dsc \<Rightarrow> vfile \<Rightarrow> Dsc \<times> (exn + bool)" where
  "Dsc_ParseFileObject ReadCString d file_object =
     (case fread file_object 16 of (file_header_data, f1) \<Rightarrow>
        if slice file_header_data 0 4 \<noteq> hcsd then (d, Inl NameError)
        else
          (case unpack_HHII (slice file_header_data 4 16) of
             Inl e \<Rightarrow> (d, Inl e)
           | Inr (major_version, minor_version, n_range, n_uuid) \<Rightarrow>
               if major_version > 2 then (d, Inl UserWarning)
               else
                 (case Dsc_range_loop major_version n_range f1
                         (d\<lparr>format_version := Some (major_version, minor_version)\<rparr>) of
                    (d1, Inl e) \<Rightarrow> (d1, Inl e)
                  | (d1, Inr f2) \<Rightarrow>
                      (let offs = sort (map fst (range_entries d1));
                           d2 = d1\<lparr>range_entry_offsets := offs,
                                   num_range_entries := length offs\<rparr>
                       in case Dsc_uuid_loop ReadCString major_version n_uuid f2 (fpos f2) d2 of
                            (d3, Inl e) \<Rightarrow> (d3, Inl e)
                          | (d3, Inr f3) \<Rightarrow>
                              (let uoffs = sort (map fst (uuid_entry_dict d3))
                               in (d3\<lparr>uuid_entry_offsets := uoffs,
                                       num_uuid_entries := length uoffs\<rparr>, Inr True))))))"

text \<open>
  \<^verbatim>\<open>Dsc.Parse\<close>: \<open>opened\<close> is what \<^verbatim>\<open>self._file.open()\<close> returned (\<open>None\<close> when the file
  cannot be opened). Only \<^verbatim>\<open>IOError\<close>, \<^verbatim>\<open>OSError\<close> and \<^verbatim>\<open>struct.error\<close> are caught; any other
  exception leaves \<^verbatim>\<open>Parse\<close>.
\<close>

definition Dsc_Parse ::
  "(bytes \<Rightarrow> exn + string) \<Rightarrow> Dsc \<Rightarrow> bytes option \<Rightarrow> Dsc \<times> (exn + bool)" where
  "Dsc_Parse ReadCString d opened =
     (case opened of
        None \<Rightarrow> (d, Inr False)
      | Some c \<Rightarrow>
          (case Dsc_ParseFileObject ReadCString d \<lparr>content = c, fpos = 0\<rparr> of
             (d', Inl e) \<Rightarrow>
                if e = IOError \<or> e = OSError \<or> e = StructError
                then (d'\<lparr>file_is_valid := False\<rparr>, Inr False)
                else (d', Inl e)
           | (d', Inr result) \<Rightarrow>
                (if \<not> result then d'\<lparr>file_is_valid := False\<rparr> else d', Inr result)))"

text \<open>
  \<^verbatim>\<open>bisect.bisect_right(a, x, lo, hi)\<close>: the binary search of the standard library. Reading
  \<^verbatim>\<open>a[mid]\<close> beyond the end of the list raises \<^verbatim>\<open>IndexError\<close>.
\<close>

function bisect_right :: "nat list \<Rightarrow> nat \<Rightarrow> nat \<Rightarrow> nat \<Rightarrow> exn + nat" where
  "bisect_right a x lo hi =
     (if lo < hi then
        (let mid = (lo + hi) div 2
         in if length a \<le> mid then Inl IndexError
            else if x < a ! mid then bisect_right a x lo mid
            else bisect_right a x (mid + 1) hi)
      else Inr lo)"
  by pat_completeness auto
termination
  by (relation "measure (\<lambda>(a, x, lo, hi). hi - lo)") auto

declare bisect_right.simps [simp del]

text \<open>
  \<^verbatim>\<open>Dsc.FindVirtualOffsetEntries\<close>: the result \<^verbatim>\<open>(None, None)\<close> is \<open>Inr (None, None)\<close>.
  \<^verbatim>\<open>self.range_entries[range_offset]\<close> raises \<^verbatim>\<open>KeyError\<close> on a missing key and
  \<^verbatim>\<open>self.uuid_entries[a[0]]\<close> raises \<^verbatim>\<open>IndexError\<close> beyond the end of the list.
\<close>

definition Dsc_FindVirtualOffsetEntries ::
  "Dsc \<Rightarrow> nat \<Rightarrow> exn + (range_entry option \<times> uuid_entry option)" where
  "Dsc_FindVirtualOffsetEntries d v_offset =
     (case bisect_right (range_entry_offsets d) v_offset 0 (num_range_entries d) of
        Inl e \<Rightarrow> Inl e
      | Inr pos \<Rightarrow>
          if pos > 0 then
            (if length (range_entry_offsets d) \<le> pos - 1 then Inl IndexError
             else
               (case map_of (range_entries d) (range_entry_offsets d ! (pos - 1)) of
                  None \<Rightarrow> Inl KeyError
                | Some a \<Rightarrow>
                    if v_off a + data_len a > v_offset then
                      (if length (uuid_entries d) \<le> uuid_index a then Inl IndexError
                       else Inr (Some a, Some (uuid_entries d ! uuid_index a)))
                    else Inr (None, None)))
          else Inr (None, None))"

subsection \<open>Properties of the range table and concrete dsc files\<close>

text \<open>The ranges of a dsc file do not overlap: a range ends before every range that starts later.\<close>

definition ranges_disjoint :: "Dsc \<Rightarrow> bool" where
  "ranges_disjoint d \<longleftrightarrow>
     (\<forall>a \<in> snd ` set (range_entries d). \<forall>b \<in> snd ` set (range_entries d).
        v_off a < v_off b \<longrightarrow> v_off a + data_len a \<le> v_off b)"

text \<open>
  The range records that the next \<open>k\<close> reads of the file give, up to the first record that
  cannot be read.
\<close>

fun range_records :: "nat \<Rightarrow> nat \<Rightarrow> vfile \<Rightarrow> range_entry list" where
  "range_records major 0 f = []"
| "range_records major (Suc k) f =
     (case read_range_entry major f of
        Inl e \<Rightarrow> []
      | Inr (re, f') \<Rightarrow> re # range_records major k f')"

text \<open>
  What a successful parse establishes about the range table: no key twice, every entry
  stored under its own \<open>v_off\<close>, the offsets list is the sorted list of keys.
\<close>

definition Dsc_wf :: "Dsc \<Rightarrow> bool" where
  "Dsc_wf d \<longleftrightarrow>
     distinct (map fst (range_entries d)) \<and>
     (\<forall>(k, e) \<in> set (range_entries d). v_off e = k) \<and>
     range_entry_offsets d = sort (map fst (range_entries d)) \<and>
     num_range_entries d = length (range_entry_offsets d)"

text \<open>
  Concrete inputs. \<open>ReadCString_ascii\<close> stands for \<^verbatim>\<open>_ReadCString\<close> at these inputs: the bytes before
  the first NUL, as characters. Each file below has the header of a version 1 dsc file with two
  range records and one uuid record (\<open>dsc_tail\<close>: the uuid record and its library path).
\<close>

definition ReadCString_ascii :: "bytes \<Rightarrow> exn + string" where
  "ReadCString_ascii b = Inr (map (\<lambda>w. char_of (unat w)) (takeWhile (\<lambda>w. w \<noteq> 0) b))"

definition dsc_hdr :: bytes where
  "dsc_hdr = [0x68, 0x63, 0x73, 0x64, 1, 0, 0, 0, 2, 0, 0, 0, 1, 0, 0, 0]"

definition dsc_tail :: bytes where
  "dsc_tail = [0, 0, 0, 0, 200, 0, 0, 0,
               1, 2, 3, 4, 5, 6, 7, 8, 9, 10, 11, 12, 13, 14, 15, 16,
               76, 0, 0, 0, 0x2F, 0x61, 0]"

definition dsc_overlap :: bytes where
  "dsc_overlap = dsc_hdr @
     [0, 0, 0, 0, 0, 0, 0, 0, 80, 0, 0, 0, 100, 0, 0, 0,
      0, 0, 0, 0, 10, 0, 0, 0, 90, 0, 0, 0, 5, 0, 0, 0] @ dsc_tail"

definition dsc_disjoint :: bytes where
  "dsc_disjoint = dsc_hdr @
     [0, 0, 0, 0, 10, 0, 0, 0, 90, 0, 0, 0, 5, 0, 0, 0,
      0, 0, 0, 0, 0, 0, 0, 0, 80, 0, 0, 0, 10, 0, 0, 0] @ dsc_tail"

definition dsc_duplicate :: bytes where
  "dsc_duplicate = dsc_hdr @
     [0, 0, 0, 0, 10, 0, 0, 0, 90, 0, 0, 0, 5, 0, 0, 0,
      0, 0, 0, 0, 10, 0, 0, 0, 80, 0, 0, 0, 10, 0, 0, 0] @ dsc_tail"

text \<open>A file that does not start with \<^verbatim>\<open>hcsd\<close>, and a header with major version 3.\<close>

definition dsc_bad_signature :: bytes where
  "dsc_bad_signature = [0x99, 0x88, 0x77, 0x66, 1, 0, 0, 0, 0, 0, 0, 0, 0, 0, 0, 0]"

definition dsc_version3 :: bytes where
  "dsc_version3 = [0x68, 0x63, 0x73, 0x64, 3, 0, 0, 0, 0, 0, 0, 0, 0, 0, 0, 0]"

text \<open>The object that \<^verbatim>\<open>Parse\<close> leaves for a file, starting from a fresh \<^verbatim>\<open>Dsc\<close>.\<close>

definition parsed_dsc :: "bytes \<Rightarrow> Dsc" where
  "parsed_dsc c = fst (Dsc_Parse ReadCString_ascii Dsc_init (Some c))"

section \<open>Timesync items and wall-clock time, \<^verbatim>\<open>tracev3_file.py\<close>\<close>

text \<open>
  A timesync item carries its continuous time, its wall-clock stamp and the rate
  \<open>ts_numerator / ts_denominator\<close>, all of them integers. The wall-clock time of a log entry
  is a Python \<^verbatim>\<open>float\<close>: the expression \<^verbatim>\<open>(1.0 * ts.ts_numerator)\<close> makes every later
  operation a floating-point one. The floating-point operations are a parameter \<open>F\<close> of the
  functions: the conversion of an integer, which raises \<^verbatim>\<open>OverflowError\<close> when the integer is
  too large, the constant \<^verbatim>\<open>1.0\<close>, addition, multiplication, and division, which raises
  \<^verbatim>\<open>ZeroDivisionError\<close> when the divisor is zero. Python's own operations are \<open>python_float\<close>
  below.
\<close>

record ts_item =
  continuousTime :: nat
  time_stamp :: int
  ts_numerator :: nat
  ts_denominator :: nat

record 'f float_ops =
  f_of_int :: "int \<Rightarrow> exn + 'f"
  f_one :: 'f
  f_add :: "'f \<Rightarrow> 'f \<Rightarrow> 'f"
  f_mul :: "'f \<Rightarrow> 'f \<Rightarrow> 'f"
  f_div :: "'f \<Rightarrow> 'f \<Rightarrow> exn + 'f"

text \<open>
  The \<^verbatim>\<open>for\<close> loop of \<^verbatim>\<open>_FindClosestTimesyncItemInList\<close>: it stops at the first item that is
  later than \<open>ct\<close> and keeps the last item seen before.
\<close>

fun closest_loop :: "ts_item \<Rightarrow> ts_item list \<Rightarrow> nat \<Rightarrow> ts_item" where
  "closest_loop closest_tsi [] ct = closest_tsi"
| "closest_loop closest_tsi (item # items) ct =
     (if continuousTime item > ct then closest_tsi else closest_loop item items ct)"

text \<open>
  \<^verbatim>\<open>_FindClosestTimesyncItemInList\<close>: \<^verbatim>\<open>if not ts_items: return None\<close> answers \<^verbatim>\<open>None\<close> for
  \<^verbatim>\<open>None\<close> and for the empty list; otherwise the loop starts from \<^verbatim>\<open>ts_items[0]\<close> and runs
  over all items.
\<close>

definition FindClosestTimesyncItemInList :: "ts_item list option \<Rightarrow> nat \<Rightarrow> ts_item option" where
  "FindClosestTimesyncItemInList ts_items ct =
     (case ts_items of
        None \<Rightarrow> None
      | Some [] \<Rightarrow> None
      | Some (first # rest) \<Rightarrow> Some (closest_loop first (first # rest) ct))"

text \<open>
  The expression
  \<^verbatim>\<open>ts.time_stamp + (ct - ts.continuousTime) * (1.0 * ts.ts_numerator) / ts.ts_denominator\<close>
  in the order in which Python evaluates it: \<^verbatim>\<open>1.0 * ts.ts_numerator\<close> converts the numerator;
  the product converts the integer \<^verbatim>\<open>ct - ts.continuousTime\<close>; the division converts the
  denominator and raises when it is zero; the sum converts the stamp.
\<close>

definition time_of_item :: "'f float_ops \<Rightarrow> ts_item \<Rightarrow> nat \<Rightarrow> exn + 'f" where
  "time_of_item F ts ct =
     (case f_of_int F (int (ts_numerator ts)) of
        Inl e \<Rightarrow> Inl e
      | Inr num \<Rightarrow>
         (case f_of_int F (int ct - int (continuousTime ts)) of
            Inl e \<Rightarrow> Inl e
          | Inr elapsed \<Rightarrow>
             (case f_of_int F (int (ts_denominator ts)) of
                Inl e \<Rightarrow> Inl e
              | Inr den \<Rightarrow>
                 (case f_div F (f_mul F elapsed (f_mul F (f_one F) num)) den of
                    Inl e \<Rightarrow> Inl e
                  | Inr quot \<Rightarrow>
                     (case f_of_int F (time_stamp ts) of
                        Inl e \<Rightarrow> Inl e
                      | Inr stamp \<Rightarrow> Inr (f_add F stamp quot))))))"

text \<open>
  \<^verbatim>\<open>time_from_continuoustime(ct, ts=None)\<close>: without an item it looks one up in
  \<^verbatim>\<open>self.boot_uuid_ts_list\<close>; when the lookup answers \<^verbatim>\<open>None\<close>, reading \<^verbatim>\<open>ts.time_stamp\<close> raises
  \<^verbatim>\<open>AttributeError\<close>.
\<close>

definition time_from_continuoustime ::
  "'f float_ops \<Rightarrow> ts_item list option \<Rightarrow> nat \<Rightarrow> ts_item option \<Rightarrow> exn + 'f" where
  "time_from_continuoustime F boot_uuid_ts_list ct ts =
     (case (case ts of None \<Rightarrow> FindClosestTimesyncItemInList boot_uuid_ts_list ct
                     | Some t \<Rightarrow> Some t) of
        None \<Rightarrow> Inl AttributeError
      | Some t \<Rightarrow> time_of_item F t ct)"

text \<open>The items of a list that are not later than \<open>ct\<close>.\<close>

definition items_upto :: "ts_item list \<Rightarrow> nat \<Rightarrow> ts_item list" where
  "items_upto items ct = filter (\<lambda>i. continuousTime i \<le> ct) items"

subsection \<open>Python's floating-point numbers\<close>

text \<open>
  A Python \<^verbatim>\<open>float\<close> is an IEEE 754 binary64 number: a rational \<open>m * 2 ^ (e - 52)\<close> with an
  integer \<open>\<bar>m\<bar> < 2 ^ 53\<close> and \<open>- 1022 \<le> e \<le> 1023\<close>, an infinity, or not a number. The two
  zeros \<^verbatim>\<open>0.0\<close> and \<^verbatim>\<open>-0.0\<close> are one value here: they are equal in Python, a division by either
  raises, and a sum \<open>x + y\<close> with \<open>x\<close> converted from an integer never is \<^verbatim>\<open>-0.0\<close>.

  Every operation gives the exact result rounded to the nearest such number, to the one
  with the even \<open>m\<close> when two are equally near: \<open>ilog2 x\<close> is the exponent \<open>e\<close> with
  \<open>2 ^ e \<le> x < 2 ^ (e + 1)\<close>, the numbers near \<open>x\<close> are the multiples of \<open>2 ^ (e - 52)\<close>,
  of \<open>2 ^ (- 1074)\<close> for the smallest \<open>x\<close>, and a result of \<open>2 ^ 1024\<close> or more is an infinity.
\<close>

datatype pyfloat = Finite rat | PosInf | NegInf | NaN

definition pow2 :: "int \<Rightarrow> rat" where
  "pow2 e = (if 0 \<le> e then 2 ^ nat e else 1 / 2 ^ nat (- e))"

definition ilog2 :: "rat \<Rightarrow> int" where
  "ilog2 x = (if 1 \<le> x then bitlen \<lfloor>x\<rfloor> - 1 else - bitlen (\<lceil>1 / x\<rceil> - 1))"

definition round_half_even :: "rat \<Rightarrow> int" where
  "round_half_even x =
     (if x - of_int \<lfloor>x\<rfloor> < 1 / 2 then \<lfloor>x\<rfloor>
      else if 1 / 2 < x - of_int \<lfloor>x\<rfloor> then \<lfloor>x\<rfloor> + 1
      else if even \<lfloor>x\<rfloor> then \<lfloor>x\<rfloor> else \<lfloor>x\<rfloor> + 1)"

definition round_double :: "rat \<Rightarrow> pyfloat" where
  "round_double x =
     (if x = 0 then Finite 0
      else
        (let e = max (ilog2 \<bar>x\<bar>) (- 1022);
             m = round_half_even (x / pow2 (e - 52))
         in if 1023 < e \<or> (e = 1023 \<and> 2 ^ 53 \<le> \<bar>m\<bar>)
            then (if 0 < x then PosInf else NegInf)
            else Finite (of_int m * pow2 (e - 52))))"

text \<open>
  The conversion of an integer raises \<^verbatim>\<open>OverflowError\<close> instead of giving an infinity. The
  arithmetic operations on two finite numbers round the exact result; the other cases are
  those of IEEE 754. A division by zero raises \<^verbatim>\<open>ZeroDivisionError\<close>.
\<close>

definition float_of_int :: "int \<Rightarrow> exn + pyfloat" where
  "float_of_int i =
     (case round_double (of_int i) of Finite y \<Rightarrow> Inr (Finite y) | _ \<Rightarrow> Inl OverflowError)"

definition is_negative :: "pyfloat \<Rightarrow> bool" where
  "is_negative x = (case x of Finite a \<Rightarrow> a < 0 | NegInf \<Rightarrow> True | _ \<Rightarrow> False)"

definition signed_inf :: "bool \<Rightarrow> pyfloat" where
  "signed_inf negative = (if negative then NegInf else PosInf)"

definition float_mul :: "pyfloat \<Rightarrow> pyfloat \<Rightarrow> pyfloat" where
  "float_mul x y =
     (case (x, y) of
        (Finite a, Finite b) \<Rightarrow> round_double (a * b)
      | _ \<Rightarrow>
          if x = NaN \<or> y = NaN \<or> x = Finite 0 \<or> y = Finite 0 then NaN
          else signed_inf (is_negative x \<noteq> is_negative y))"

definition float_div :: "pyfloat \<Rightarrow> pyfloat \<Rightarrow> exn + pyfloat" where
  "float_div x y =
     (if y = Finite 0 then Inl ZeroDivisionError
      else Inr (case (x, y) of
                  (Finite a, Finite b) \<Rightarrow> round_double (a / b)
                | (Finite a, _) \<Rightarrow> if y = NaN then NaN else Finite 0
                | (_, Finite b) \<Rightarrow>
                    if x = NaN then NaN else signed_inf (is_negative x \<noteq> is_negative y)
                | _ \<Rightarrow> NaN))"

definition float_add :: "pyfloat \<Rightarrow> pyfloat \<Rightarrow> pyfloat" where
  "float_add x y =
     (case (x, y) of
        (Finite a, Finite b) \<Rightarrow> round_double (a + b)
      | _ \<Rightarrow>
          if x = NaN \<or> y = NaN then NaN
          else if x = PosInf \<and> y = NegInf \<or> x = NegInf \<and> y = PosInf then NaN
          else (case x of Finite a \<Rightarrow> y | _ \<Rightarrow> x))"

definition python_float :: "pyfloat float_ops" where
  "python_float =
     \<lparr>f_of_int = float_of_int, f_one = Finite 1, f_add = float_add, f_mul = float_mul,
      f_div = float_div\<rparr>"

text \<open>
  Concrete timesync items: a list of two items with the rate \<open>125 / 3\<close>; the item of the
  conversion scenario of the specification, with a stamp in nanoseconds and the rate \<open>1 / 1\<close>;
  and an item whose denominator is zero.
\<close>

definition two_items :: "ts_item list" where
  "two_items =
     [\<lparr>continuousTime = 1000, time_stamp = 1600000000, ts_numerator = 125, ts_denominator = 3\<rparr>,
      \<lparr>continuousTime = 2000, time_stamp = 1600050000, ts_numerator = 125, ts_denominator = 3\<rparr>]"

definition scenario_item :: ts_item where
  "scenario_item =
     \<lparr>continuousTime = 1000, time_stamp = 1600000000000000000, ts_numerator = 1,
      ts_denominator = 1\<rparr>"

definition zero_denominator_item :: ts_item where
  "zero_denominator_item =
     \<lparr>continuousTime = 1000, time_stamp = 1600000000, ts_numerator = 125, ts_denominator = 0\<rparr>"

section \<open>The tracev3 file: chunks, data chunks and batches, \<^verbatim>\<open>tracev3_file.py\<close>\<close>

text \<open>
  The classes \<^verbatim>\<open>LogEntry\<close>, \<^verbatim>\<open>Catalog\<close>, \<^verbatim>\<open>ChunkMeta\<close>, \<^verbatim>\<open>ProcInfo\<close> and \<^verbatim>\<open>ExtraFileReference\<close>
  of the module \<^verbatim>\<open>resources\<close>, the class \<^verbatim>\<open>Uuidtext\<close> and the timesync objects are records of the
  attributes that \<^verbatim>\<open>tracev3_file.py\<close> reads and writes. The fields of a log entry are the
  arguments of \<^verbatim>\<open>resources.LogEntry(...)\<close> in their order, with the prefix \<open>le_\<close>; \<open>le_imageUUID\<close>
  is \<open>None\<close> for the empty string that the code uses when there is no sender image. A
  dictionary that is only read with \<^verbatim>\<open>get\<close> is an association list in which the first pair of
  a key counts.
\<close>

record 'f LogEntry =
  le_filename :: string
  le_log_file_pos :: nat
  le_ct :: nat
  le_time :: 'f
  le_thread :: nat
  le_log_type :: string
  le_act_id :: nat
  le_parentActivityIdentifier :: nat
  le_pid :: nat
  le_euid :: nat
  le_ttl :: int
  le_p_name :: string
  le_lib :: string
  le_sub_sys :: string
  le_cat :: string
  le_signpost_name :: string
  le_signpost_string :: string
  le_imageOffset :: int
  le_imageUUID :: "bytes option"
  le_processImageUUID :: bytes
  le_senderImagePath :: string
  le_processImagePath :: string
  le_log_msg :: string

record ExtraFileReference =
  ref_data_size :: nat
  ref_uuid_file_index :: int
  ref_v_offset :: nat
  ref_id :: int

record ProcInfo =
  pi_proc_id1 :: nat
  pi_proc_id2 :: nat
  pi_pid :: nat
  pi_euid :: nat
  pi_dsc_file_index :: int
  pi_uuid_file_index :: int
  pi_extra_file_refs :: "ExtraFileReference list"
  pi_items :: "(nat \<times> string \<times> string) list"

record Uuidtext =
  library_name :: string
  library_path :: string
  Uuid :: bytes
  ut_filename :: string

datatype file_object = DscObject string Dsc | UuidtextObject Uuidtext

record ChunkMeta =
  c_time_first :: nat
  c_time_last :: nat
  chunk_len :: nat
  compression_alg :: nat
  ProcInfo_Ids :: "nat list"
  StringIndexes :: "nat list"
  ProcInfos :: "(nat \<times> ProcInfo) list"

record Catalog =
  FileObjects :: "file_object list"
  Strings :: bytes
  catalog_ProcInfos :: "ProcInfo list"
  ChunkMetaInfo :: "ChunkMeta list"

record Timesync =
  ts_boot_uuid :: bytes
  ts_items :: "ts_item list"

text \<open>
  The attributes of a \<^verbatim>\<open>TraceV3\<close> object that parsing reads and writes: the boot identifier
  and the continuous time of the file header, the timesync items of that boot, the store of
  oversize payloads
  (\<^verbatim>\<open>self.large_data\<close>, a dictionary from \<^verbatim>\<open>data_ref_id << 64 | ct\<close> to bytes), the uuidtext
  files opened on demand, the file name and \<^verbatim>\<open>self._file.is_valid\<close>.
\<close>

record TraceV3 =
  header_item_continuousTime :: nat
  system_boot_uuid :: "bytes option"
  boot_uuid_ts_list :: "ts_item list option"
  large_data :: "nat \<Rightarrow> bytes option"
  other_uuidtext :: "(string \<times> Uuidtext) list"
  tv3_filename :: string
  tv3_is_valid :: bool

text \<open>
  The methods that the chunk walker calls are parameters: the parser of the file header,
  of the catalog chunk, the LZ4 decompression, and the four parsers of sub-chunks. A sub-chunk
  parser returns the log entries that it appends to \<^verbatim>\<open>logs\<close>, and the object as it leaves it.
\<close>

record 'f tv3_env =
  ParseFileHeader :: "TraceV3 \<Rightarrow> bytes \<Rightarrow> exn + TraceV3"
  ParseMetaChunk :: "TraceV3 \<Rightarrow> bytes \<Rightarrow> exn + (Catalog \<times> TraceV3)"
  DecompressChunkData :: "bytes \<Rightarrow> nat \<Rightarrow> exn + bytes"
  ParseFirehoseChunkData ::
    "TraceV3 \<Rightarrow> bytes \<Rightarrow> nat \<Rightarrow> Catalog \<Rightarrow> ProcInfo \<Rightarrow> exn + ('f LogEntry list \<times> TraceV3)"
  ParseOversizeChunkData :: "TraceV3 \<Rightarrow> bytes \<Rightarrow> nat \<Rightarrow> exn + TraceV3"
  ParseStateChunkData ::
    "TraceV3 \<Rightarrow> bytes \<Rightarrow> Catalog \<Rightarrow> ProcInfo \<Rightarrow> nat \<Rightarrow> exn + ('f LogEntry list \<times> TraceV3)"
  ParseSimpleDumpData ::
    "TraceV3 \<Rightarrow> bytes \<Rightarrow> Catalog \<Rightarrow> ProcInfo \<Rightarrow> nat \<Rightarrow> exn + ('f LogEntry list \<times> TraceV3)"

definition unpack_IIQ :: "bytes \<Rightarrow> exn + (nat \<times> nat \<times> nat)" where
  "unpack_IIQ d =
     (if length d \<noteq> 16 then Inl StructError
      else Inr (le_nat (slice d 0 4), le_nat (slice d 4 8), le_nat (slice d 8 16)))"

text \<open>The format \<^verbatim>\<open>'QII'\<close> has native byte order; it is little-endian here, 16 bytes.\<close>

definition unpack_QII :: "bytes \<Rightarrow> exn + (nat \<times> nat \<times> nat)" where
  "unpack_QII d =
     (if length d \<noteq> 16 then Inl StructError
      else Inr (le_nat (slice d 0 8), le_nat (slice d 8 12), le_nat (slice d 12 16)))"

text \<open>\<^verbatim>\<open>_ParseChunkHeaderData\<close>: tag, subtag and data size (the debug output is left out).\<close>

definition ParseChunkHeaderData :: "bytes \<Rightarrow> exn + (nat \<times> nat \<times> nat)" where
  "ParseChunkHeaderData chunk_header_data = unpack_IIQ chunk_header_data"

text \<open>\<^verbatim>\<open>GetProcInfo\<close>: \<^verbatim>\<open>chunk_meta.ProcInfos.get(proc_id2 | (proc_id1 << 32), None)\<close>.\<close>

definition GetProcInfo :: "nat \<Rightarrow> nat \<Rightarrow> ChunkMeta \<Rightarrow> ProcInfo option" where
  "GetProcInfo proc_id1 proc_id2 chunk_meta =
     map_of (ProcInfos chunk_meta) (proc_id2 OR push_bit 32 proc_id1)"

text \<open>\<^verbatim>\<open>_GetBootUuidTimeSyncList\<close>: the items of the first timesync with this boot identifier.\<close>

definition GetBootUuidTimeSyncList :: "Timesync list \<Rightarrow> bytes \<Rightarrow> ts_item list option" where
  "GetBootUuidTimeSyncList ts_list uuid =
     (case find (\<lambda>ts. ts_boot_uuid ts = uuid) ts_list of
        None \<Rightarrow> None
      | Some ts \<Rightarrow> Some (ts_items ts))"

text \<open>The dispatch on the tag of a sub-chunk, in \<^verbatim>\<open>ProcessDataChunk\<close>.\<close>

definition sub_chunk_dispatch ::
  "'f tv3_env \<Rightarrow> nat \<Rightarrow> TraceV3 \<Rightarrow> bytes \<Rightarrow> nat \<Rightarrow> Catalog \<Rightarrow> ProcInfo \<Rightarrow>
   exn + ('f LogEntry list \<times> TraceV3)" where
  "sub_chunk_dispatch E tag self data file_pos catalog proc_info =
     (if tag = 0x6001 then ParseFirehoseChunkData E self data file_pos catalog proc_info
      else if tag = 0x6002 then
        (case ParseOversizeChunkData E self data file_pos of
           Inl e \<Rightarrow> Inl e
         | Inr self' \<Rightarrow> Inr ([], self'))
      else if tag = 0x6003 then ParseStateChunkData E self data catalog proc_info file_pos
      else if tag = 0x6004 then ParseSimpleDumpData E self data catalog proc_info file_pos
      else Inr ([], self))"

text \<open>
  The padding after a sub-chunk that ends at \<open>pos\<close>: up to the next multiple of 8 counted from
  \<open>start_skew\<close>; after a firehose chunk only when the next byte is zero.
\<close>

definition sub_chunk_pad_len :: "nat \<Rightarrow> bytes \<Rightarrow> nat \<Rightarrow> nat \<Rightarrow> nat \<Rightarrow> nat" where
  "sub_chunk_pad_len tag chunk_data chunk_data_size pos start_skew =
     (if (pos - start_skew) mod 8 \<noteq> 0 then
        (if tag = 0x6001 then
           (if pos + 1 < chunk_data_size \<and> slice chunk_data pos (pos + 1) = [0]
            then 8 - (pos - start_skew) mod 8
            else 0)
         else 8 - (pos - start_skew) mod 8)
      else 0)"

text \<open>
  The loop of \<^verbatim>\<open>ProcessDataChunk\<close> over the sub-chunks of a decompressed data chunk. When
  \<^verbatim>\<open>GetProcInfo\<close> answers \<^verbatim>\<open>None\<close>, the branch \<^verbatim>\<open>if not proc_info:\<close> logs an error and moves
  \<^verbatim>\<open>pos\<close>, but it does not leave the loop body: the next statement, \<^verbatim>\<open>pid = proc_info.pid\<close>,
  raises \<^verbatim>\<open>AttributeError\<close>. \<open>new\<close> collects the entries appended to \<^verbatim>\<open>logs\<close>.
\<close>

function ProcessDataChunk_loop ::
  "'f tv3_env \<Rightarrow> bytes \<Rightarrow> nat \<Rightarrow> Catalog \<Rightarrow> ChunkMeta \<Rightarrow> nat \<Rightarrow> nat \<Rightarrow> TraceV3 \<Rightarrow>
   'f LogEntry list \<Rightarrow> exn + ('f LogEntry list \<times> TraceV3)" where
  "ProcessDataChunk_loop E chunk_data chunk_data_size catalog chunk_meta debug_file_pos pos self new =
     (if pos + 16 < chunk_data_size then
        (case ParseChunkHeaderData (slice chunk_data pos (pos + 16)) of
           Inl e \<Rightarrow> Inl e
         | Inr (tag, subtag, data_size) \<Rightarrow>
            (case unpack_QII (slice chunk_data (pos + 16) (pos + 32)) of
               Inl e \<Rightarrow> Inl e
             | Inr (proc_id1, proc_id2, ttl) \<Rightarrow>
                (case GetProcInfo proc_id1 proc_id2 chunk_meta of
                   None \<Rightarrow> Inl AttributeError
                 | Some proc_info \<Rightarrow>
                    (case sub_chunk_dispatch E tag self
                            (slice chunk_data (pos + 16) (pos + 16 + data_size))
                            (debug_file_pos + (pos + 16)) catalog proc_info of
                       Inl e \<Rightarrow> Inl e
                     | Inr (entries, self') \<Rightarrow>
                         ProcessDataChunk_loop E chunk_data chunk_data_size catalog chunk_meta
                           debug_file_pos
                           (pos + 16 + data_size +
                              sub_chunk_pad_len tag chunk_data chunk_data_size
                                (pos + 16 + data_size) ((pos + 16) mod 8))
                           self' (new @ entries)))))
      else Inr (new, self))"
  by pat_completeness auto
termination
  by (relation "measure (\<lambda>(E, chunk_data, chunk_data_size, catalog, chunk_meta, debug_file_pos,
        pos, self, new). chunk_data_size - pos)") auto

declare ProcessDataChunk_loop.simps [simp del]

text \<open>
  \<^verbatim>\<open>ProcessDataChunk\<close>: \<^verbatim>\<open>catalog\<close> is \<^verbatim>\<open>None\<close> until a catalog chunk was read, and then
  \<^verbatim>\<open>catalog.ChunkMetaInfo\<close> raises \<^verbatim>\<open>AttributeError\<close>; an index beyond the list raises
  \<^verbatim>\<open>IndexError\<close>.
\<close>

definition ProcessDataChunk ::
  "'f tv3_env \<Rightarrow> TraceV3 \<Rightarrow> bytes \<Rightarrow> nat \<Rightarrow> Catalog option \<Rightarrow> nat \<Rightarrow> nat \<Rightarrow>
   exn + ('f LogEntry list \<times> TraceV3)" where
  "ProcessDataChunk E self chunk_data chunk_data_size catalog meta_chunk_index debug_file_pos =
     (case catalog of
        None \<Rightarrow> Inl AttributeError
      | Some c \<Rightarrow>
          if length (ChunkMetaInfo c) \<le> meta_chunk_index then Inl IndexError
          else ProcessDataChunk_loop E chunk_data chunk_data_size c
                 (ChunkMetaInfo c ! meta_chunk_index) debug_file_pos 0 self [])"

text \<open>
  \<^verbatim>\<open>_DecompressChunkData\<close>: the body of a compressed chunk is a sequence of blocks, \<^verbatim>\<open>bv41\<close>
  (LZ4 with the previous output as dictionary), \<^verbatim>\<open>bv4-\<close> (stored bytes), ended by \<^verbatim>\<open>bv4$\<close>.
  \<^verbatim>\<open>lz4.block.decompress\<close> is the parameter \<open>lz4\<close> (compressed bytes, uncompressed size,
  dictionary). Any other block tag ends the loop with what was decompressed so far.
\<close>

definition bv41 :: bytes where "bv41 = [0x62, 0x76, 0x34, 0x31]"
definition bv4_raw :: bytes where "bv4_raw = [0x62, 0x76, 0x34, 0x2D]"
definition bv4_end :: bytes where "bv4_end = [0x62, 0x76, 0x34, 0x24]"

function DecompressChunkData_loop ::
  "(bytes \<Rightarrow> nat \<Rightarrow> bytes \<Rightarrow> exn + bytes) \<Rightarrow> bytes \<Rightarrow> nat \<Rightarrow> nat \<Rightarrow> bytes \<Rightarrow> bytes \<Rightarrow>
   exn + bytes" where
  "DecompressChunkData_loop lz4 chunk_data data_length comp_start last_uncompressed uncompressed =
     (if data_length > comp_start \<and> slice chunk_data comp_start (comp_start + 4) \<noteq> bv4_end then
        (if slice chunk_data comp_start (comp_start + 4) = bv41 then
           (case unpack_II (slice chunk_data (comp_start + 4) (comp_start + 12)) of
              Inl e \<Rightarrow> Inl e
            | Inr (uncompressed_size, compressed_size) \<Rightarrow>
               (case lz4 (slice chunk_data (comp_start + 12) (comp_start + 12 + compressed_size))
                       uncompressed_size last_uncompressed of
                  Inl e \<Rightarrow> Inl e
                | Inr out \<Rightarrow>
                    DecompressChunkData_loop lz4 chunk_data data_length
                      (comp_start + (12 + compressed_size)) out (uncompressed @ out)))
         else if slice chunk_data comp_start (comp_start + 4) = bv4_raw then
           (case unpack_I (slice chunk_data (comp_start + 4) (comp_start + 8)) of
              Inl e \<Rightarrow> Inl e
            | Inr uncompressed_size \<Rightarrow>
                DecompressChunkData_loop lz4 chunk_data data_length
                  (comp_start + (8 + uncompressed_size)) last_uncompressed
                  (uncompressed @
                     slice chunk_data (comp_start + 8) (comp_start + 8 + uncompressed_size)))
         else Inr uncompressed)
      else Inr uncompressed)"
  by pat_completeness auto
termination
  by (relation "measure (\<lambda>(lz4, chunk_data, data_length, comp_start, last_uncompressed,
        uncompressed). data_length - comp_start)") auto

declare DecompressChunkData_loop.simps [simp del]

definition TraceV3_DecompressChunkData ::
  "(bytes \<Rightarrow> nat \<Rightarrow> bytes \<Rightarrow> exn + bytes) \<Rightarrow> bytes \<Rightarrow> nat \<Rightarrow> exn + bytes" where
  "TraceV3_DecompressChunkData lz4 chunk_data data_length =
     (if slice chunk_data 0 4 = bv41 \<or> slice chunk_data 0 4 = bv4_raw
      then DecompressChunkData_loop lz4 chunk_data data_length 0 [] []
      else Inr [])"

text \<open>
  The local variables of the loop of \<^verbatim>\<open>_ParseFileObject\<close> over the chunks of the file, with the
  object itself and the batches that the callback \<^verbatim>\<open>log_list_process_func\<close> has received.
\<close>

record 'f chunk_state =
  cs_pos :: nat
  cs_uncompressed_file_pos :: nat
  cs_catalog :: "Catalog option"
  cs_meta_chunk_index :: nat
  cs_logs :: "'f LogEntry list"
  cs_delivered :: "'f LogEntry list list"
  cs_self :: TraceV3

text \<open>
  What one chunk does, by its tag: the catalog and the index of the next chunk meta after it,
  the number of bytes it adds to the uncompressed file position, the log entries it appends
  to \<^verbatim>\<open>logs\<close>, and the object. A catalog chunk (\<^verbatim>\<open>0x600B\<close>) replaces the catalog; a compressed
  chunk (\<^verbatim>\<open>0x600D\<close>) is decompressed and processed at \<^verbatim>\<open>uncompressed_file_pos + 16\<close>; any other
  chunk is skipped.
\<close>

definition chunk_by_tag ::
  "'f tv3_env \<Rightarrow> TraceV3 \<Rightarrow> Catalog option \<Rightarrow> nat \<Rightarrow> nat \<Rightarrow> nat \<Rightarrow> bytes \<Rightarrow> nat \<Rightarrow>
   exn + (Catalog option \<times> nat \<times> nat \<times> 'f LogEntry list \<times> TraceV3)" where
  "chunk_by_tag E self catalog meta_chunk_index uncompressed_file_pos tag chunk_data chunk_data_size =
     (if tag = 0x600B then
        (case ParseMetaChunk E self chunk_data of
           Inl e \<Rightarrow> Inl e
         | Inr (catalog', self') \<Rightarrow> Inr (Some catalog', 0, 16 + chunk_data_size, [], self'))
      else if tag = 0x600D then
        (case DecompressChunkData E chunk_data chunk_data_size of
           Inl e \<Rightarrow> Inl e
         | Inr uncompressed_chunk_data \<Rightarrow>
            (case ProcessDataChunk E self uncompressed_chunk_data
                    (length uncompressed_chunk_data) catalog meta_chunk_index
                    (uncompressed_file_pos + 16) of
               Inl e \<Rightarrow> Inl e
             | Inr (new, self') \<Rightarrow>
                 Inr (catalog, meta_chunk_index + 1, 16 + length uncompressed_chunk_data,
                      new, self')))
      else Inr (catalog, meta_chunk_index, 16 + chunk_data_size, [], self))"

text \<open>
  One round of the loop: the chunk at \<open>cs_pos\<close> is read and handled by its tag; then
  \<^verbatim>\<open>chunk_data_size\<close> is rounded up to a multiple of 8, the uncompressed file position gets
  \<^verbatim>\<open>8 - (chunk_data_size % 8)\<close> added when it is not a multiple of 8 (with the
  \<^verbatim>\<open>chunk_data_size\<close> that was just rounded), the position moves to the next chunk, and the
  pending entries go to the callback when there is one and they are more than 100000.
  \<open>has_callback\<close> says whether \<^verbatim>\<open>log_list_process_func\<close> was given.
\<close>

definition TraceV3_chunk_step ::
  "'f tv3_env \<Rightarrow> bool \<Rightarrow> bytes \<Rightarrow> 'f chunk_state \<Rightarrow> exn + 'f chunk_state" where
  "TraceV3_chunk_step E has_callback file_content s =
     (case ParseChunkHeaderData (slice file_content (cs_pos s) (cs_pos s + 16)) of
        Inl e \<Rightarrow> Inl e
      | Inr (tag, subtag, chunk_data_size) \<Rightarrow>
         (case chunk_by_tag E (cs_self s) (cs_catalog s) (cs_meta_chunk_index s)
                 (cs_uncompressed_file_pos s) tag
                 (slice file_content (cs_pos s + 16) (cs_pos s + 16 + chunk_data_size))
                 chunk_data_size of
            Inl e \<Rightarrow> Inl e
          | Inr (catalog, meta_chunk_index, advance, new, self') \<Rightarrow>
             (let logs = cs_logs s @ new;
                  uncompressed_file_pos = cs_uncompressed_file_pos s + advance;
                  chunk_data_size2 =
                    (if chunk_data_size mod 8 \<noteq> 0
                     then chunk_data_size + (8 - chunk_data_size mod 8) else chunk_data_size);
                  uncompressed_file_pos2 =
                    (if uncompressed_file_pos mod 8 \<noteq> 0
                     then uncompressed_file_pos + (8 - chunk_data_size2 mod 8)
                     else uncompressed_file_pos);
                  s' = s\<lparr>cs_pos := cs_pos s + 16 + chunk_data_size2,
                         cs_uncompressed_file_pos := uncompressed_file_pos2,
                         cs_catalog := catalog, cs_meta_chunk_index := meta_chunk_index,
                         cs_self := self'\<rparr>
              in if has_callback \<and> length logs > 100000
                 then Inr (s'\<lparr>cs_logs := [], cs_delivered := cs_delivered s @ [logs]\<rparr>)
                 else Inr (s'\<lparr>cs_logs := logs\<rparr>))))"

text \<open>
  The loop \<^verbatim>\<open>while pos < self._file_size\<close>. It returns the state in which it stopped and the
  exception that stopped it, if any.
\<close>

function TraceV3_chunk_loop ::
  "'f tv3_env \<Rightarrow> bool \<Rightarrow> bytes \<Rightarrow> nat \<Rightarrow> 'f chunk_state \<Rightarrow> 'f chunk_state \<times> exn option" where
  "TraceV3_chunk_loop E has_callback file_content file_size s =
     (if cs_pos s < file_size then
        (case TraceV3_chunk_step E has_callback file_content s of
           Inl e \<Rightarrow> (s, Some e)
         | Inr s' \<Rightarrow> TraceV3_chunk_loop E has_callback file_content file_size s')
      else (s, None))"
  by pat_completeness auto
termination
  apply (relation "measure (\<lambda>(E, has_callback, file_content, file_size, s). file_size - cs_pos s)")
   apply simp
  apply (auto simp: TraceV3_chunk_step_def Let_def split: sum.splits prod.splits if_splits)
  done

declare TraceV3_chunk_loop.simps [simp del]

text \<open>
  The state after \<open>n\<close> rounds of the loop that end without an exception, if there are that
  many.
\<close>

fun chunk_steps ::
  "'f tv3_env \<Rightarrow> bool \<Rightarrow> bytes \<Rightarrow> nat \<Rightarrow> nat \<Rightarrow> 'f chunk_state \<Rightarrow> 'f chunk_state option" where
  "chunk_steps E has_callback file_content file_size 0 s = Some s"
| "chunk_steps E has_callback file_content file_size (Suc n) s =
     (if cs_pos s < file_size then
        (case TraceV3_chunk_step E has_callback file_content s of
           Inl e \<Rightarrow> None
         | Inr s' \<Rightarrow> chunk_steps E has_callback file_content file_size n s')
      else None)"

text \<open>
  The start of \<^verbatim>\<open>TraceV3._ParseFileObject\<close>, up to the loop: the first chunk must have tag
  \<^verbatim>\<open>0x1000\<close> and subtag \<^verbatim>\<open>0x11\<close>; its data is the file header; when the header names a boot
  identifier, its timesync items must exist. The result is the state in which the loop starts.
\<close>

definition TraceV3_open ::
  "'f tv3_env \<Rightarrow> Timesync list \<Rightarrow> TraceV3 \<Rightarrow> bytes \<Rightarrow> (TraceV3 \<times> exn) + 'f chunk_state" where
  "TraceV3_open E ts_list self file_content =
     (case ParseChunkHeaderData (slice file_content 0 16) of
        Inl e \<Rightarrow> Inl (self, e)
      | Inr (tag, subtag, chunk_data_size) \<Rightarrow>
          if tag \<noteq> 0x1000 then Inl (self, ValueError)
          else if subtag \<noteq> 0x11 then Inl (self, ValueError)
          else
            (case ParseFileHeader E self (slice file_content 16 (16 + chunk_data_size)) of
               Inl e \<Rightarrow> Inl (self, e)
             | Inr self1 \<Rightarrow>
                (let self2 =
                       (case system_boot_uuid self1 of
                          None \<Rightarrow> self1
                        | Some uuid \<Rightarrow>
                            self1\<lparr>boot_uuid_ts_list := GetBootUuidTimeSyncList ts_list uuid\<rparr>)
                 in if system_boot_uuid self1 \<noteq> None \<and> boot_uuid_ts_list self2 = None
                    then Inl (self2, ValueError)
                    else Inr \<lparr>cs_pos = 16 + chunk_data_size,
                              cs_uncompressed_file_pos = 16 + chunk_data_size,
                              cs_catalog = None, cs_meta_chunk_index = 0, cs_logs = [],
                              cs_delivered = [], cs_self = self2\<rparr>)))"

text \<open>
  \<^verbatim>\<open>TraceV3._ParseFileObject\<close>: the start, the loop, and after the loop the pending entries go
  to the callback when there is one and they are not empty. The method has no \<^verbatim>\<open>return\<close>
  statement: when it ends without an exception its value is \<^verbatim>\<open>None\<close>. The result is the list
  of batches that the callback received, the object, and the exception that ended the method,
  if any.
\<close>

definition TraceV3_ParseFileObject ::
  "'f tv3_env \<Rightarrow> Timesync list \<Rightarrow> TraceV3 \<Rightarrow> bytes \<Rightarrow> nat \<Rightarrow> bool \<Rightarrow>
   'f LogEntry list list \<times> TraceV3 \<times> exn option" where
  "TraceV3_ParseFileObject E ts_list self file_content file_size has_callback =
     (case TraceV3_open E ts_list self file_content of
        Inl (self', e) \<Rightarrow> ([], self', Some e)
      | Inr s0 \<Rightarrow>
         (case TraceV3_chunk_loop E has_callback file_content file_size s0 of
            (s, Some e) \<Rightarrow> (cs_delivered s, cs_self s, Some e)
          | (s, None) \<Rightarrow>
              (if has_callback \<and> length (cs_logs s) > 0
               then cs_delivered s @ [cs_logs s] else cs_delivered s,
               cs_self s, None)))"

text \<open>
  \<^verbatim>\<open>TraceV3.Parse\<close>: \<open>opened\<close> is the content of the file when \<^verbatim>\<open>self._file.open()\<close> gave a
  file object, \<open>file_size\<close> what \<^verbatim>\<open>get_file_size()\<close> answers. The exceptions
  \<^verbatim>\<open>AttributeError\<close>, \<^verbatim>\<open>IOError\<close>, \<^verbatim>\<open>OSError\<close>, \<^verbatim>\<open>ValueError\<close> and \<^verbatim>\<open>struct.error\<close> are caught and
  make the result \<^verbatim>\<open>False\<close>; any other exception leaves \<^verbatim>\<open>Parse\<close>. The returned value is
  \<open>Inr (Some b)\<close> for the Boolean \<open>b\<close> and \<open>Inr None\<close> for \<^verbatim>\<open>None\<close>, the value of
  \<^verbatim>\<open>_ParseFileObject\<close> when it ends normally; \<^verbatim>\<open>if not result\<close> holds for both \<^verbatim>\<open>False\<close> and
  \<^verbatim>\<open>None\<close>.
\<close>

definition TraceV3_Parse ::
  "'f tv3_env \<Rightarrow> Timesync list \<Rightarrow> TraceV3 \<Rightarrow> bytes option \<Rightarrow> nat \<Rightarrow> bool \<Rightarrow>
   'f LogEntry list list \<times> TraceV3 \<times> (exn + bool option)" where
  "TraceV3_Parse E ts_list self opened file_size has_callback =
     (case opened of
        None \<Rightarrow> ([], self, Inr (Some False))
      | Some file_content \<Rightarrow>
          (case TraceV3_ParseFileObject E ts_list self file_content file_size has_callback of
             (delivered, self', Some e) \<Rightarrow>
               if e = AttributeError \<or> e = IOError \<or> e = OSError \<or> e = ValueError \<or> e = StructError
               then (delivered, self'\<lparr>tv3_is_valid := False\<rparr>, Inr (Some False))
               else (delivered, self', Inl e)
           | (delivered, self', None) \<Rightarrow>
               (delivered, self'\<lparr>tv3_is_valid := False\<rparr>, Inr None)))"

section \<open>The file header and the catalog chunk, \<^verbatim>\<open>tracev3_file.py\<close>\<close>

text \<open>
  More of \<^verbatim>\<open>struct.unpack\<close>: an unsigned number of \<open>n\<close> bytes, the signed 16-bit number of the
  format \<^verbatim>\<open>h\<close>, a sequence of 16-bit numbers (\<^verbatim>\<open>'<{n}H'\<close>), and the formats of the catalog chunk.
  \<^verbatim>\<open>binascii.hexlify(...).upper()\<close> writes every byte as two upper-case hexadecimal digits.
\<close>

definition unpack_uint :: "nat \<Rightarrow> bytes \<Rightarrow> exn + nat" where
  "unpack_uint n d = (if length d \<noteq> n then Inl StructError else Inr (le_nat d))"

definition le_int16 :: "bytes \<Rightarrow> int" where
  "le_int16 d = (if le_nat d < 32768 then int (le_nat d) else int (le_nat d) - 65536)"

definition unpack_h :: "bytes \<Rightarrow> exn + int" where
  "unpack_h d = (if length d \<noteq> 2 then Inl StructError else Inr (le_int16 d))"

fun le_nat16_list :: "bytes \<Rightarrow> nat list" where
  "le_nat16_list (a # b # rest) = le_nat [a, b] # le_nat16_list rest"
| "le_nat16_list rest = []"

definition unpack_many_H :: "nat \<Rightarrow> bytes \<Rightarrow> exn + nat list" where
  "unpack_many_H n d = (if length d \<noteq> 2 * n then Inl StructError else Inr (le_nat16_list d))"

definition unpack_HHH :: "bytes \<Rightarrow> exn + (nat \<times> nat \<times> nat)" where
  "unpack_HHH d =
     (if length d \<noteq> 6 then Inl StructError
      else Inr (le_nat (slice d 0 2), le_nat (slice d 2 4), le_nat (slice d 4 6)))"

definition unpack_QQII :: "bytes \<Rightarrow> exn + (nat \<times> nat \<times> nat \<times> nat)" where
  "unpack_QQII d =
     (if length d \<noteq> 24 then Inl StructError
      else Inr (le_nat (slice d 0 8), le_nat (slice d 8 16), le_nat (slice d 16 20),
                le_nat (slice d 20 24)))"

definition unpack_HHHHQQ :: "bytes \<Rightarrow> exn + (nat \<times> nat \<times> nat \<times> nat \<times> nat \<times> nat)" where
  "unpack_HHHHQQ d =
     (if length d \<noteq> 24 then Inl StructError
      else Inr (le_nat (slice d 0 2), le_nat (slice d 2 4), le_nat (slice d 4 6),
                le_nat (slice d 6 8), le_nat (slice d 8 16), le_nat (slice d 16 24)))"

definition unpack_IIhIh :: "bytes \<Rightarrow> exn + (nat \<times> nat \<times> int \<times> nat \<times> int)" where
  "unpack_IIhIh d =
     (if length d \<noteq> 16 then Inl StructError
      else Inr (le_nat (slice d 0 4), le_nat (slice d 4 8), le_int16 (slice d 8 10),
                le_nat (slice d 10 14), le_int16 (slice d 14 16)))"

definition unpack_HHhhQIIIIII ::
  "bytes \<Rightarrow> exn + (nat \<times> nat \<times> int \<times> int \<times> nat \<times> nat \<times> nat \<times> nat \<times> nat \<times> nat \<times> nat)" where
  "unpack_HHhhQIIIIII d =
     (if length d \<noteq> 40 then Inl StructError
      else Inr (le_nat (slice d 0 2), le_nat (slice d 2 4), le_int16 (slice d 4 6),
                le_int16 (slice d 6 8), le_nat (slice d 8 16), le_nat (slice d 16 20),
                le_nat (slice d 20 24), le_nat (slice d 24 28), le_nat (slice d 28 32),
                le_nat (slice d 32 36), le_nat (slice d 36 40)))"

definition hex_digit_upper :: "nat \<Rightarrow> char" where
  "hex_digit_upper n = (''0123456789ABCDEF'') ! (n mod 16)"

definition hexlify_upper :: "bytes \<Rightarrow> string" where
  "hexlify_upper d =
     concat (map (\<lambda>b. [hex_digit_upper (unat b div 16), hex_digit_upper (unat b)]) d)"

text \<open>
  What the modelled methods call and is not modelled here is a parameter, collected in one
  record. Not part of these sources are: the floating-point operations; the methods
  \<^verbatim>\<open>_ReadAPFSTime\<close> and \<^verbatim>\<open>_ReadCString\<close> of the base class \<^verbatim>\<open>data_format.BinaryDataFormat\<close>; of the
  module \<^verbatim>\<open>resources\<close> the constructors of \<^verbatim>\<open>ProcInfo\<close> and \<^verbatim>\<open>ExtraFileReference\<close> (with the
  arguments of the call in their order) and the methods \<^verbatim>\<open>Catalog.GetProcInfoById\<close> and
  \<^verbatim>\<open>ProcInfo.GetSubSystemAndCategory\<close>; of the module \<^verbatim>\<open>uuidtext_file\<close> the creation of a
  \<^verbatim>\<open>Uuidtext\<close> object for a path, its \<^verbatim>\<open>Parse\<close> (the result and the object as parsed) and its
  \<^verbatim>\<open>ReadFmtStringFromVirtualOffset\<close>. Part of these sources, and parameters all the same, are
  \<^verbatim>\<open>ProcessReferencedFile\<close>, which opens files through the virtual file system (it gives the
  catalog and the object as it leaves them), the first component of
  \<^verbatim>\<open>Dsc.ReadFmtStringAndEntriesFromVirtualOffset\<close>, which reads the dsc file,
  \<^verbatim>\<open>ReadLogDataBuffer\<close>, \<^verbatim>\<open>ReadLogDataBuffer2\<close> and \<^verbatim>\<open>RecreateMsgFromFmtStringAndData\<close>. The items
  of a parsed log data buffer are of any type \<open>'i\<close>.
\<close>

record ('f, 'i) externals =
  fops :: "'f float_ops"
  ReadAPFSTime :: "'f \<Rightarrow> exn + string"
  ReadCString :: "bytes \<Rightarrow> exn + string"
  new_ProcInfo ::
    "nat \<Rightarrow> nat \<Rightarrow> int \<Rightarrow> int \<Rightarrow> nat \<Rightarrow> nat \<Rightarrow> nat \<Rightarrow> nat \<Rightarrow> nat \<Rightarrow> nat \<Rightarrow> nat \<Rightarrow> nat \<Rightarrow> nat \<Rightarrow>
     ExtraFileReference list \<Rightarrow> ProcInfo"
  new_ExtraFileReference :: "nat \<Rightarrow> int \<Rightarrow> nat \<Rightarrow> nat \<Rightarrow> int \<Rightarrow> ExtraFileReference"
  GetProcInfoById :: "Catalog \<Rightarrow> nat \<Rightarrow> exn + ProcInfo option"
  GetSubSystemAndCategory :: "ProcInfo \<Rightarrow> nat \<Rightarrow> exn + (string \<times> string)"
  new_Uuidtext :: "string \<Rightarrow> exn + Uuidtext"
  Uuidtext_Parse :: "Uuidtext \<Rightarrow> exn + (bool \<times> Uuidtext)"
  ut_ReadFmtStringFromVirtualOffset :: "Uuidtext \<Rightarrow> nat \<Rightarrow> exn + string"
  ProcessReferencedFile :: "TraceV3 \<Rightarrow> string \<Rightarrow> Catalog \<Rightarrow> exn + (Catalog \<times> TraceV3)"
  dsc_ReadFmtStringAndEntriesFromVirtualOffset :: "Dsc \<Rightarrow> nat \<Rightarrow> exn + string"
  ReadLogDataBuffer :: "bytes \<Rightarrow> int \<Rightarrow> bytes \<Rightarrow> bool \<Rightarrow> exn + 'i list"
  ReadLogDataBuffer2 :: "bytes \<Rightarrow> int \<Rightarrow> bytes \<Rightarrow> exn + 'i list"
  RecreateMsgFromFmtStringAndData :: "string \<Rightarrow> 'i list \<Rightarrow> nat \<Rightarrow> exn + string"

text \<open>
  \<^verbatim>\<open>DebugPrintTimestampFromContTime\<close> only logs, but to do so it computes the time when there
  is a timesync item.
\<close>

definition DebugPrintTimestampFromContTime ::
  "('f, 'i) externals \<Rightarrow> TraceV3 \<Rightarrow> nat \<Rightarrow> exn + unit" where
  "DebugPrintTimestampFromContTime X self ct =
     (case FindClosestTimesyncItemInList (boot_uuid_ts_list self) ct of
        None \<Rightarrow> Inr ()
      | Some ts \<Rightarrow>
         (case time_from_continuoustime (fops X) (boot_uuid_ts_list self) ct (Some ts) of
            Inl e \<Rightarrow> Inl e
          | Inr time \<Rightarrow>
             (case ReadAPFSTime X time of Inl e \<Rightarrow> Inl e | Inr time_string \<Rightarrow> Inr ())))"

text \<open>
  \<^verbatim>\<open>_ParseFileHeader\<close>. The first 40 bytes are unpacked into attributes that are not read again;
  then come the header items, each with an identifier and a length: the continuous time
  (\<^verbatim>\<open>0x6100\<close>, 8 bytes), the machine (\<^verbatim>\<open>0x6101\<close>, 8 and 48 bytes), the boot identifier
  (\<^verbatim>\<open>0x6102\<close>, 16 and 8 bytes) and the time zone (\<^verbatim>\<open>0x6103\<close>, 48 bytes). The result is the object
  with the attributes of the header; when the method raises, the attributes that it has
  written before are not reported.
\<close>

definition header_item :: "bytes \<Rightarrow> nat \<Rightarrow> nat \<Rightarrow> nat \<Rightarrow> TraceV3 \<Rightarrow> exn + TraceV3" where
  "header_item file_header_data item_id item_length pos self =
     (if item_id = 0x6100 then
        (case unpack_uint 8 (slice file_header_data pos (pos + item_length)) of
           Inl e \<Rightarrow> Inl e
         | Inr v \<Rightarrow> Inr (self\<lparr>header_item_continuousTime := v\<rparr>))
      else if item_id = 0x6101 then
        (if length (slice (slice file_header_data pos (pos + item_length)) 0 8) \<noteq> 8
         then Inl StructError
         else if length (drop 8 (slice file_header_data pos (pos + item_length))) \<noteq> 48
         then Inl StructError
         else Inr self)
      else if item_id = 0x6102 then
        (case UUID_of_bytes (slice file_header_data pos (pos + 16)) of
           Inl e \<Rightarrow> Inl e
         | Inr uuid \<Rightarrow>
             if length (slice file_header_data (pos + 16) (pos + item_length)) \<noteq> 8
             then Inl StructError
             else Inr (self\<lparr>system_boot_uuid := Some uuid\<rparr>))
      else if item_id = 0x6103 then
        (if length (slice file_header_data pos (pos + item_length)) \<noteq> 48 then Inl StructError
         else Inr self)
      else Inr self)"

function header_items_loop :: "bytes \<Rightarrow> nat \<Rightarrow> TraceV3 \<Rightarrow> exn + TraceV3" where
  "header_items_loop file_header_data pos self =
     (if pos < length file_header_data then
        (case unpack_II (slice file_header_data pos (pos + 8)) of
           Inl e \<Rightarrow> Inl e
         | Inr (item_id, item_length) \<Rightarrow>
            (case header_item file_header_data item_id item_length (pos + 8) self of
               Inl e \<Rightarrow> Inl e
             | Inr self' \<Rightarrow> header_items_loop file_header_data (pos + 8 + item_length) self'))
      else Inr self)"
  by pat_completeness auto
termination
  by (relation "measure (\<lambda>(file_header_data, pos, self). length file_header_data - pos)") auto

declare header_items_loop.simps [simp del]

definition TraceV3_ParseFileHeader ::
  "('f, 'i) externals \<Rightarrow> TraceV3 \<Rightarrow> bytes \<Rightarrow> exn + TraceV3" where
  "TraceV3_ParseFileHeader X self file_header_data =
     (if length (slice file_header_data 0 40) \<noteq> 40 then Inl StructError
      else
        (case header_items_loop file_header_data 40 self of
           Inl e \<Rightarrow> Inl e
         | Inr self' \<Rightarrow>
            (case DebugPrintTimestampFromContTime X self' (header_item_continuousTime self') of
               Inl e \<Rightarrow> Inl e
             | Inr u \<Rightarrow> Inr self')))"

text \<open>
  \<^verbatim>\<open>_ParseMetaChunk\<close>, the parser of the catalog chunk: a header of 24 bytes, the identifiers
  of the referenced files, the strings of subsystems and categories, the process
  information entries, and the chunk metas. Every loop runs on \<^verbatim>\<open>data_offset\<close>, which each
  function below returns as it leaves it. \<^verbatim>\<open>resources.Catalog()\<close> is the catalog with nothing in
  it, and a new \<^verbatim>\<open>ChunkMeta\<close> has no \<^verbatim>\<open>ProcInfos\<close>.
\<close>

definition empty_catalog :: Catalog where
  "empty_catalog = \<lparr>FileObjects = [], Strings = [], catalog_ProcInfos = [], ChunkMetaInfo = []\<rparr>"

function meta_files_loop ::
  "('f, 'i) externals \<Rightarrow> bytes \<Rightarrow> nat \<Rightarrow> nat \<Rightarrow> Catalog \<Rightarrow> TraceV3 \<Rightarrow>
   exn + (nat \<times> Catalog \<times> TraceV3)" where
  "meta_files_loop X chunk_data subsystem_strings_offset data_off catalog self =
     (if data_off < subsystem_strings_offset then
        (case ProcessReferencedFile X self
                (hexlify_upper (slice chunk_data data_off (data_off + 16))) catalog of
           Inl e \<Rightarrow> Inl e
         | Inr (catalog', self') \<Rightarrow>
             meta_files_loop X chunk_data subsystem_strings_offset (data_off + 16) catalog' self')
      else Inr (data_off, catalog, self))"
  by pat_completeness auto
termination
  by (relation "measure (\<lambda>(X, chunk_data, subsystem_strings_offset, data_off, catalog, self).
        subsystem_strings_offset - data_off)") auto

declare meta_files_loop.simps [simp del]

text \<open>The extra file references of a process information entry.\<close>

function meta_refs_loop ::
  "('f, 'i) externals \<Rightarrow> bytes \<Rightarrow> nat \<Rightarrow> nat \<Rightarrow> ExtraFileReference list \<Rightarrow>
   exn + (nat \<times> ExtraFileReference list)" where
  "meta_refs_loop X chunk_data uuid_infos_end_offset data_off extra_file_refs =
     (if data_off < uuid_infos_end_offset then
        (case unpack_IIhIh (slice chunk_data data_off (data_off + 16)) of
           Inl e \<Rightarrow> Inl e
         | Inr (r_data_size, r_u2, r_file_index, r_v_offset, r_id) \<Rightarrow>
             meta_refs_loop X chunk_data uuid_infos_end_offset (data_off + 16)
               (extra_file_refs @
                  [new_ExtraFileReference X r_data_size r_file_index r_u2 r_v_offset r_id]))
      else Inr (data_off, extra_file_refs))"
  by pat_completeness auto
termination
  by (relation "measure (\<lambda>(X, chunk_data, uuid_infos_end_offset, data_off, extra_file_refs).
        uuid_infos_end_offset - data_off)") auto

declare meta_refs_loop.simps [simp del]

text \<open>
  The subsystems and categories of a process information entry, written into its
  dictionary \<^verbatim>\<open>items\<close>.
\<close>

function meta_subsystems_loop ::
  "('f, 'i) externals \<Rightarrow> bytes \<Rightarrow> bytes \<Rightarrow> nat \<Rightarrow> nat \<Rightarrow> (nat \<times> string \<times> string) list \<Rightarrow>
   exn + (nat \<times> (nat \<times> string \<times> string) list)" where
  "meta_subsystems_loop X chunk_data strings sub_systems_end_offset data_off items =
     (if data_off < sub_systems_end_offset then
        (case unpack_HHH (slice chunk_data data_off (data_off + 6)) of
           Inl e \<Rightarrow> Inl e
         | Inr (item_id, subsystem_offset, category_offset) \<Rightarrow>
            (case ReadCString X (drop subsystem_offset strings) of
               Inl e \<Rightarrow> Inl e
             | Inr subsystem_string \<Rightarrow>
                (case ReadCString X (drop category_offset strings) of
                   Inl e \<Rightarrow> Inl e
                 | Inr category_string \<Rightarrow>
                     meta_subsystems_loop X chunk_data strings sub_systems_end_offset
                       (data_off + 6)
                       ((item_id, subsystem_string, category_string) # items))))
      else Inr (data_off, items))"
  by pat_completeness auto
termination
  by (relation "measure (\<lambda>(X, chunk_data, strings, sub_systems_end_offset, data_off, items).
        sub_systems_end_offset - data_off)") auto

declare meta_subsystems_loop.simps [simp del]

text \<open>
  One process information entry, read at \<^verbatim>\<open>data_offset\<close>: 40 bytes, the extra file references,
  8 bytes, the subsystems, and the padding to a multiple of 8. The entry is appended to
  \<^verbatim>\<open>catalog.ProcInfos\<close> before its dictionary \<^verbatim>\<open>items\<close> is written; here it is appended with
  the dictionary already written.
\<close>

definition meta_proc_info ::
  "('f, 'i) externals \<Rightarrow> bytes \<Rightarrow> nat \<Rightarrow> Catalog \<Rightarrow> exn + (nat \<times> Catalog)" where
  "meta_proc_info X chunk_data data_off catalog =
     (case unpack_HHhhQIIIIII (slice chunk_data data_off (data_off + 40)) of
        Inl e \<Rightarrow> Inl e
      | Inr (proc_id, flags, file_id, dsc_file_index, proc_id1, proc_id2, pid, euid, u6,
             num_extra_uuid_refs, u8) \<Rightarrow>
         (case meta_refs_loop X chunk_data (data_off + 40 + 16 * num_extra_uuid_refs)
                 (data_off + 40) [] of
            Inl e \<Rightarrow> Inl e
          | Inr (data_offset2, extra_file_refs) \<Rightarrow>
             (case unpack_II (slice chunk_data data_offset2 (data_offset2 + 8)) of
                Inl e \<Rightarrow> Inl e
              | Inr (num_subsys_cat_elements, u9) \<Rightarrow>
                 (let proc_info =
                        new_ProcInfo X proc_id flags file_id dsc_file_index proc_id1 proc_id2 pid euid
                          u6 num_extra_uuid_refs u8 num_subsys_cat_elements u9 extra_file_refs;
                      sub_systems_end_offset = data_offset2 + 8 + 6 * num_subsys_cat_elements
                  in case meta_subsystems_loop X chunk_data (Strings catalog)
                            sub_systems_end_offset (data_offset2 + 8) (pi_items proc_info) of
                       Inl e \<Rightarrow> Inl e
                     | Inr (data_offset3, items) \<Rightarrow>
                         Inr (if sub_systems_end_offset mod 8 > 0
                              then data_offset3 + (8 - sub_systems_end_offset mod 8)
                              else data_offset3,
                              catalog\<lparr>catalog_ProcInfos := catalog_ProcInfos catalog @
                                 [proc_info\<lparr>pi_items := items\<rparr>]\<rparr>)))))"

function meta_procs_loop ::
  "('f, 'i) externals \<Rightarrow> bytes \<Rightarrow> nat \<Rightarrow> nat \<Rightarrow> Catalog \<Rightarrow> exn + (nat \<times> Catalog)" where
  "meta_procs_loop X chunk_data chunk_meta_offset data_off catalog =
     (if data_off < chunk_meta_offset then
        (case meta_proc_info X chunk_data data_off catalog of
           Inl e \<Rightarrow> Inl e
         | Inr (data_off', catalog') \<Rightarrow>
             meta_procs_loop X chunk_data chunk_meta_offset data_off' catalog')
      else Inr (data_off, catalog))"
  by pat_completeness auto
termination
proof (relation "measure (\<lambda>(X, chunk_data, chunk_meta_offset, data_off, catalog).
        chunk_meta_offset - data_off)")
  show "wf (measure (\<lambda>(X :: ('f, 'i) externals, chunk_data :: bytes, chunk_meta_offset :: nat,
        data_off :: nat, catalog :: Catalog). chunk_meta_offset - data_off))"
    by simp
next
  fix X :: "('f, 'i) externals" and chunk_data :: bytes and chunk_meta_offset data_off :: nat
    and catalog :: Catalog and r and data_off' :: nat and catalog' :: Catalog
  assume lt: "data_off < chunk_meta_offset"
    and run: "meta_proc_info X chunk_data data_off catalog = Inr r"
    and r: "(data_off', catalog') = r"
  have refs: "meta_refs_loop X chunk_data e off refs = Inr (off', refs') \<Longrightarrow> off \<le> off'"
    for e off refs off' refs'
  proof (induction X chunk_data e off refs rule: meta_refs_loop.induct)
    case (1 X chunk_data e off refs)
    show ?case
    proof (cases "off < e")
      case False
      then show ?thesis using "1.prems" by (subst (asm) meta_refs_loop.simps) simp
    next
      case True
      obtain a b c d f where u: "unpack_IIhIh (slice chunk_data off (off + 16)) = Inr (a, b, c, d, f)"
        using True "1.prems"
        by (subst (asm) meta_refs_loop.simps) (auto split: sum.splits)
      have "meta_refs_loop X chunk_data e (off + 16)
              (refs @ [new_ExtraFileReference X a c b d f]) = Inr (off', refs')"
        using True "1.prems" u by (subst (asm) meta_refs_loop.simps) simp
      then have "off + 16 \<le> off'" using "1.IH"[OF True u refl refl refl refl] by simp
      then show ?thesis by simp
    qed
  qed
  have subs: "meta_subsystems_loop X chunk_data st e off its = Inr (off', its') \<Longrightarrow> off \<le> off'"
    for st e off its off' its'
  proof (induction X chunk_data st e off its rule: meta_subsystems_loop.induct)
    case (1 X chunk_data st e off its)
    show ?case
    proof (cases "off < e")
      case False
      then show ?thesis using "1.prems" by (subst (asm) meta_subsystems_loop.simps) simp
    next
      case True
      obtain a b c where u: "unpack_HHH (slice chunk_data off (off + 6)) = Inr (a, b, c)"
        using True "1.prems"
        by (subst (asm) meta_subsystems_loop.simps) (auto split: sum.splits)
      obtain s1 where s1: "ReadCString X (drop b st) = Inr s1"
        using True "1.prems" u
        by (subst (asm) meta_subsystems_loop.simps) (auto split: sum.splits)
      obtain s2 where s2: "ReadCString X (drop c st) = Inr s2"
        using True "1.prems" u s1
        by (subst (asm) meta_subsystems_loop.simps) (auto split: sum.splits)
      have "meta_subsystems_loop X chunk_data st e (off + 6) ((a, s1, s2) # its) = Inr (off', its')"
        using True "1.prems" u s1 s2 by (subst (asm) meta_subsystems_loop.simps) simp
      then have "off + 6 \<le> off'" using "1.IH"[OF True u refl refl s1 s2] by simp
      then show ?thesis by simp
    qed
  qed
  have "data_off < data_off'"
    using run r
    by (auto simp: meta_proc_info_def Let_def split: sum.splits prod.splits if_splits
        dest!: refs subs)
  then show "((X, chunk_data, chunk_meta_offset, data_off', catalog'),
              (X, chunk_data, chunk_meta_offset, data_off, catalog))
             \<in> measure (\<lambda>(X, chunk_data, chunk_meta_offset, data_off, catalog).
                   chunk_meta_offset - data_off)"
    using lt by simp
qed

declare meta_procs_loop.simps [simp del]

text \<open>
  One chunk meta, read at \<^verbatim>\<open>data_offset\<close>: 24 bytes, the identifiers of its process information
  entries, and its string indexes, padded to a multiple of 8. For every identifier that
  \<^verbatim>\<open>GetProcInfoById\<close> knows, the entry is written into the dictionary \<^verbatim>\<open>ProcInfos\<close> of the chunk
  meta under the key \<^verbatim>\<open>proc_id2 | (proc_id1 << 32)\<close>. The chunk meta is appended to
  \<^verbatim>\<open>catalog.ChunkMetaInfo\<close> as soon as it is created, so \<^verbatim>\<open>GetProcInfoById\<close> sees a catalog that
  holds it.
\<close>

fun meta_proc_refs ::
  "('f, 'i) externals \<Rightarrow> Catalog \<Rightarrow> nat list \<Rightarrow> ChunkMeta \<Rightarrow> exn + ChunkMeta" where
  "meta_proc_refs X catalog [] chunk_meta = Inr chunk_meta"
| "meta_proc_refs X catalog (proc_info_id # ids) chunk_meta =
     (case GetProcInfoById X
             (catalog\<lparr>ChunkMetaInfo := ChunkMetaInfo catalog @ [chunk_meta]\<rparr>) proc_info_id of
        Inl e \<Rightarrow> Inl e
      | Inr None \<Rightarrow> meta_proc_refs X catalog ids chunk_meta
      | Inr (Some proc_info) \<Rightarrow>
          meta_proc_refs X catalog ids
            (chunk_meta\<lparr>ProcInfos :=
               (pi_proc_id2 proc_info OR push_bit 32 (pi_proc_id1 proc_info), proc_info) #
               ProcInfos chunk_meta\<rparr>))"

definition meta_chunk_meta ::
  "('f, 'i) externals \<Rightarrow> TraceV3 \<Rightarrow> bytes \<Rightarrow> nat \<Rightarrow> Catalog \<Rightarrow> exn + (nat \<times> Catalog)" where
  "meta_chunk_meta X self chunk_data data_off catalog =
     (case unpack_QQII (slice chunk_data data_off (data_off + 24)) of
        Inl e \<Rightarrow> Inl e
      | Inr (ct_first, ct_last, len, alg) \<Rightarrow>
         (case DebugPrintTimestampFromContTime X self ct_first of
            Inl e \<Rightarrow> Inl e
          | Inr u1 \<Rightarrow>
             (case DebugPrintTimestampFromContTime X self ct_last of
                Inl e \<Rightarrow> Inl e
              | Inr u2 \<Rightarrow>
                 (case unpack_I (slice chunk_data (data_off + 24) (data_off + 28)) of
                    Inl e \<Rightarrow> Inl e
                  | Inr num_proc_info_indexes \<Rightarrow>
                     (case unpack_many_H num_proc_info_indexes
                             (slice chunk_data (data_off + 28)
                                (data_off + 28 + num_proc_info_indexes * 2)) of
                        Inl e \<Rightarrow> Inl e
                      | Inr ids \<Rightarrow>
                         (case meta_proc_refs X catalog ids
                                 \<lparr>c_time_first = ct_first, c_time_last = ct_last, chunk_len = len,
                                  compression_alg = alg, ProcInfo_Ids = ids, StringIndexes = [],
                                  ProcInfos = []\<rparr> of
                            Inl e \<Rightarrow> Inl e
                          | Inr chunk_meta \<Rightarrow>
                             (case unpack_I
                                     (slice chunk_data
                                        (data_off + 28 + num_proc_info_indexes * 2)
                                        (data_off + 28 + num_proc_info_indexes * 2 + 4)) of
                                Inl e \<Rightarrow> Inl e
                              | Inr num_string_indexes \<Rightarrow>
                                 (case unpack_many_H num_string_indexes
                                         (slice chunk_data
                                            (data_off + 28 + num_proc_info_indexes * 2 + 4)
                                            (data_off + 28 + num_proc_info_indexes * 2 + 4 +
                                               num_string_indexes * 2)) of
                                    Inl e \<Rightarrow> Inl e
                                  | Inr indexes \<Rightarrow>
                                     (let end_data_offset =
                                            data_off + 28 + num_proc_info_indexes * 2 + 4 +
                                              num_string_indexes * 2
                                      in Inr (if end_data_offset mod 8 > 0
                                              then end_data_offset + (8 - end_data_offset mod 8)
                                              else end_data_offset,
                                              catalog\<lparr>ChunkMetaInfo := ChunkMetaInfo catalog @
                                                [chunk_meta\<lparr>StringIndexes := indexes\<rparr>]\<rparr>))))))))))"

function meta_chunks_loop ::
  "('f, 'i) externals \<Rightarrow> TraceV3 \<Rightarrow> bytes \<Rightarrow> nat \<Rightarrow> nat \<Rightarrow> Catalog \<Rightarrow> exn + Catalog" where
  "meta_chunks_loop X self chunk_data data_size data_off catalog =
     (if data_off < data_size then
        (case meta_chunk_meta X self chunk_data data_off catalog of
           Inl e \<Rightarrow> Inl e
         | Inr (data_off', catalog') \<Rightarrow>
             meta_chunks_loop X self chunk_data data_size data_off' catalog')
      else Inr catalog)"
  by pat_completeness auto
termination
  apply (relation "measure (\<lambda>(X, self, chunk_data, data_size, data_off, catalog).
                             data_size - data_off)")
   apply simp
  apply (auto simp: meta_chunk_meta_def Let_def split: sum.splits prod.splits if_splits)
  done

declare meta_chunks_loop.simps [simp del]

definition TraceV3_ParseMetaChunk ::
  "('f, 'i) externals \<Rightarrow> TraceV3 \<Rightarrow> bytes \<Rightarrow> exn + (Catalog \<times> TraceV3)" where
  "TraceV3_ParseMetaChunk X self chunk_data =
     (case unpack_HHHHQQ (slice chunk_data 0 24) of
        Inl e \<Rightarrow> Inl e
      | Inr (subsystem_strings_offset, proc_infos_offset, number_of_proc_infos,
             chunk_meta_offset, num_chunks_to_follow, ContinuousTime) \<Rightarrow>
         (case DebugPrintTimestampFromContTime X self ContinuousTime of
            Inl e \<Rightarrow> Inl e
          | Inr u \<Rightarrow>
             (case meta_files_loop X chunk_data (subsystem_strings_offset + 24) 24
                     empty_catalog self of
                Inl e \<Rightarrow> Inl e
              | Inr (data_off, catalog, self') \<Rightarrow>
                 (case meta_procs_loop X chunk_data (chunk_meta_offset + 24)
                         (proc_infos_offset + 24)
                         (catalog\<lparr>Strings :=
                            slice chunk_data data_off (proc_infos_offset + 24)\<rparr>) of
                    Inl e \<Rightarrow> Inl e
                  | Inr (data_offset2, catalog2) \<Rightarrow>
                     (case meta_chunks_loop X self' chunk_data (length chunk_data) data_offset2
                             catalog2 of
                        Inl e \<Rightarrow> Inl e
                      | Inr catalog3 \<Rightarrow> Inr (catalog3, self'))))))"

section \<open>Firehose chunks and tracepoints, \<^verbatim>\<open>tracev3_file.py\<close>\<close>

text \<open>
  More of Python: indexing a list with an integer (negative indices count from the end,
  \<^verbatim>\<open>IndexError\<close> outside the list), slicing with integers (negative bounds count from the end,
  every bound is cut to the list), two more formats of \<^verbatim>\<open>struct.unpack\<close>, and the \<^verbatim>\<open>%x\<close> format.
\<close>

definition py_index :: "'a list \<Rightarrow> int \<Rightarrow> exn + 'a" where
  "py_index xs i =
     (if 0 \<le> i
      then (if i < int (length xs) then Inr (xs ! nat i) else Inl IndexError)
      else (if - int (length xs) \<le> i then Inr (xs ! nat (int (length xs) + i))
            else Inl IndexError))"

definition py_bound :: "nat \<Rightarrow> int \<Rightarrow> nat" where
  "py_bound n i = (if i < 0 then nat (max 0 (int n + i)) else min n (nat i))"

definition py_slice :: "'a list \<Rightarrow> int \<Rightarrow> int \<Rightarrow> 'a list" where
  "py_slice xs i j = slice xs (py_bound (length xs) i) (py_bound (length xs) j)"

definition unpack_HH :: "bytes \<Rightarrow> exn + (nat \<times> nat)" where
  "unpack_HH d =
     (if length d \<noteq> 4 then Inl StructError
      else Inr (le_nat (slice d 0 2), le_nat (slice d 2 4)))"

definition unpack_HHHHQ :: "bytes \<Rightarrow> exn + (nat \<times> nat \<times> nat \<times> nat \<times> nat)" where
  "unpack_HHHHQ d =
     (if length d \<noteq> 16 then Inl StructError
      else Inr (le_nat (slice d 0 2), le_nat (slice d 2 4), le_nat (slice d 4 6),
                le_nat (slice d 6 8), le_nat (slice d 8 16)))"

definition unpack_BBHIQIHH ::
  "bytes \<Rightarrow> exn + (nat \<times> nat \<times> nat \<times> nat \<times> nat \<times> nat \<times> nat \<times> nat)" where
  "unpack_BBHIQIHH d =
     (if length d \<noteq> 24 then Inl StructError
      else Inr (le_nat (slice d 0 1), le_nat (slice d 1 2), le_nat (slice d 2 4),
                le_nat (slice d 4 8), le_nat (slice d 8 16), le_nat (slice d 16 20),
                le_nat (slice d 20 22), le_nat (slice d 22 24)))"

definition hex_digit :: "nat \<Rightarrow> char" where
  "hex_digit n = (''0123456789abcdef'') ! (n mod 16)"

function hex_lower :: "nat \<Rightarrow> string" where
  "hex_lower n = (if n < 16 then [hex_digit n] else hex_lower (n div 16) @ [hex_digit n])"
  by pat_completeness auto
termination
  by (relation "measure (\<lambda>n. n)") auto

declare hex_lower.simps [simp del]

text \<open>
  \<^verbatim>\<open>Dsc.GetUuidEntryFromVirtualOffset\<close>: the uuid entry with the greatest \<open>v_off \<le> v_offset\<close>,
  if \<open>v_offset\<close> lies inside it, else \<^verbatim>\<open>None\<close>.
\<close>

definition Dsc_GetUuidEntryFromVirtualOffset :: "Dsc \<Rightarrow> nat \<Rightarrow> exn + uuid_entry option" where
  "Dsc_GetUuidEntryFromVirtualOffset d v_offset =
     (case bisect_right (uuid_entry_offsets d) v_offset 0 (num_uuid_entries d) of
        Inl e \<Rightarrow> Inl e
      | Inr pos \<Rightarrow>
          if pos > 0 then
            (if length (uuid_entry_offsets d) \<le> pos - 1 then Inl IndexError
             else
               (case map_of (uuid_entry_dict d) (uuid_entry_offsets d ! (pos - 1)) of
                  None \<Rightarrow> Inl KeyError
                | Some b \<Rightarrow>
                    if u_v_off b + u_size b > v_offset then Inr (Some b) else Inr None))
          else Inr None)"

text \<open>
  The level: \<^verbatim>\<open>log_type\<close> starts as \<^verbatim>\<open>'Default'\<close>; a signpost (\<^verbatim>\<open>logtype & 0x80\<close>) only sets
  \<^verbatim>\<open>is_signpost\<close> and extends \<^verbatim>\<open>signpost_string\<close>, so its \<^verbatim>\<open>log_type\<close> stays \<^verbatim>\<open>'Default'\<close>.
\<close>

definition is_signpost :: "nat \<Rightarrow> bool" where
  "is_signpost logtype \<longleftrightarrow> logtype AND 0x80 \<noteq> 0"

definition is_activity :: "nat \<Rightarrow> nat \<Rightarrow> bool" where
  "is_activity logtype record_type \<longleftrightarrow>
     \<not> is_signpost logtype \<and> logtype = 0x01 \<and> record_type AND 0x0F = 0x02"

definition log_type_of :: "nat \<Rightarrow> nat \<Rightarrow> string" where
  "log_type_of logtype record_type =
     (if is_signpost logtype then ''Default''
      else if logtype = 0x01 then (if record_type AND 0x0F = 0x02 then ''Activity'' else ''Info'')
      else if logtype = 0x02 then ''Debug''
      else if logtype = 0x10 then ''Error''
      else if logtype = 0x11 then ''Fault''
      else ''Default'')"

text \<open>
  \<^verbatim>\<open>signpost_string\<close> before the signpost identifier is substituted: \<^verbatim>\<open>'spid 0x%x,'\<close>, and for a
  signpost the scope and the type; and the substitution \<^verbatim>\<open>signpost_string % (spid_val)\<close>.
\<close>

definition signpost_template :: "nat \<Rightarrow> string" where
  "signpost_template logtype =
     ''spid 0x%x,'' @
     (if is_signpost logtype then
        (if logtype AND 0xC0 = 0xC0 then '' system,'' else '' process,'') @
        (if logtype AND 0x82 = 0x82 then '' end''
         else if logtype AND 0x81 = 0x81 then '' begin''
         else '' event'')
      else [])"

definition signpost_substitute :: "string \<Rightarrow> nat \<Rightarrow> string" where
  "signpost_substitute template spid_val = ''spid 0x'' @ hex_lower spid_val @ drop 9 template"

text \<open>The local variables of \<^verbatim>\<open>_ParseFirehoseTracepointData\<close> that change while it runs.\<close>

record 'i tp_locals =
  t_pos3 :: nat
  t_log_data_len2 :: int
  t_act_id :: "nat list"
  t_fmt_str_v_offset :: nat
  t_format_str :: string
  t_ut :: "file_object option"
  t_p_name :: string
  t_lib :: string
  t_imageUUID :: "bytes option"
  t_senderImagePath :: string
  t_imageOffset :: int
  t_sub_sys :: string
  t_cat :: string
  t_ttl :: nat
  t_priv_str_v_offset :: nat
  t_priv_str_len :: nat
  t_load_address :: nat
  t_data_ref_id :: "nat option"
  t_sp_name_ref :: "nat option"
  t_signpost_string :: string
  t_signpost_name :: string
  t_log_data :: "'i list option"
  t_self :: TraceV3

text \<open>
  A step of the body of the \<^verbatim>\<open>try\<close> block either raises, and then the object is kept as it
  was at that moment, or gives the new local variables.
\<close>

type_synonym 'i tp_result = "(TraceV3 \<times> exn) + 'i tp_locals"

definition tp_raise :: "'i tp_locals \<Rightarrow> exn \<Rightarrow> 'i tp_result" where
  "tp_raise t e = Inl (t_self t, e)"

definition tp_bind :: "'i tp_result \<Rightarrow> ('i tp_locals \<Rightarrow> 'i tp_result) \<Rightarrow> 'i tp_result" where
  "tp_bind r f = (case r of Inl x \<Rightarrow> Inl x | Inr t \<Rightarrow> f t)"

text \<open>Reading \<open>n\<close> bytes at \<^verbatim>\<open>pos3\<close> as an unsigned number, moving \<^verbatim>\<open>pos3\<close> and \<^verbatim>\<open>log_data_len2\<close>.\<close>

definition tp_read :: "bytes \<Rightarrow> nat \<Rightarrow> 'i tp_locals \<Rightarrow> (TraceV3 \<times> exn) + (nat \<times> 'i tp_locals)" where
  "tp_read tracepoint_data n t =
     (case unpack_uint n (slice tracepoint_data (t_pos3 t) (t_pos3 t + n)) of
        Inl e \<Rightarrow> Inl (t_self t, e)
      | Inr v \<Rightarrow> Inr (v, t\<lparr>t_pos3 := t_pos3 t + n, t_log_data_len2 := t_log_data_len2 t - int n\<rparr>))"

text \<open>
  The activity identifier with its sentinel: two 32-bit numbers are read; only when the
  second is \<^verbatim>\<open>0x80000000\<close> the identifier is appended and the 8 bytes are consumed.
\<close>

definition tp_read_aid :: "bytes \<Rightarrow> 'i tp_locals \<Rightarrow> 'i tp_result" where
  "tp_read_aid tracepoint_data t =
     (case unpack_II (slice tracepoint_data (t_pos3 t) (t_pos3 t + 8)) of
        Inl e \<Rightarrow> tp_raise t e
      | Inr (aid, u6) \<Rightarrow>
          if u6 = 0x80000000
          then Inr (t\<lparr>t_act_id := t_act_id t @ [aid], t_pos3 := t_pos3 t + 8,
                      t_log_data_len2 := t_log_data_len2 t - 8\<rparr>)
          else Inr t)"

text \<open>Lines 541 to 592: the identifiers of an activity, or of any other tracepoint.\<close>

definition tp_activity_ids :: "bytes \<Rightarrow> nat \<Rightarrow> nat \<Rightarrow> 'i tp_locals \<Rightarrow> 'i tp_result" where
  "tp_activity_ids tracepoint_data logtype flags t0 =
     tp_bind
       (if flags AND 0x0001 \<noteq> 0 then
          (case tp_read tracepoint_data 8 t0 of
             Inl x \<Rightarrow> Inl x
           | Inr (current_aid, t) \<Rightarrow> Inr (t\<lparr>t_act_id := t_act_id t @ [current_aid AND 0xffffffff]\<rparr>))
        else Inr t0)
       (\<lambda>t1. tp_bind
          (if flags AND 0x0010 \<noteq> 0 then
             (case tp_read tracepoint_data 8 t1 of Inl x \<Rightarrow> Inl x | Inr (unique_pid, t) \<Rightarrow> Inr t)
           else Inr t1)
          (\<lambda>t2. tp_bind
             (if flags AND 0x0200 \<noteq> 0 then
                (case tp_read tracepoint_data 8 t2 of
                   Inl x \<Rightarrow> Inl x
                 | Inr (other_aid, t) \<Rightarrow>
                     Inr (t\<lparr>t_act_id := t_act_id t @ [other_aid AND 0xffffffff]\<rparr>))
              else Inr t2)
             (\<lambda>t3. if logtype \<noteq> 0x03 then tp_read_aid tracepoint_data t3 else Inr t3)))"

definition tp_plain_ids :: "bytes \<Rightarrow> nat \<Rightarrow> bytes \<Rightarrow> 'i tp_locals \<Rightarrow> 'i tp_result" where
  "tp_plain_ids tracepoint_data flags private_strings t0 =
     tp_bind
       (if flags AND 0x0001 \<noteq> 0 then tp_read_aid tracepoint_data t0 else Inr t0)
       (\<lambda>t1. if flags AND 0x0100 \<noteq> 0 then
                (if private_strings \<noteq> [] then
                   (case unpack_HH (slice tracepoint_data (t_pos3 t1) (t_pos3 t1 + 4)) of
                      Inl e \<Rightarrow> tp_raise t1 e
                    | Inr (v, l) \<Rightarrow>
                        Inr (t1\<lparr>t_priv_str_v_offset := v, t_priv_str_len := l,
                                t_pos3 := t_pos3 t1 + 4,
                                t_log_data_len2 := t_log_data_len2 t1 - 4\<rparr>))
                 else Inr t1)
              else Inr t1)"

text \<open>Lines 594 to 606: the load address and the large offset.\<close>

definition tp_load_address :: "bytes \<Rightarrow> nat \<Rightarrow> 'i tp_locals \<Rightarrow> 'i tp_result" where
  "tp_load_address tracepoint_data flags t0 =
     (case tp_read tracepoint_data 4 t0 of
        Inl x \<Rightarrow> Inl x
      | Inr (load_address, t) \<Rightarrow>
         (let t1 = t\<lparr>t_load_address := load_address\<rparr>
          in if flags AND 0x0020 \<noteq> 0 then
               (case unpack_uint 2 (slice tracepoint_data (t_pos3 t1) (t_pos3 t1 + 2)) of
                  Inl e \<Rightarrow> tp_raise t1 e
                | Inr large_offset \<Rightarrow>
                    Inr (t1\<lparr>t_fmt_str_v_offset :=
                               (if large_offset \<le> 0x7fff
                                then t_fmt_str_v_offset t1 + push_bit 31 large_offset
                                else t_fmt_str_v_offset t1),
                             t_pos3 := t_pos3 t1 + 2,
                             t_log_data_len2 := t_log_data_len2 t1 - 2\<rparr>))
             else Inr t1))"

text \<open>
  A method of a uuidtext file called on a catalog object: on a \<^verbatim>\<open>Dsc\<close> object, and on
  \<^verbatim>\<open>None\<close>, the attribute does not exist.
\<close>

definition as_uuidtext :: "file_object option \<Rightarrow> exn + Uuidtext" where
  "as_uuidtext obj =
     (case obj of Some (UuidtextObject u) \<Rightarrow> Inr u | _ \<Rightarrow> Inl AttributeError)"

definition as_dsc :: "file_object option \<Rightarrow> exn + Dsc" where
  "as_dsc obj = (case obj of Some (DscObject n d) \<Rightarrow> Inr d | _ \<Rightarrow> Inl AttributeError)"

definition object_filename :: "file_object \<Rightarrow> string" where
  "object_filename obj =
     (case obj of DscObject n d \<Rightarrow> n | UuidtextObject u \<Rightarrow> ut_filename u)"

text \<open>
  Lines 609 to 626: the alternate uuidtext file is named by an index into the extra file
  references of the process; the first reference with this index that contains the load
  address is used.
\<close>

definition extra_ref_matches :: "int \<Rightarrow> nat \<Rightarrow> ExtraFileReference \<Rightarrow> bool" where
  "extra_ref_matches uuid_file_id load_address r \<longleftrightarrow>
     ref_id r = uuid_file_id \<and> load_address \<ge> ref_v_offset r \<and>
     load_address - ref_v_offset r < ref_data_size r"

definition tp_alternate_by_index ::
  "('f, 'i) externals \<Rightarrow> bytes \<Rightarrow> Catalog \<Rightarrow> ProcInfo \<Rightarrow> 'i tp_locals \<Rightarrow> 'i tp_result" where
  "tp_alternate_by_index X tracepoint_data catalog proc_info t0 =
     (case unpack_h (slice tracepoint_data (t_pos3 t0) (t_pos3 t0 + 2)) of
        Inl e \<Rightarrow> tp_raise t0 e
      | Inr uuid_file_id \<Rightarrow>
         (let t = t0\<lparr>t_pos3 := t_pos3 t0 + 2, t_log_data_len2 := t_log_data_len2 t0 - 2\<rparr>
          in case find (extra_ref_matches uuid_file_id (t_load_address t))
                    (pi_extra_file_refs proc_info) of
               None \<Rightarrow>
                 Inr (t\<lparr>t_format_str := ''<compose failure [missing precomposed log]>''\<rparr>)
             | Some extra_ref \<Rightarrow>
                (case py_index (FileObjects catalog) (ref_uuid_file_index extra_ref) of
                   Inl e \<Rightarrow> tp_raise t e
                 | Inr obj \<Rightarrow>
                    (case as_uuidtext (Some obj) of
                       Inl e \<Rightarrow> tp_raise (t\<lparr>t_ut := Some obj\<rparr>) e
                     | Inr u \<Rightarrow>
                        (case ut_ReadFmtStringFromVirtualOffset X u (t_fmt_str_v_offset t) of
                           Inl e \<Rightarrow> tp_raise (t\<lparr>t_ut := Some obj\<rparr>) e
                         | Inr fmt \<Rightarrow>
                             Inr (t\<lparr>t_ut := Some obj, t_format_str := fmt,
                                     t_imageUUID := Some (Uuid u),
                                     t_senderImagePath := library_path u,
                                     t_imageOffset :=
                                       int (t_load_address t) - int (ref_v_offset extra_ref)\<rparr>))))))"

text \<open>
  Lines 628 to 656: the alternate uuidtext file is named by its 16-byte identifier. It is
  looked up among the files of the catalog, then among the files opened before
  (\<^verbatim>\<open>self.other_uuidtext\<close>), and opened otherwise; \<^verbatim>\<open>UUID(file_path)\<close> raises \<^verbatim>\<open>ValueError\<close> when
  fewer than 16 bytes were left. The new object is stored in \<^verbatim>\<open>self.other_uuidtext\<close> before it
  is parsed, so it stays there also when \<^verbatim>\<open>Parse\<close> fails.
\<close>

definition tp_remember :: "string \<Rightarrow> Uuidtext \<Rightarrow> 'i tp_locals \<Rightarrow> 'i tp_locals" where
  "tp_remember file_path u t =
     t\<lparr>t_self := (t_self t)\<lparr>other_uuidtext :=
          (file_path, u) # filter (\<lambda>p. fst p \<noteq> file_path) (other_uuidtext (t_self t))\<rparr>\<rparr>"

definition tp_find_alternate ::
  "('f, 'i) externals \<Rightarrow> bytes \<Rightarrow> Catalog \<Rightarrow> 'i tp_locals \<Rightarrow> 'i tp_result" where
  "tp_find_alternate X file_path_data catalog t =
     (let file_path = hexlify_upper file_path_data
      in case find (\<lambda>obj. object_filename obj = file_path) (FileObjects catalog) of
           Some obj \<Rightarrow> Inr (t\<lparr>t_ut := Some obj\<rparr>)
         | None \<Rightarrow>
            (case map_of (other_uuidtext (t_self t)) file_path of
               Some u \<Rightarrow> Inr (t\<lparr>t_ut := Some (UuidtextObject u)\<rparr>)
             | None \<Rightarrow>
                 if length file_path_data \<noteq> 16 then tp_raise t ValueError
                 else
                   (case new_Uuidtext X file_path of
                      Inl e \<Rightarrow> tp_raise t e
                    | Inr u \<Rightarrow>
                       (case Uuidtext_Parse X u of
                          Inl e \<Rightarrow> tp_raise (tp_remember file_path u t) e
                        | Inr (ok, u') \<Rightarrow>
                            Inr ((tp_remember file_path u' t)
                                   \<lparr>t_ut := (if ok then Some (UuidtextObject u') else None)\<rparr>)))))"

definition tp_alternate_by_uuid ::
  "('f, 'i) externals \<Rightarrow> bytes \<Rightarrow> Catalog \<Rightarrow> string \<Rightarrow> 'i tp_locals \<Rightarrow> 'i tp_result" where
  "tp_alternate_by_uuid X tracepoint_data catalog ut_cache_library_name t0 =
     tp_bind
       (tp_find_alternate X (slice tracepoint_data (t_pos3 t0) (t_pos3 t0 + 16)) catalog
          (t0\<lparr>t_pos3 := t_pos3 t0 + 16, t_log_data_len2 := t_log_data_len2 t0 - 16,
              t_ut := None\<rparr>))
       (\<lambda>t. case t_ut t of
               None \<Rightarrow> Inr t
             | Some obj \<Rightarrow>
                (case as_uuidtext (Some obj) of
                   Inl e \<Rightarrow> tp_raise t e
                 | Inr u \<Rightarrow>
                    (case ut_ReadFmtStringFromVirtualOffset X u (t_fmt_str_v_offset t) of
                       Inl e \<Rightarrow> tp_raise t e
                     | Inr fmt \<Rightarrow>
                         Inr (t\<lparr>t_format_str := fmt, t_p_name := ut_cache_library_name,
                                 t_lib := library_name u, t_imageUUID := Some (Uuid u),
                                 t_senderImagePath := library_path u\<rparr>))))"

text \<open>
  Lines 661 to 689, for a tracepoint that is not an activity: subsystem and category, time to
  live, reference to oversize data, signpost identifier, reference to the signpost name.
\<close>

definition tp_optional_fields ::
  "('f, 'i) externals \<Rightarrow> bytes \<Rightarrow> nat \<Rightarrow> nat \<Rightarrow> ProcInfo \<Rightarrow> 'i tp_locals \<Rightarrow> 'i tp_result" where
  "tp_optional_fields X tracepoint_data logtype flags proc_info t0 =
     tp_bind
       (if flags AND 0x0200 \<noteq> 0 then
          (case tp_read tracepoint_data 2 t0 of
             Inl x \<Rightarrow> Inl x
           | Inr (item_id, t) \<Rightarrow>
              (case GetSubSystemAndCategory X proc_info item_id of
                 Inl e \<Rightarrow> tp_raise t e
               | Inr (s, c) \<Rightarrow> Inr (t\<lparr>t_sub_sys := s, t_cat := c\<rparr>)))
        else Inr t0)
       (\<lambda>t1. tp_bind
          (if flags AND 0x0400 \<noteq> 0 then
             (case tp_read tracepoint_data 1 t1 of
                Inl x \<Rightarrow> Inl x
              | Inr (v, t) \<Rightarrow> Inr (t\<lparr>t_ttl := v\<rparr>))
           else Inr t1)
          (\<lambda>t2. tp_bind
             (if flags AND 0x0800 \<noteq> 0 then
                (case tp_read tracepoint_data 2 t2 of
                   Inl x \<Rightarrow> Inl x
                 | Inr (v, t) \<Rightarrow> Inr (t\<lparr>t_data_ref_id := Some v\<rparr>))
              else Inr t2)
             (\<lambda>t3. tp_bind
                (if is_signpost logtype then
                   (case tp_read tracepoint_data 8 t3 of
                      Inl x \<Rightarrow> Inl x
                    | Inr (spid_val, t) \<Rightarrow>
                        Inr (t\<lparr>t_signpost_string :=
                                  signpost_substitute (t_signpost_string t) spid_val\<rparr>))
                 else Inr t3)
                (\<lambda>t4. if flags AND 0x8000 \<noteq> 0 then
                         (case tp_read tracepoint_data 4 t4 of
                            Inl x \<Rightarrow> Inl x
                          | Inr (v, t) \<Rightarrow> Inr (t\<lparr>t_sp_name_ref := Some v\<rparr>))
                       else Inr t4))))"

text \<open>
  Lines 691 to 731: the format string and the sender image. \<^verbatim>\<open>except (KeyError, IOError)\<close>
  around the two reads from the dsc file also catches \<^verbatim>\<open>OSError\<close>, of which \<^verbatim>\<open>IOError\<close> is
  another name.
\<close>

definition tp_signpost_name ::
  "('f, 'i) externals \<Rightarrow> file_object option \<Rightarrow> 'i tp_locals \<Rightarrow> 'i tp_result" where
  "tp_signpost_name X obj t =
     (case t_sp_name_ref t of
        None \<Rightarrow> Inr t
      | Some r \<Rightarrow>
         (case as_uuidtext obj of
            Inl e \<Rightarrow> tp_raise t e
          | Inr u \<Rightarrow>
             (case ut_ReadFmtStringFromVirtualOffset X u r of
                Inl e \<Rightarrow> tp_raise t e
              | Inr s \<Rightarrow> Inr (t\<lparr>t_signpost_name := s\<rparr>))))"

definition caught_by_dsc_read :: "exn \<Rightarrow> bool" where
  "caught_by_dsc_read e \<longleftrightarrow> e = KeyError \<or> e = IOError \<or> e = OSError"

definition tp_msg_in_dsc ::
  "('f, 'i) externals \<Rightarrow> nat \<Rightarrow> file_object option \<Rightarrow> 'i tp_locals \<Rightarrow> 'i tp_result" where
  "tp_msg_in_dsc X no_fmt_str dsc_cache t0 =
     tp_bind
       (case t_sp_name_ref t0 of
          None \<Rightarrow> Inr t0
        | Some r \<Rightarrow>
           (case as_dsc dsc_cache of
              Inl e \<Rightarrow> tp_raise t0 e
            | Inr d \<Rightarrow>
               (case dsc_ReadFmtStringAndEntriesFromVirtualOffset X d r of
                  Inl e \<Rightarrow> if caught_by_dsc_read e then Inr t0 else tp_raise t0 e
                | Inr s \<Rightarrow> Inr (t0\<lparr>t_signpost_name := s\<rparr>))))
       (\<lambda>t1. case as_dsc dsc_cache of
                Inl e \<Rightarrow> tp_raise t1 e
              | Inr d \<Rightarrow>
                 (case Dsc_GetUuidEntryFromVirtualOffset d (t_load_address t1) of
                    Inl e \<Rightarrow> tp_raise t1 e
                  | Inr cache_b1 \<Rightarrow>
                     (let t2 =
                        (case cache_b1 of
                           None \<Rightarrow> t1
                         | Some b \<Rightarrow>
                             t1\<lparr>t_lib := lib_name b, t_imageUUID := Some (u_uuid b),
                                t_senderImagePath := lib_path b,
                                t_imageOffset := int (t_load_address t1) - int (u_v_off b)\<rparr>)
                      in if no_fmt_str \<noteq> 0 then Inr (t2\<lparr>t_format_str := ''%s''\<rparr>)
                         else
                           (case dsc_ReadFmtStringAndEntriesFromVirtualOffset X d
                                   (t_fmt_str_v_offset t2) of
                              Inl e \<Rightarrow> if caught_by_dsc_read e then Inr t2 else tp_raise t2 e
                            | Inr s \<Rightarrow> Inr (t2\<lparr>t_format_str := s\<rparr>)))))"

definition tp_format_string ::
  "('f, 'i) externals \<Rightarrow> nat \<Rightarrow> nat \<Rightarrow> file_object option \<Rightarrow> Uuidtext \<Rightarrow> 'i tp_locals \<Rightarrow>
   'i tp_result" where
  "tp_format_string X flags no_fmt_str dsc_cache ut_cache t =
     (if flags AND 0x0002 \<noteq> 0 then
        (let t1 = t\<lparr>t_imageOffset := int (t_load_address t)\<rparr>
         in if flags AND 0x0008 \<noteq> 0 then tp_signpost_name X (t_ut t1) t1
            else
              (let t2 = t1\<lparr>t_imageUUID := Some (Uuid ut_cache),
                           t_senderImagePath := library_path ut_cache\<rparr>
               in case ut_ReadFmtStringFromVirtualOffset X ut_cache (t_fmt_str_v_offset t2) of
                    Inl e \<Rightarrow> tp_raise t2 e
                  | Inr s \<Rightarrow>
                      tp_signpost_name X (Some (UuidtextObject ut_cache))
                        (t2\<lparr>t_format_str := s\<rparr>)))
      else if flags AND 0x0004 \<noteq> 0 then tp_msg_in_dsc X no_fmt_str dsc_cache t
      else Inr t)"

text \<open>
  Lines 733 to 750: the log data that follows the fields. \<^verbatim>\<open>log_data_len2\<close> is the declared
  length less the bytes consumed so far; it is tested for being non-zero only, so a negative
  length is passed on, and the slices follow Python's rules for negative bounds.
\<close>

definition tp_log_data ::
  "('f, 'i) externals \<Rightarrow> bytes \<Rightarrow> nat \<Rightarrow> nat \<Rightarrow> bytes \<Rightarrow> nat \<Rightarrow> 'i tp_locals \<Rightarrow> 'i tp_result" where
  "tp_log_data X tracepoint_data record_type flags private_strings strings_v_offset t =
     (if t_log_data_len2 t \<noteq> 0 then
        (let strings_start_offset = int (t_priv_str_v_offset t) - int strings_v_offset;
             strings_slice =
               (if t_priv_str_len t \<noteq> 0 \<and> private_strings \<noteq> []
                then py_slice private_strings strings_start_offset
                       (strings_start_offset + int (t_priv_str_len t))
                else []);
             buffer = py_slice tracepoint_data (int (t_pos3 t))
                        (int (t_pos3 t) + t_log_data_len2 t)
         in case (if record_type AND 0x3 = 0x3
                  then ReadLogDataBuffer2 X buffer (t_log_data_len2 t) strings_slice
                  else ReadLogDataBuffer X buffer (t_log_data_len2 t) strings_slice
                         (flags AND 0x1000 \<noteq> 0)) of
              Inl e \<Rightarrow> tp_raise t e
            | Inr items \<Rightarrow> Inr (t\<lparr>t_log_data := Some items\<rparr>))
      else Inr t)"

text \<open>
  Lines 752 to 759: the oversize payload. It is looked up only when \<^verbatim>\<open>data_ref_id\<close> was read,
  under the key \<^verbatim>\<open>data_ref_id << 64 | ct\<close>. A payload that is absent or empty fails the test
  \<^verbatim>\<open>if log_data:\<close>; then the format string becomes \<^verbatim>\<open><decode: missing data>\<close>, and \<^verbatim>\<open>log_data\<close>,
  which fails the same test at line 764, is \<open>None\<close> here.
\<close>

definition large_data_key :: "nat \<Rightarrow> nat \<Rightarrow> nat" where
  "large_data_key data_ref_id ct = push_bit 64 data_ref_id OR ct"

definition tp_oversize :: "('f, 'i) externals \<Rightarrow> nat \<Rightarrow> nat \<Rightarrow> 'i tp_locals \<Rightarrow> 'i tp_result" where
  "tp_oversize X flags ct t =
     (case t_data_ref_id t of
        None \<Rightarrow> Inr t
      | Some data_ref_id \<Rightarrow>
         (case large_data (t_self t) (large_data_key data_ref_id ct) of
            None \<Rightarrow> Inr (t\<lparr>t_log_data := None, t_format_str := ''<decode: missing data>''\<rparr>)
          | Some payload \<Rightarrow>
              if payload \<noteq> [] then
                (case ReadLogDataBuffer X payload (int (length payload)) []
                        (flags AND 0x1000 \<noteq> 0) of
                   Inl e \<Rightarrow> tp_raise t e
                 | Inr items \<Rightarrow> Inr (t\<lparr>t_log_data := Some items\<rparr>))
              else Inr (t\<lparr>t_log_data := None, t_format_str := ''<decode: missing data>''\<rparr>)))"

text \<open>Lines 764 to 773: the message and the log entry.\<close>

definition tp_log_msg :: "('f, 'i) externals \<Rightarrow> nat \<Rightarrow> 'i tp_locals \<Rightarrow> exn + string" where
  "tp_log_msg X log_file_pos t =
     (case t_log_data t of
        None \<Rightarrow> Inr (t_format_str t)
      | Some items \<Rightarrow>
          if items \<noteq> [] then RecreateMsgFromFmtStringAndData X (t_format_str t) items log_file_pos
          else Inr (t_format_str t))"

definition tp_log_entry ::
  "TraceV3 \<Rightarrow> nat \<Rightarrow> nat \<Rightarrow> 'f \<Rightarrow> nat \<Rightarrow> nat \<Rightarrow> nat \<Rightarrow> ProcInfo \<Rightarrow> Uuidtext \<Rightarrow> 'i tp_locals \<Rightarrow>
   string \<Rightarrow> 'f LogEntry" where
  "tp_log_entry self log_file_pos ct time thread logtype record_type proc_info ut_cache t log_msg =
     \<lparr>le_filename = tv3_filename self, le_log_file_pos = log_file_pos, le_ct = ct,
      le_time = time, le_thread = thread, le_log_type = log_type_of logtype record_type,
      le_act_id = last (t_act_id t),
      le_parentActivityIdentifier =
        (if length (t_act_id t) > 2 then t_act_id t ! (length (t_act_id t) - 2) else 0),
      le_pid = pi_pid proc_info, le_euid = pi_euid proc_info, le_ttl = int (t_ttl t),
      le_p_name = t_p_name t, le_lib = t_lib t, le_sub_sys = t_sub_sys t, le_cat = t_cat t,
      le_signpost_name = t_signpost_name t,
      le_signpost_string = (if is_signpost logtype then t_signpost_string t else []),
      le_imageOffset = t_imageOffset t, le_imageUUID = t_imageUUID t,
      le_processImageUUID = Uuid ut_cache, le_senderImagePath = t_senderImagePath t,
      le_processImagePath = library_path ut_cache, le_log_msg = log_msg\<rparr>"

text \<open>
  Lines 474 to 539: the two catalog objects of the process (\<^verbatim>\<open>ut_cache.library_name\<close> raises
  \<^verbatim>\<open>AttributeError\<close> on a dsc object), and the initial values of the local variables.
\<close>

definition tp_file_objects ::
  "Catalog \<Rightarrow> ProcInfo \<Rightarrow> exn + (file_object option \<times> Uuidtext)" where
  "tp_file_objects catalog proc_info =
     (case (if pi_dsc_file_index proc_info \<noteq> - 1
            then (case py_index (FileObjects catalog) (pi_dsc_file_index proc_info) of
                    Inl e \<Rightarrow> Inl e | Inr obj \<Rightarrow> Inr (Some obj))
            else Inr None) of
        Inl e \<Rightarrow> Inl e
      | Inr dsc_cache \<Rightarrow>
         (case py_index (FileObjects catalog) (pi_uuid_file_index proc_info) of
            Inl e \<Rightarrow> Inl e
          | Inr obj \<Rightarrow>
             (case as_uuidtext (Some obj) of
                Inl e \<Rightarrow> Inl e
              | Inr ut_cache \<Rightarrow> Inr (dsc_cache, ut_cache))))"

definition tp_locals_init :: "TraceV3 \<Rightarrow> Uuidtext \<Rightarrow> nat \<Rightarrow> nat \<Rightarrow> nat \<Rightarrow> 'i tp_locals" where
  "tp_locals_init self ut_cache logtype fmt_str_v_offset log_data_len =
     \<lparr>t_pos3 = 24, t_log_data_len2 = int log_data_len, t_act_id = [0],
      t_fmt_str_v_offset = fmt_str_v_offset, t_format_str = [], t_ut = None,
      t_p_name = library_name ut_cache, t_lib = [], t_imageUUID = None,
      t_senderImagePath = [], t_imageOffset = 0, t_sub_sys = [], t_cat = [], t_ttl = 0,
      t_priv_str_v_offset = 0, t_priv_str_len = 0, t_load_address = 0,
      t_data_ref_id = None, t_sp_name_ref = None,
      t_signpost_string = signpost_template logtype, t_signpost_name = [],
      t_log_data = None, t_self = self\<rparr>"

text \<open>
  The body of the \<^verbatim>\<open>try\<close> block, lines 474 to 773: the fields of the tracepoint and its log
  data in their order (lines 541 to 750), the oversize payload, then the message and the log
  entry. It either raises, or gives the log entry.
\<close>

definition tp_fields ::
  "('f, 'i) externals \<Rightarrow> TraceV3 \<Rightarrow> bytes \<Rightarrow> Catalog \<Rightarrow> ProcInfo \<Rightarrow> bytes \<Rightarrow> nat \<Rightarrow>
   nat \<Rightarrow> nat \<Rightarrow> nat \<Rightarrow> nat \<Rightarrow> nat \<Rightarrow> file_object option \<Rightarrow> Uuidtext \<Rightarrow> 'i tp_result" where
  "tp_fields X self tracepoint_data catalog proc_info private_strings strings_v_offset
     record_type logtype flags fmt_str_v_offset log_data_len dsc_cache ut_cache =
     tp_bind
       (if is_activity logtype record_type
        then tp_activity_ids tracepoint_data logtype flags
               (tp_locals_init self ut_cache logtype fmt_str_v_offset log_data_len)
        else tp_plain_ids tracepoint_data flags private_strings
               (tp_locals_init self ut_cache logtype fmt_str_v_offset log_data_len))
       (\<lambda>t1. tp_bind (tp_load_address tracepoint_data flags t1)
         (\<lambda>t2. tp_bind
            (if flags AND 0x0008 \<noteq> 0 then
               (if flags AND 0x0002 = 0
                then tp_alternate_by_index X tracepoint_data catalog proc_info t2
                else tp_alternate_by_uuid X tracepoint_data catalog (library_name ut_cache) t2)
             else Inr t2)
            (\<lambda>t3. tp_bind
               (if \<not> is_activity logtype record_type
                then tp_optional_fields X tracepoint_data logtype flags proc_info t3
                else Inr t3)
               (\<lambda>t4. tp_bind
                  (tp_format_string X flags (fmt_str_v_offset AND 0x80000000)
                     dsc_cache ut_cache t4)
                  (tp_log_data X tracepoint_data record_type flags private_strings
                     strings_v_offset)))))"

definition tp_try_body ::
  "('f, 'i) externals \<Rightarrow> TraceV3 \<Rightarrow> bytes \<Rightarrow> nat \<Rightarrow> Catalog \<Rightarrow> ProcInfo \<Rightarrow> bytes \<Rightarrow> nat \<Rightarrow>
   nat \<Rightarrow> nat \<Rightarrow> nat \<Rightarrow> nat \<Rightarrow> nat \<Rightarrow> nat \<Rightarrow> nat \<Rightarrow> 'f \<Rightarrow>
   (TraceV3 \<times> exn) + ('f LogEntry \<times> TraceV3)" where
  "tp_try_body X self tracepoint_data log_file_pos catalog proc_info private_strings
     strings_v_offset record_type logtype flags fmt_str_v_offset thread log_data_len ct time =
     (case tp_file_objects catalog proc_info of
        Inl e \<Rightarrow> Inl (self, e)
      | Inr (dsc_cache, ut_cache) \<Rightarrow>
         (case tp_bind
                 (tp_fields X self tracepoint_data catalog proc_info private_strings
                    strings_v_offset record_type logtype flags fmt_str_v_offset log_data_len
                    dsc_cache ut_cache)
                 (tp_oversize X flags ct) of
            Inl x \<Rightarrow> Inl x
          | Inr t \<Rightarrow>
             (case tp_log_msg X log_file_pos t of
                Inl e \<Rightarrow> Inl (t_self t, e)
              | Inr log_msg \<Rightarrow>
                  Inr (tp_log_entry self log_file_pos ct time thread logtype record_type
                         proc_info ut_cache t log_msg, t_self t))))"

text \<open>
  \<^verbatim>\<open>_ParseFirehoseTracepointData\<close>. The header is unpacked and the time is computed before the
  \<^verbatim>\<open>try\<close> block, so what they raise leaves the method. Of what the block raises,
  \<^verbatim>\<open>ImportError\<close>, \<^verbatim>\<open>NameError\<close> and \<^verbatim>\<open>UnboundLocalError\<close> are raised again, everything else is
  logged and dropped. The result is the size \<^verbatim>\<open>24 + log_data_len\<close>, the log entry or \<^verbatim>\<open>None\<close>,
  and the object.
\<close>

definition reraised :: "exn \<Rightarrow> bool" where
  "reraised e \<longleftrightarrow> e = ImportError \<or> e = NameError \<or> e = UnboundLocalError"

definition TraceV3_ParseFirehoseTracepointData ::
  "('f, 'i) externals \<Rightarrow> TraceV3 \<Rightarrow> bytes \<Rightarrow> nat \<Rightarrow> nat \<Rightarrow> Catalog \<Rightarrow> ProcInfo \<Rightarrow> bytes \<Rightarrow> nat \<Rightarrow>
   exn + (nat \<times> 'f LogEntry option \<times> TraceV3)" where
  "TraceV3_ParseFirehoseTracepointData X self tracepoint_data log_file_pos firehose_ct
     catalog proc_info private_strings strings_v_offset =
     (case unpack_BBHIQIHH (slice tracepoint_data 0 24) of
        Inl e \<Rightarrow> Inl e
      | Inr (record_type, logtype, flags, fmt_str_v_offset, thread, ct_rel, ct_rel_upper,
             log_data_len) \<Rightarrow>
         (let ct = firehose_ct + (ct_rel OR push_bit 32 ct_rel_upper)
          in case time_from_continuoustime (fops X) (boot_uuid_ts_list self) ct None of
               Inl e \<Rightarrow> Inl e
             | Inr time \<Rightarrow>
                (case tp_try_body X self tracepoint_data log_file_pos catalog proc_info
                        private_strings strings_v_offset record_type logtype flags
                        fmt_str_v_offset thread log_data_len ct time of
                   Inl (self', e) \<Rightarrow>
                     if reraised e then Inl e else Inr (24 + log_data_len, None, self')
                 | Inr (log_entry, self') \<Rightarrow>
                     Inr (24 + log_data_len, Some log_entry, self'))))"

text \<open>
  \<^verbatim>\<open>_ParseFirehoseChunkData\<close>: the tracepoints from offset 32 up to \<^verbatim>\<open>offset_strings + 16\<close>, each
  followed by padding to 8 bytes relative to the skew of its start. The result is the list of
  the entries appended to \<^verbatim>\<open>logs\<close>, and the object.
\<close>

definition next_tracepoint :: "nat \<Rightarrow> nat \<Rightarrow> nat" where
  "next_tracepoint pos2 tracepoint_data_size =
     (if (pos2 + tracepoint_data_size - pos2 mod 8) mod 8 \<noteq> 0
      then pos2 + tracepoint_data_size +
             (8 - (pos2 + tracepoint_data_size - pos2 mod 8) mod 8)
      else pos2 + tracepoint_data_size)"

function firehose_loop ::
  "('f, 'i) externals \<Rightarrow> bytes \<Rightarrow> nat \<Rightarrow> nat \<Rightarrow> Catalog \<Rightarrow> ProcInfo \<Rightarrow> bytes \<Rightarrow> nat \<Rightarrow> nat \<Rightarrow>
   nat \<Rightarrow> 'f LogEntry list \<Rightarrow> TraceV3 \<Rightarrow> exn + ('f LogEntry list \<times> TraceV3)" where
  "firehose_loop X chunk_data debug_file_pos firehose_ct catalog proc_info private_strings
     strings_v_offset logs_end_offset pos2 logs self =
     (if pos2 < logs_end_offset then
        (case TraceV3_ParseFirehoseTracepointData X self (drop pos2 chunk_data)
                (debug_file_pos + pos2) firehose_ct catalog proc_info private_strings
                strings_v_offset of
           Inl e \<Rightarrow> Inl e
         | Inr (tracepoint_data_size, log_entry, self') \<Rightarrow>
             firehose_loop X chunk_data debug_file_pos firehose_ct catalog proc_info
               private_strings strings_v_offset logs_end_offset
               (next_tracepoint pos2 tracepoint_data_size)
               (case log_entry of None \<Rightarrow> logs | Some l \<Rightarrow> logs @ [l]) self')
      else Inr (logs, self))"
  by pat_completeness auto
termination
  apply (relation "measure (\<lambda>(X, chunk_data, debug_file_pos, firehose_ct, catalog, proc_info,
                             private_strings, strings_v_offset, logs_end_offset, pos2, logs, self).
                             logs_end_offset - pos2)")
   apply simp
  apply (auto simp: TraceV3_ParseFirehoseTracepointData_def next_tracepoint_def Let_def
              split: sum.splits prod.splits if_splits)
  done

declare firehose_loop.simps [simp del]

definition TraceV3_ParseFirehoseChunkData ::
  "('f, 'i) externals \<Rightarrow> TraceV3 \<Rightarrow> bytes \<Rightarrow> nat \<Rightarrow> Catalog \<Rightarrow> ProcInfo \<Rightarrow>
   exn + ('f LogEntry list \<times> TraceV3)" where
  "TraceV3_ParseFirehoseChunkData X self chunk_data debug_file_pos catalog proc_info =
     (case unpack_HHHHQ (slice chunk_data 16 32) of
        Inl e \<Rightarrow> Inl e
      | Inr (offset_strings, strings_v_offset, unknown4, unknown5, firehose_ct) \<Rightarrow>
         (case DebugPrintTimestampFromContTime X self firehose_ct of
            Inl e \<Rightarrow> Inl e
          | Inr u \<Rightarrow>
              firehose_loop X chunk_data debug_file_pos firehose_ct catalog proc_info
                (if strings_v_offset < 4096
                 then drop (length chunk_data - (4096 - strings_v_offset)) chunk_data
                 else [])
                strings_v_offset (offset_strings + 16) 32 [] self))"

text \<open>
  \<^verbatim>\<open>_ParseOversizeChunkData\<close>: the payload is stored under \<^verbatim>\<open>data_ref_id << 64 | ct\<close>, then the
  time is computed for a debug message.
\<close>

definition TraceV3_ParseOversizeChunkData ::
  "('f, 'i) externals \<Rightarrow> TraceV3 \<Rightarrow> bytes \<Rightarrow> nat \<Rightarrow> exn + TraceV3" where
  "TraceV3_ParseOversizeChunkData X self chunk_data log_file_pos =
     (case unpack_QII (slice chunk_data 16 32) of
        Inl e \<Rightarrow> Inl e
      | Inr (ct, data_ref_id, data_length) \<Rightarrow>
         (let self' = self\<lparr>large_data :=
                (large_data self)(large_data_key data_ref_id ct \<mapsto>
                   slice chunk_data 32 (32 + data_length))\<rparr>
          in case time_from_continuoustime (fops X) (boot_uuid_ts_list self') ct None of
               Inl e \<Rightarrow> Inl e
             | Inr time \<Rightarrow>
                (case ReadAPFSTime X time of Inl e \<Rightarrow> Inl e | Inr time_string \<Rightarrow> Inr self')))"

section \<open>The parsers in their places, batches, and concrete files\<close>

text \<open>
  The methods that the chunk walker calls, with the parsers modelled above in their places.
  What remains a parameter: what those parsers call (\<open>X\<close>), \<^verbatim>\<open>lz4.block.decompress\<close>, and the
  parsers of state and simple dump chunks.
\<close>

definition program_env ::
  "('f, 'i) externals \<Rightarrow> (bytes \<Rightarrow> nat \<Rightarrow> bytes \<Rightarrow> exn + bytes) \<Rightarrow>
   (TraceV3 \<Rightarrow> bytes \<Rightarrow> Catalog \<Rightarrow> ProcInfo \<Rightarrow> nat \<Rightarrow> exn + ('f LogEntry list \<times> TraceV3)) \<Rightarrow>
   (TraceV3 \<Rightarrow> bytes \<Rightarrow> Catalog \<Rightarrow> ProcInfo \<Rightarrow> nat \<Rightarrow> exn + ('f LogEntry list \<times> TraceV3)) \<Rightarrow>
   'f tv3_env" where
  "program_env X lz4 state_parser simple_dump_parser =
     \<lparr>ParseFileHeader = TraceV3_ParseFileHeader X,
      ParseMetaChunk = TraceV3_ParseMetaChunk X,
      DecompressChunkData = TraceV3_DecompressChunkData lz4,
      ParseFirehoseChunkData = TraceV3_ParseFirehoseChunkData X,
      ParseOversizeChunkData = TraceV3_ParseOversizeChunkData X,
      ParseStateChunkData = state_parser,
      ParseSimpleDumpData = simple_dump_parser\<rparr>"




text \<open>
  Modelled from the spec: batching to the sink happens whenever the pending batch exceeds
  100,000 records, and the pending list is reset to empty; at the end of the file any
  non-empty remainder is delivered in a final flush. \<open>batch_spec pending outputs\<close> takes the
  entries that the chunks add, chunk by chunk, and gives the batches delivered and the
  entries still pending; \<open>batches_with_flush\<close> adds the final flush.
\<close>

fun batch_spec :: "'a list \<Rightarrow> 'a list list \<Rightarrow> 'a list list \<times> 'a list" where
  "batch_spec pending [] = ([], pending)"
| "batch_spec pending (new # outputs) =
     (if length (pending @ new) > 100000
      then (case batch_spec [] outputs of
              (delivered, remainder) \<Rightarrow> ((pending @ new) # delivered, remainder))
      else batch_spec (pending @ new) outputs)"

definition batches_with_flush :: "'a list list \<Rightarrow> 'a list list" where
  "batches_with_flush outputs =
     (case batch_spec [] outputs of
        (delivered, remainder) \<Rightarrow> if remainder \<noteq> [] then delivered @ [remainder] else delivered)"


text \<open>
  Concrete inputs. A fresh \<^verbatim>\<open>TraceV3\<close> object. Externals of which every method raises and every
  constructor fills the attributes with the arguments of their names: the runs below call
  none of them. Parsers of state and simple dump chunks and a decompression that raise: the
  runs below reach none of them.
\<close>

definition TraceV3_init :: TraceV3 where
  "TraceV3_init =
     \<lparr>header_item_continuousTime = 0, system_boot_uuid = None, boot_uuid_ts_list = None,
      large_data = (\<lambda>k. None), other_uuidtext = [], tv3_filename = ''a.tracev3'',
      tv3_is_valid = True\<rparr>"

definition absent_externals :: "(pyfloat, unit) externals" where
  "absent_externals =
     \<lparr>fops = python_float,
      ReadAPFSTime = (\<lambda>t. Inl OtherException),
      ReadCString = (\<lambda>b. Inl OtherException),
      new_ProcInfo = (\<lambda>proc_id flags file_id dsc_index proc_id1 proc_id2 pid euid u6 n_refs u8
                        n_subsys u9 refs.
         \<lparr>pi_proc_id1 = proc_id1, pi_proc_id2 = proc_id2, pi_pid = pid, pi_euid = euid,
          pi_dsc_file_index = dsc_index, pi_uuid_file_index = file_id,
          pi_extra_file_refs = refs, pi_items = []\<rparr>),
      new_ExtraFileReference = (\<lambda>r_size r_index r_u2 r_offset r_id.
         \<lparr>ref_data_size = r_size, ref_uuid_file_index = r_index, ref_v_offset = r_offset,
          ref_id = r_id\<rparr>),
      GetProcInfoById = (\<lambda>c i. Inl OtherException),
      GetSubSystemAndCategory = (\<lambda>p i. Inl OtherException),
      new_Uuidtext = (\<lambda>p. Inl OtherException),
      Uuidtext_Parse = (\<lambda>u. Inl OtherException),
      ut_ReadFmtStringFromVirtualOffset = (\<lambda>u v. Inl OtherException),
      ProcessReferencedFile = (\<lambda>self p c. Inl OtherException),
      dsc_ReadFmtStringAndEntriesFromVirtualOffset = (\<lambda>d v. Inl OtherException),
      ReadLogDataBuffer = (\<lambda>b n s c. Inl OtherException),
      ReadLogDataBuffer2 = (\<lambda>b n s. Inl OtherException),
      RecreateMsgFromFmtStringAndData = (\<lambda>f d p. Inl OtherException)\<rparr>"

definition absent_env :: "pyfloat tv3_env" where
  "absent_env =
     program_env absent_externals (\<lambda>c n d. Inl OtherException)
       (\<lambda>self d c i p. Inl OtherException) (\<lambda>self d c i p. Inl OtherException)"

text \<open>
  Three chunks. The header chunk (tag \<^verbatim>\<open>0x1000\<close>, subtag \<^verbatim>\<open>0x11\<close>) has the 40 bytes of the fixed
  header and no header items. The catalog chunk (tag \<^verbatim>\<open>0x600B\<close>) names no files, strings or
  processes and has one chunk meta, which lists no process. The compressed chunk (tag
  \<^verbatim>\<open>0x600D\<close>) stores one firehose sub-chunk uncompressed (\<^verbatim>\<open>bv4-\<close>), of the process \<open>(1, proc2)\<close>,
  and is padded to a multiple of 8.
\<close>

definition tv3_header_chunk :: bytes where
  "tv3_header_chunk =
     [0x00, 0x10, 0, 0, 0x11, 0, 0, 0, 40, 0, 0, 0, 0, 0, 0, 0,
      1, 0, 0, 0, 1, 0, 0, 0, 0, 0, 0, 0, 0, 0, 0, 0,
      0, 0, 0, 0, 0, 0, 0, 0, 0, 0, 0, 0, 0, 0, 0, 0,
      0, 0, 0, 0, 0, 0, 0, 0]"

definition tv3_catalog_chunk :: bytes where
  "tv3_catalog_chunk =
     [0x0B, 0x60, 0, 0, 0x11, 0, 0, 0, 56, 0, 0, 0, 0, 0, 0, 0,
      0, 0, 0, 0, 0, 0, 0, 0, 1, 0, 0, 0, 0, 0, 0, 0,
      0, 0, 0, 0, 0, 0, 0, 0,
      0, 0, 0, 0, 0, 0, 0, 0, 0, 0, 0, 0, 0, 0, 0, 0,
      0, 0, 0, 0, 0, 0, 0, 0, 0, 0, 0, 0, 0, 0, 0, 0]"

definition parsed_catalog :: Catalog where
  "parsed_catalog =
     \<lparr>FileObjects = [], Strings = [], catalog_ProcInfos = [],
      ChunkMetaInfo =
        [\<lparr>c_time_first = 0, c_time_last = 0, chunk_len = 0, compression_alg = 0,
          ProcInfo_Ids = [], StringIndexes = [], ProcInfos = []\<rparr>]\<rparr>"

definition firehose_sub_chunk :: "byte \<Rightarrow> bytes" where
  "firehose_sub_chunk proc2 =
     [0x01, 0x60, 0, 0, 0, 0, 0, 0, 16, 0, 0, 0, 0, 0, 0, 0,
      1, 0, 0, 0, 0, 0, 0, 0, proc2, 0, 0, 0, 0, 0, 0, 0]"

definition tv3_data_chunk :: "byte \<Rightarrow> bytes" where
  "tv3_data_chunk proc2 =
     [0x0D, 0x60, 0, 0, 0x11, 0, 0, 0, 44, 0, 0, 0, 0, 0, 0, 0] @
     [0x62, 0x76, 0x34, 0x2D, 32, 0, 0, 0] @ firehose_sub_chunk proc2 @
     [0x62, 0x76, 0x34, 0x24, 0, 0, 0, 0]"

text \<open>
  Two files: the header chunk followed by a chunk of the unknown tag \<^verbatim>\<open>0x600C\<close> with 3 bytes
  of data, padded to 8; and the header chunk, the catalog chunk and a compressed chunk whose
  sub-chunk belongs to the process \<open>(1, 9)\<close>, which the chunk meta does not list.
\<close>

definition tv3_unaligned_file :: bytes where
  "tv3_unaligned_file =
     tv3_header_chunk @
     [0x0C, 0x60, 0, 0, 0, 0, 0, 0, 3, 0, 0, 0, 0, 0, 0, 0, 1, 2, 3, 0, 0, 0, 0, 0]"

definition tv3_missing_proc_file :: bytes where
  "tv3_missing_proc_file = tv3_header_chunk @ tv3_catalog_chunk @ tv3_data_chunk 9"

section \<open>Properties\<close>

subsection \<open>The binary search\<close>

lemma bisect_right_sorted:
  "sorted a \<Longrightarrow> lo \<le> hi \<Longrightarrow> hi \<le> length a \<Longrightarrow> (\<forall>i<lo. a ! i \<le> x) \<Longrightarrow>
   (\<forall>i. hi \<le> i \<and> i < length a \<longrightarrow> x < a ! i) \<Longrightarrow>
   \<exists>p. bisect_right a x lo hi = Inr p \<and> lo \<le> p \<and> p \<le> hi \<and> (\<forall>i<p. a ! i \<le> x) \<and>
       (\<forall>i. p \<le> i \<and> i < length a \<longrightarrow> x < a ! i)"
proof (induction a x lo hi rule: bisect_right.induct)
  case (1 a x lo hi)
  show ?case
  proof (cases "lo < hi")
    case False
    with "1.prems" show ?thesis by (subst bisect_right.simps) auto
  next
    case True
    define mid where "mid = (lo + hi) div 2"
    have mid: "lo \<le> mid" "mid < hi" "mid < length a" using True "1.prems" by (auto simp: mid_def)
    show ?thesis
    proof (cases "x < a ! mid")
      case lt: True
      have up: "\<forall>i. mid \<le> i \<and> i < length a \<longrightarrow> x < a ! i"
      proof (intro allI impI)
        fix i assume "mid \<le> i \<and> i < length a"
        then have "a ! mid \<le> a ! i" using "1.prems"(1) by (simp add: sorted_nth_mono)
        with lt show "x < a ! i" by simp
      qed
      have "\<exists>p. bisect_right a x lo mid = Inr p \<and> lo \<le> p \<and> p \<le> mid \<and> (\<forall>i<p. a ! i \<le> x) \<and>
       (\<forall>i. p \<le> i \<and> i < length a \<longrightarrow> x < a ! i)"
        using "1.IH"(1)[OF True mid_def _ lt "1.prems"(1)] mid "1.prems" up by auto
      then show ?thesis using True mid lt
        by (subst bisect_right.simps) (auto simp: mid_def Let_def)
    next
      case ge: False
      have low: "\<forall>i<mid + 1. a ! i \<le> x"
      proof (intro allI impI)
        fix i assume "i < mid + 1"
        then have "a ! i \<le> a ! mid" using "1.prems"(1) mid by (simp add: sorted_nth_mono)
        with ge show "a ! i \<le> x" by simp
      qed
      have "\<exists>p. bisect_right a x (mid + 1) hi = Inr p \<and> mid + 1 \<le> p \<and> p \<le> hi \<and> (\<forall>i<p. a ! i \<le> x) \<and>
       (\<forall>i. p \<le> i \<and> i < length a \<longrightarrow> x < a ! i)"
        using "1.IH"(2)[OF True mid_def _ ge "1.prems"(1)] mid "1.prems" low by auto
      then show ?thesis using True mid ge
        by (subst bisect_right.simps) (auto simp: mid_def Let_def)
    qed
  qed
qed

subsection \<open>What the dsc parser establishes\<close>

lemma Dsc_range_loop_inv:
  "Dsc_range_loop major n f d = (d', r) \<Longrightarrow>
   distinct (map fst (range_entries d)) \<Longrightarrow> (\<forall>(k, e) \<in> set (range_entries d). v_off e = k) \<Longrightarrow>
   distinct (map fst (range_entries d')) \<and> (\<forall>(k, e) \<in> set (range_entries d'). v_off e = k)"
proof (induction major n f d rule: Dsc_range_loop.induct)
  case (1 major n f d)
  show ?case
  proof (cases "length (range_entries d) < n")
    case False
    with "1.prems" show ?thesis by (subst (asm) Dsc_range_loop.simps) auto
  next
    case True
    show ?thesis
    proof (cases "read_range_entry major f")
      case (Inl e)
      with True "1.prems" show ?thesis by (subst (asm) Dsc_range_loop.simps) auto
    next
      case (Inr p)
      obtain re f' where p: "p = (re, f')" by (cases p)
      show ?thesis
      proof (cases "v_off re \<in> set (map fst (range_entries d))")
        case dup: True
        with True Inr p "1.prems" show ?thesis by (subst (asm) Dsc_range_loop.simps) auto
      next
        case fresh: False
        let ?d1 = "d\<lparr>range_entries := range_entries d @ [(v_off re, re)]\<rparr>"
        have call: "Dsc_range_loop major n f' ?d1 = (d', r)"
          using True Inr p fresh "1.prems"(1) by (subst (asm) Dsc_range_loop.simps) auto
        have a: "distinct (map fst (range_entries ?d1))" using fresh "1.prems"(2) by auto
        have b: "\<forall>(k, e) \<in> set (range_entries ?d1). v_off e = k" using "1.prems"(3) by auto
        show ?thesis using "1.IH"[OF True Inr p[symmetric] fresh call a b] .
      qed
    qed
  qed
qed

lemma Dsc_uuid_loop_keeps:
  "Dsc_uuid_loop rcs major n f off d = (d', r) \<Longrightarrow>
   range_entries d' = range_entries d \<and> range_entry_offsets d' = range_entry_offsets d \<and>
   num_range_entries d' = num_range_entries d"
proof (induction rcs major n f off d rule: Dsc_uuid_loop.induct)
  case (1 rcs major n f off d)
  show ?case
  proof (cases "length (uuid_entries d) < n")
    case False
    with "1.prems" show ?thesis by (subst (asm) Dsc_uuid_loop.simps) auto
  next
    case True
    show ?thesis
    proof (cases "read_uuid_entry rcs major f off")
      case (Inl e)
      with True "1.prems" show ?thesis by (subst (asm) Dsc_uuid_loop.simps) auto
    next
      case (Inr p)
      obtain ue rest where p1: "(ue, rest) = p" by (cases p) auto
      obtain f' off' where p2: "(f', off') = rest" by (cases rest) auto
      have p: "p = (ue, f', off')" using p1 p2 by simp
      let ?d1 = "d\<lparr>uuid_entries := uuid_entries d @ [ue]\<rparr>"
      show ?thesis
      proof (cases "u_v_off ue \<in> set (map fst (uuid_entry_dict ?d1))")
        case dup: True
        with True Inr p "1.prems" show ?thesis
          by (subst (asm) Dsc_uuid_loop.simps) (auto simp: Let_def)
      next
        case fresh: False
        let ?d2 = "?d1\<lparr>uuid_entry_dict := uuid_entry_dict ?d1 @ [(u_v_off ue, ue)]\<rparr>"
        have call: "Dsc_uuid_loop rcs major n f' off' ?d2 = (d', r)"
          using True Inr p fresh "1.prems"(1)
          by (subst (asm) Dsc_uuid_loop.simps) (auto simp: Let_def)
        have "range_entries d' = range_entries ?d2 \<and> range_entry_offsets d' = range_entry_offsets ?d2 \<and>
              num_range_entries d' = num_range_entries ?d2"
          using "1.IH"[OF True Inr p1 p2 refl fresh call] by simp
        then show ?thesis by simp
      qed
    qed
  qed
qed

lemma Dsc_ParseFileObject_wf:
  assumes "Dsc_ParseFileObject rcs d0 f = (d, Inr True)" and "range_entries d0 = []"
  shows "Dsc_wf d"
proof -
  obtain hdr f1 where rd: "fread f 16 = (hdr, f1)" by (cases "fread f 16")
  from assms(1) rd have sig: "slice hdr 0 4 = hcsd"
    by (auto simp: Dsc_ParseFileObject_def split: if_splits)
  from assms(1) rd sig obtain mj mn nr nu where
    hd: "unpack_HHII (slice hdr 4 16) = Inr (mj, mn, nr, nu)"
    by (auto simp: Dsc_ParseFileObject_def split: sum.splits)
  from assms(1) rd sig hd have mj: "\<not> mj > 2"
    by (auto simp: Dsc_ParseFileObject_def split: if_splits)
  let ?da = "d0\<lparr>format_version := Some (mj, mn)\<rparr>"
  obtain d1 r1 where l1: "Dsc_range_loop mj nr f1 ?da = (d1, r1)"
    by (cases "Dsc_range_loop mj nr f1 ?da")
  from assms(1) rd sig hd mj l1 obtain f2 where r1: "r1 = Inr f2"
    by (cases r1) (auto simp: Dsc_ParseFileObject_def)
  let ?d2 = "d1\<lparr>range_entry_offsets := sort (map fst (range_entries d1)),
                 num_range_entries := length (sort (map fst (range_entries d1)))\<rparr>"
  obtain d3 r3 where l3: "Dsc_uuid_loop rcs mj nu f2 (fpos f2) ?d2 = (d3, r3)"
    by (cases "Dsc_uuid_loop rcs mj nu f2 (fpos f2) ?d2")
  from assms(1) rd sig hd mj l1 r1 l3 obtain f3 where r3: "r3 = Inr f3"
    by (cases r3) (auto simp: Dsc_ParseFileObject_def Let_def)
  from assms(1) rd sig hd mj l1 r1 l3 r3 have d: 
    "d = d3\<lparr>uuid_entry_offsets := sort (map fst (uuid_entry_dict d3)),
            num_uuid_entries := length (sort (map fst (uuid_entry_dict d3)))\<rparr>"
    by (auto simp: Dsc_ParseFileObject_def Let_def)
  have i1: "distinct (map fst (range_entries d1)) \<and> (\<forall>(k, e) \<in> set (range_entries d1). v_off e = k)"
    using Dsc_range_loop_inv[OF l1] assms(2) by simp
  have k3: "range_entries d3 = range_entries ?d2 \<and> range_entry_offsets d3 = range_entry_offsets ?d2 \<and>
   num_range_entries d3 = num_range_entries ?d2"
    using Dsc_uuid_loop_keeps[OF l3] .
  show ?thesis using i1 k3 d by (simp add: Dsc_wf_def)
qed

lemma Dsc_Parse_True:
  assumes "Dsc_Parse rcs d0 (Some c) = (d, Inr True)"
  shows "Dsc_ParseFileObject rcs d0 \<lparr>content = c, fpos = 0\<rparr> = (d, Inr True)"
proof -
  obtain d' r where pf: "Dsc_ParseFileObject rcs d0 \<lparr>content = c, fpos = 0\<rparr> = (d', r)"
    by (cases "Dsc_ParseFileObject rcs d0 \<lparr>content = c, fpos = 0\<rparr>")
  show ?thesis
  proof (cases r)
    case (Inl e)
    with assms pf show ?thesis by (simp add: Dsc_Parse_def split: if_splits)
  next
    case (Inr b)
    with assms pf show ?thesis by (simp add: Dsc_Parse_def split: if_splits)
  qed
qed

lemma Dsc_wf_offsets:
  assumes "Dsc_wf d"
  shows "sorted (range_entry_offsets d)" and "distinct (range_entry_offsets d)"
    and "set (range_entry_offsets d) = v_off ` snd ` set (range_entries d)"
    and "num_range_entries d = length (range_entry_offsets d)"
proof -
  show "sorted (range_entry_offsets d)" using assms by (simp add: Dsc_wf_def)
  show "distinct (range_entry_offsets d)" using assms by (simp add: Dsc_wf_def)
  show "num_range_entries d = length (range_entry_offsets d)" using assms by (simp add: Dsc_wf_def)
  have "\<forall>x \<in> set (range_entries d). fst x = v_off (snd x)"
    using assms unfolding Dsc_wf_def by (simp add: case_prod_unfold)
  then have "map fst (range_entries d) = map (\<lambda>x. v_off (snd x)) (range_entries d)"
    by simp
  then have "set (map fst (range_entries d)) = set (map (\<lambda>x. v_off (snd x)) (range_entries d))"
    by simp
  then have "fst ` set (range_entries d) = v_off ` snd ` set (range_entries d)"
    by (simp add: image_image)
  moreover have "set (range_entry_offsets d) = fst ` set (range_entries d)"
    using assms by (simp add: Dsc_wf_def)
  ultimately show "set (range_entry_offsets d) = v_off ` snd ` set (range_entries d)"
    by simp
qed

lemma Dsc_wf_map_of:
  assumes "Dsc_wf d" and "a \<in> snd ` set (range_entries d)"
  shows "map_of (range_entries d) (v_off a) = Some a"
proof -
  from assms(2) obtain x where x: "x \<in> set (range_entries d)" "a = snd x" by (rule imageE)
  have "\<forall>x \<in> set (range_entries d). v_off (snd x) = fst x"
    using assms(1) unfolding Dsc_wf_def by (simp add: case_prod_unfold)
  then have "fst x = v_off a" using x by simp
  then have "(v_off a, a) \<in> set (range_entries d)" using x by (metis prod.collapse)
  moreover have "distinct (map fst (range_entries d))" using assms(1) by (simp add: Dsc_wf_def)
  ultimately show ?thesis by (rule map_of_is_SomeI[rotated])
qed

lemma Dsc_range_loop_dup:
  "\<not> distinct (map fst (range_entries d) @
        map v_off (range_records major (n - length (range_entries d)) f)) \<Longrightarrow>
   distinct (map fst (range_entries d)) \<Longrightarrow>
   snd (Dsc_range_loop major n f d) = Inl ValueError"
proof (induction major n f d rule: Dsc_range_loop.induct)
  case (1 major n f d)
  show ?case
  proof (cases "length (range_entries d) < n")
    case False
    then have "n - length (range_entries d) = 0" by simp
    with "1.prems" show ?thesis by simp
  next
    case True
    then obtain k where k: "n - length (range_entries d) = Suc k"
      by (metis Suc_diff_Suc)
    show ?thesis
    proof (cases "read_range_entry major f")
      case (Inl e)
      with "1.prems" k show ?thesis by simp
    next
      case (Inr p)
      obtain re f' where p: "(re, f') = p" by (cases p) auto
      show ?thesis
      proof (cases "v_off re \<in> set (map fst (range_entries d))")
        case dup: True
        show ?thesis using True Inr p[symmetric] dup by (subst Dsc_range_loop.simps) simp
      next
        case fresh: False
        let ?d1 = "d\<lparr>range_entries := range_entries d @ [(v_off re, re)]\<rparr>"
        have k': "n - length (range_entries ?d1) = k" using k by simp
        have a: "\<not> distinct (map fst (range_entries ?d1) @
                   map v_off (range_records major (n - length (range_entries ?d1)) f'))"
          using "1.prems"(1) k Inr p[symmetric] unfolding k' by simp
        have b: "distinct (map fst (range_entries ?d1))" using fresh "1.prems"(2) by simp
        have "snd (Dsc_range_loop major n f' ?d1) = Inl ValueError"
          using "1.IH"[OF True Inr p fresh a b] .
        then show ?thesis using True Inr p[symmetric] fresh by (subst Dsc_range_loop.simps) simp
      qed
    qed
  qed
qed

lemma Dsc_Parse_ValueError:
  assumes rd: "fread \<lparr>content = c, fpos = 0\<rparr> 16 = (hdr, f1)"
    and sig: "slice hdr 0 4 = hcsd"
    and hd: "unpack_HHII (slice hdr 4 16) = Inr (mj, mn, nr, nu)"
    and mj: "mj \<le> 2"
    and dup: "\<not> distinct (map v_off (range_records mj nr f1))"
  shows "snd (Dsc_Parse rcs Dsc_init (Some c)) = Inl ValueError"
proof -
  let ?da = "Dsc_init\<lparr>format_version := Some (mj, mn)\<rparr>"
  have e: "range_entries ?da = []" by (simp add: Dsc_init_def)
  have "snd (Dsc_range_loop mj nr f1 ?da) = Inl ValueError"
    by (rule Dsc_range_loop_dup) (use dup e in simp_all)
  then obtain d1 where l: "Dsc_range_loop mj nr f1 ?da = (d1, Inl ValueError)"
    by (cases "Dsc_range_loop mj nr f1 ?da") simp
  have "Dsc_ParseFileObject rcs Dsc_init \<lparr>content = c, fpos = 0\<rparr> = (d1, Inl ValueError)"
    using rd sig hd mj l by (simp add: Dsc_ParseFileObject_def)
  then show ?thesis by (simp add: Dsc_Parse_def)
qed

subsection \<open>The lookup by virtual offset\<close>

lemma Dsc_bisect:
  assumes "Dsc_wf d"
  shows "\<exists>p. bisect_right (range_entry_offsets d) v 0 (num_range_entries d) = Inr p
    \<and> p \<le> length (range_entry_offsets d)
    \<and> (\<forall>i<p. range_entry_offsets d ! i \<le> v)
    \<and> (\<forall>i. p \<le> i \<and> i < length (range_entry_offsets d) \<longrightarrow> v < range_entry_offsets d ! i)"
proof -
  have s: "sorted (range_entry_offsets d)" by (rule Dsc_wf_offsets(1)[OF assms])
  have "\<exists>p. bisect_right (range_entry_offsets d) v 0 (length (range_entry_offsets d)) = Inr p \<and>
      0 \<le> p \<and> p \<le> length (range_entry_offsets d) \<and> (\<forall>i<p. range_entry_offsets d ! i \<le> v) \<and>
       (\<forall>i. p \<le> i \<and> i < length (range_entry_offsets d) \<longrightarrow> v < range_entry_offsets d ! i)"
    by (rule bisect_right_sorted[OF s]) simp_all
  then show ?thesis unfolding Dsc_wf_offsets(4)[OF assms] by blast
qed

lemma Dsc_Find_none_below:
  assumes wf: "Dsc_wf d" and below: "\<forall>a \<in> snd ` set (range_entries d). v < v_off a"
  shows "Dsc_FindVirtualOffsetEntries d v = Inr (None, None)"
proof -
  let ?offs = "range_entry_offsets d"
  obtain p where p: "bisect_right ?offs v 0 (num_range_entries d) = Inr p"
    "p \<le> length ?offs" "\<forall>i<p. ?offs ! i \<le> v"
    using Dsc_bisect[OF wf, of v] by blast
  have "p = 0"
  proof (rule ccontr)
    assume "p \<noteq> 0"
    then have 0: "?offs ! 0 \<le> v" "0 < length ?offs" using p(2,3) by auto
    have "?offs ! 0 \<in> set ?offs" using 0(2) by (rule nth_mem)
    then have "?offs ! 0 \<in> v_off ` snd ` set (range_entries d)"
      using Dsc_wf_offsets(3)[OF wf] by simp
    then obtain b where b: "b \<in> snd ` set (range_entries d)" "?offs ! 0 = v_off b"
      by (rule imageE)
    have "v < v_off b" using below b(1) by blast
    then show False using 0(1) b(2) by simp
  qed
  then show ?thesis using p(1) by (simp add: Dsc_FindVirtualOffsetEntries_def)
qed

lemma Dsc_Find_greatest:
  assumes wf: "Dsc_wf d" and a: "a \<in> snd ` set (range_entries d)" and le: "v_off a \<le> v"
    and greatest: "\<forall>b \<in> snd ` set (range_entries d). v_off b \<le> v \<longrightarrow> v_off b \<le> v_off a"
  shows "Dsc_FindVirtualOffsetEntries d v =
     (if v < v_off a + data_len a
      then (if uuid_index a < length (uuid_entries d)
            then Inr (Some a, Some (uuid_entries d ! uuid_index a)) else Inl IndexError)
      else Inr (None, None))"
proof -
  let ?offs = "range_entry_offsets d"
  obtain p where p: "bisect_right ?offs v 0 (num_range_entries d) = Inr p"
    "p \<le> length ?offs" "\<forall>i<p. ?offs ! i \<le> v"
    "\<forall>i. p \<le> i \<and> i < length ?offs \<longrightarrow> v < ?offs ! i"
    using Dsc_bisect[OF wf, of v] by blast
  have "v_off a \<in> set ?offs" using a Dsc_wf_offsets(3)[OF wf] by auto
  then obtain j where j: "j < length ?offs" "?offs ! j = v_off a" by (auto simp: in_set_conv_nth)
  have jp: "j < p"
  proof (rule ccontr)
    assume "\<not> j < p"
    then have "v < ?offs ! j" using p(4) j(1) by simp
    then show False using j(2) le by simp
  qed
  then have ppos: "0 < p" and p1: "p - 1 < length ?offs" using p(2) by auto
  have "?offs ! (p - 1) \<in> set ?offs" using p1 by (rule nth_mem)
  then have "?offs ! (p - 1) \<in> v_off ` snd ` set (range_entries d)"
    using Dsc_wf_offsets(3)[OF wf] by simp
  then obtain b where b: "b \<in> snd ` set (range_entries d)" "?offs ! (p - 1) = v_off b"
    by (rule imageE)
  have "?offs ! (p - 1) \<le> v" using p(3) ppos by simp
  then have "v_off b \<le> v" using b(2) by simp
  then have "v_off b \<le> v_off a" using greatest b(1) by blast
  then have "?offs ! (p - 1) \<le> v_off a" using b(2) by simp
  moreover have "v_off a \<le> ?offs ! (p - 1)"
    using sorted_nth_mono[OF Dsc_wf_offsets(1)[OF wf], of j "p - 1"] jp p1 j by simp
  ultimately have eq: "?offs ! (p - 1) = v_off a" by simp
  have np: "\<not> length ?offs \<le> p - 1" using p1 by simp
  have m: "map_of (range_entries d) (?offs ! (p - 1)) = Some a"
    using eq Dsc_wf_map_of[OF wf a] by simp
  show ?thesis
    unfolding Dsc_FindVirtualOffsetEntries_def p(1)
    using ppos np m apply (simp del: One_nat_def) done
qed

text \<open>
  Claim C3, as the code has it. For a dsc file that \<^verbatim>\<open>Parse\<close> accepted, \<^verbatim>\<open>FindVirtualOffsetEntries\<close>
  returns \<^verbatim>\<open>(None, None)\<close> when every range starts after \<open>v\<close>; otherwise it takes the range
  \<open>a\<close> with the greatest \<open>v_off \<le> v\<close> and accepts it only if \<open>v < v_off a + data_len a\<close>, returning it
  with \<^verbatim>\<open>uuid_entries[uuid_index]\<close> (\<^verbatim>\<open>IndexError\<close> when that index is beyond the uuid table).
  Consequently, when the ranges of the file do not overlap, every \<open>v\<close> inside a known range with
  a valid uuid index is answered with exactly that range.
\<close>

theorem Dsc_find_greatest_range:
  assumes parsed: "Dsc_Parse rcs Dsc_init (Some c) = (d, Inr True)"
  shows "((\<forall>a \<in> snd ` set (range_entries d). v < v_off a) \<longrightarrow>
            Dsc_FindVirtualOffsetEntries d v = Inr (None, None)) \<and>
         (\<forall>a \<in> snd ` set (range_entries d).
            v_off a \<le> v \<and> (\<forall>b \<in> snd ` set (range_entries d). v_off b \<le> v \<longrightarrow> v_off b \<le> v_off a) \<longrightarrow>
            Dsc_FindVirtualOffsetEntries d v =
              (if v < v_off a + data_len a
               then (if uuid_index a < length (uuid_entries d)
                     then Inr (Some a, Some (uuid_entries d ! uuid_index a)) else Inl IndexError)
               else Inr (None, None))) \<and>
         (ranges_disjoint d \<longrightarrow>
            (\<forall>a \<in> snd ` set (range_entries d).
               v_off a \<le> v \<and> v < v_off a + data_len a \<and> uuid_index a < length (uuid_entries d) \<longrightarrow>
               Dsc_FindVirtualOffsetEntries d v = Inr (Some a, Some (uuid_entries d ! uuid_index a))))"
proof -
  have wf: "Dsc_wf d"
    by (rule Dsc_ParseFileObject_wf[OF Dsc_Parse_True[OF parsed]]) (simp add: Dsc_init_def)
  let ?E = "snd ` set (range_entries d)"
  have g: "\<And>a. a \<in> ?E \<Longrightarrow> v_off a \<le> v \<Longrightarrow> (\<forall>b \<in> ?E. v_off b \<le> v \<longrightarrow> v_off b \<le> v_off a) \<Longrightarrow>
       Dsc_FindVirtualOffsetEntries d v =
              (if v < v_off a + data_len a
               then (if uuid_index a < length (uuid_entries d)
                     then Inr (Some a, Some (uuid_entries d ! uuid_index a)) else Inl IndexError)
               else Inr (None, None))"
    by (rule Dsc_Find_greatest[OF wf])
  have c3: "Dsc_FindVirtualOffsetEntries d v = Inr (Some a, Some (uuid_entries d ! uuid_index a))"
    if dj: "ranges_disjoint d" and a: "a \<in> ?E" and le: "v_off a \<le> v"
      and lt: "v < v_off a + data_len a" and ui: "uuid_index a < length (uuid_entries d)" for a
  proof -
    have "\<forall>b \<in> ?E. v_off b \<le> v \<longrightarrow> v_off b \<le> v_off a"
    proof (intro ballI impI)
      fix b assume b: "b \<in> ?E" and bv: "v_off b \<le> v"
      show "v_off b \<le> v_off a"
      proof (rule ccontr)
        assume "\<not> v_off b \<le> v_off a"
        then have "v_off a < v_off b" by simp
        then have "v_off a + data_len a \<le> v_off b" using dj a b unfolding ranges_disjoint_def by blast
        then show False using bv lt by simp
      qed
    qed
    from g[OF a le this] lt ui show ?thesis by simp
  qed
  show ?thesis
  proof (intro conjI impI ballI)
    assume "\<forall>a \<in> ?E. v < v_off a"
    then show "Dsc_FindVirtualOffsetEntries d v = Inr (None, None)"
      by (rule Dsc_Find_none_below[OF wf])
  next
    fix a assume "a \<in> ?E" and "v_off a \<le> v \<and> (\<forall>b \<in> ?E. v_off b \<le> v \<longrightarrow> v_off b \<le> v_off a)"
    then show "Dsc_FindVirtualOffsetEntries d v =
              (if v < v_off a + data_len a
               then (if uuid_index a < length (uuid_entries d)
                     then Inr (Some a, Some (uuid_entries d ! uuid_index a)) else Inl IndexError)
               else Inr (None, None))"
      using g by blast
  next
    fix a assume "ranges_disjoint d" "a \<in> ?E"
      "v_off a \<le> v \<and> v < v_off a + data_len a \<and> uuid_index a < length (uuid_entries d)"
    then show "Dsc_FindVirtualOffsetEntries d v = Inr (Some a, Some (uuid_entries d ! uuid_index a))"
      using c3 by blast
  qed
qed

lemma parsed_dsc_disjoint:
  "Dsc_Parse ReadCString_ascii Dsc_init (Some dsc_disjoint) = (parsed_dsc dsc_disjoint, Inr True)"
  unfolding parsed_dsc_def by code_simp

text \<open>The theorem at the file \<open>dsc_disjoint\<close> (ranges \<open>[0, 10)\<close> and \<open>[10, 15)\<close>) and offset 12.\<close>

theorem Dsc_find_greatest_range_witness:
  "Dsc_Parse ReadCString_ascii Dsc_init (Some dsc_disjoint) = (parsed_dsc dsc_disjoint, Inr True) \<and>
   ranges_disjoint (parsed_dsc dsc_disjoint) \<and>
   Dsc_FindVirtualOffsetEntries (parsed_dsc dsc_disjoint) 12 =
     Inr (Some \<lparr>uuid_index = 0, v_off = 10, data_offset = 90, data_len = 5\<rparr>,
          Some (uuid_entries (parsed_dsc dsc_disjoint) ! 0))"
proof -
  let ?d = "parsed_dsc dsc_disjoint"
  let ?a = "\<lparr>uuid_index = 0, v_off = 10, data_offset = 90, data_len = 5\<rparr>"
  have p: "Dsc_Parse ReadCString_ascii Dsc_init (Some dsc_disjoint) = (?d, Inr True)"
    by (rule parsed_dsc_disjoint)
  have dj: "ranges_disjoint ?d" unfolding parsed_dsc_def by code_simp
  have a: "?a \<in> snd ` set (range_entries ?d)" unfolding parsed_dsc_def by code_simp
  have u: "0 < length (uuid_entries ?d)" unfolding parsed_dsc_def by code_simp
  have pre: "v_off ?a \<le> 12 \<and> 12 < v_off ?a + data_len ?a \<and> uuid_index ?a < length (uuid_entries ?d)"
    using u by simp
  note t = Dsc_find_greatest_range[OF p, of 12, THEN conjunct2, THEN conjunct2, rule_format, OF dj a pre]
  have "Dsc_FindVirtualOffsetEntries ?d 12 = Inr (Some ?a, Some (uuid_entries ?d ! 0))"
    using t by simp
  then show ?thesis using p dj by (intro conjI)
qed

text \<open>
  Claim C3 as stated fails where ranges overlap, which the parser accepts: \<open>dsc_overlap\<close> has the
  ranges \<open>[0, 100)\<close> and \<open>[10, 15)\<close>; offset 50 lies inside the first, the search looks only at
  the second, and the answer is \<^verbatim>\<open>(None, None)\<close>.
\<close>

theorem Dsc_find_overlap_counterexample:
  "Dsc_Parse ReadCString_ascii Dsc_init (Some dsc_overlap) = (parsed_dsc dsc_overlap, Inr True) \<and>
   map snd (range_entries (parsed_dsc dsc_overlap)) =
     [\<lparr>uuid_index = 0, v_off = 0, data_offset = 80, data_len = 100\<rparr>,
      \<lparr>uuid_index = 0, v_off = 10, data_offset = 90, data_len = 5\<rparr>] \<and>
   (0::nat) \<le> 50 \<and> (50::nat) < 0 + 100 \<and>
   Dsc_FindVirtualOffsetEntries (parsed_dsc dsc_overlap) 50 = Inr (None, None)"
  unfolding parsed_dsc_def by code_simp

subsection \<open>Order and uniqueness of the range entries\<close>

text \<open>
  Claim C6, as the code has it. After a successful \<^verbatim>\<open>Parse\<close> the offsets list used by the search
  is strictly increasing and holds exactly the \<open>v_off\<close> of the range entries, which are pairwise
  different; and a file whose declared range records repeat a \<open>v_off\<close> is not parsed:
  \<^verbatim>\<open>Parse\<close> raises \<^verbatim>\<open>ValueError\<close>. Nothing in the parser compares the end of a range with the start
  of another.
\<close>

theorem Dsc_range_entries_unique_sorted:
  "(Dsc_Parse rcs Dsc_init (Some c) = (d, Inr True) \<longrightarrow>
      sorted_wrt (<) (range_entry_offsets d) \<and>
      set (range_entry_offsets d) = v_off ` snd ` set (range_entries d) \<and>
      distinct (map (\<lambda>x. v_off (snd x)) (range_entries d)) \<and>
      length (range_entry_offsets d) = length (range_entries d) \<and>
      num_range_entries d = length (range_entries d)) \<and>
   (fread \<lparr>content = c, fpos = 0\<rparr> 16 = (hdr, f1) \<and> slice hdr 0 4 = hcsd \<and>
    unpack_HHII (slice hdr 4 16) = Inr (mj, mn, nr, nu) \<and> mj \<le> 2 \<and>
    \<not> distinct (map v_off (range_records mj nr f1)) \<longrightarrow>
      snd (Dsc_Parse rcs Dsc_init (Some c)) = Inl ValueError)"
proof (intro conjI impI)
  assume parsed: "Dsc_Parse rcs Dsc_init (Some c) = (d, Inr True)"
  have wf: "Dsc_wf d"
    by (rule Dsc_ParseFileObject_wf[OF Dsc_Parse_True[OF parsed]]) (simp add: Dsc_init_def)
  have k: "\<forall>x \<in> set (range_entries d). fst x = v_off (snd x)"
    using wf unfolding Dsc_wf_def by (simp add: case_prod_unfold)
  then have m: "map fst (range_entries d) = map (\<lambda>x. v_off (snd x)) (range_entries d)" by simp
  show "sorted_wrt (<) (range_entry_offsets d)"
    using Dsc_wf_offsets(1,2)[OF wf] by (simp add: strict_sorted_iff)
  show "set (range_entry_offsets d) = v_off ` snd ` set (range_entries d)"
    by (rule Dsc_wf_offsets(3)[OF wf])
  show "distinct (map (\<lambda>x. v_off (snd x)) (range_entries d))"
    using wf m by (simp add: Dsc_wf_def)
  show l: "length (range_entry_offsets d) = length (range_entries d)"
    using wf by (simp add: Dsc_wf_def)
  show "num_range_entries d = length (range_entries d)"
    using Dsc_wf_offsets(4)[OF wf] l by simp
next
  assume "fread \<lparr>content = c, fpos = 0\<rparr> 16 = (hdr, f1) \<and> slice hdr 0 4 = hcsd \<and>
    unpack_HHII (slice hdr 4 16) = Inr (mj, mn, nr, nu) \<and> mj \<le> 2 \<and>
    \<not> distinct (map v_off (range_records mj nr f1))"
  then show "snd (Dsc_Parse rcs Dsc_init (Some c)) = Inl ValueError"
    using Dsc_Parse_ValueError by blast
qed

text \<open>The theorem at \<open>dsc_disjoint\<close> (parsed) and at \<open>dsc_duplicate\<close> (two records with \<open>v_off = 10\<close>).\<close>

theorem Dsc_range_entries_unique_sorted_witness:
  "Dsc_Parse ReadCString_ascii Dsc_init (Some dsc_disjoint) = (parsed_dsc dsc_disjoint, Inr True) \<and>
   sorted_wrt (<) (range_entry_offsets (parsed_dsc dsc_disjoint)) \<and>
   distinct (map (\<lambda>x. v_off (snd x)) (range_entries (parsed_dsc dsc_disjoint))) \<and>
   \<not> distinct (map v_off (range_records 1 2 \<lparr>content = dsc_duplicate, fpos = 16\<rparr>)) \<and>
   snd (Dsc_Parse ReadCString_ascii Dsc_init (Some dsc_duplicate)) = Inl ValueError"
proof -
  let ?d = "parsed_dsc dsc_disjoint"
  have p: "Dsc_Parse ReadCString_ascii Dsc_init (Some dsc_disjoint) = (?d, Inr True)"
    unfolding parsed_dsc_def by code_simp
  note t1 = Dsc_range_entries_unique_sorted[of ReadCString_ascii dsc_disjoint ?d,
      THEN conjunct1, rule_format, OF p]
  have rd: "fread \<lparr>content = dsc_duplicate, fpos = 0\<rparr> 16 =
      (dsc_hdr, \<lparr>content = dsc_duplicate, fpos = 16\<rparr>)" by code_simp
  have sig: "slice dsc_hdr 0 4 = hcsd" by code_simp
  have hd: "unpack_HHII (slice dsc_hdr 4 16) = Inr (1, 0, 2, 1)" by code_simp
  have dup: "\<not> distinct (map v_off (range_records 1 2 \<lparr>content = dsc_duplicate, fpos = 16\<rparr>))"
    by code_simp
  have pre: "fread \<lparr>content = dsc_duplicate, fpos = 0\<rparr> 16 =
      (dsc_hdr, \<lparr>content = dsc_duplicate, fpos = 16\<rparr>) \<and> slice dsc_hdr 0 4 = hcsd \<and>
    unpack_HHII (slice dsc_hdr 4 16) = Inr (1, 0, 2, 1) \<and> (1::nat) \<le> 2 \<and>
    \<not> distinct (map v_off (range_records 1 2 \<lparr>content = dsc_duplicate, fpos = 16\<rparr>))"
    using rd sig hd dup by simp
  note t2 = Dsc_range_entries_unique_sorted[of ReadCString_ascii dsc_duplicate _ dsc_hdr
      "\<lparr>content = dsc_duplicate, fpos = 16\<rparr>" 1 0 2 1, THEN conjunct2, rule_format, OF pre]
  show ?thesis using p t1 dup t2 by (intro conjI) simp_all
qed

text \<open>
  Claim C6 as stated fails: \<open>dsc_overlap\<close> parses successfully and its range \<open>[0, 100)\<close> ends after
  the start of its range \<open>[10, 15)\<close>.
\<close>

theorem Dsc_ranges_overlap_counterexample:
  "Dsc_Parse ReadCString_ascii Dsc_init (Some dsc_overlap) = (parsed_dsc dsc_overlap, Inr True) \<and>
   map snd (range_entries (parsed_dsc dsc_overlap)) =
     [\<lparr>uuid_index = 0, v_off = 0, data_offset = 80, data_len = 100\<rparr>,
      \<lparr>uuid_index = 0, v_off = 10, data_offset = 90, data_len = 5\<rparr>] \<and>
   \<not> ranges_disjoint (parsed_dsc dsc_overlap) \<and> \<not> ((0::nat) + 100 \<le> 10)"
  unfolding parsed_dsc_def by code_simp

subsection \<open>A wrong signature\<close>

text \<open>
  Claim C7 at a file that starts with other bytes than \<^verbatim>\<open>hcsd\<close>: \<^verbatim>\<open>Parse\<close> does not return
  \<^verbatim>\<open>False\<close>, it lets the \<^verbatim>\<open>NameError\<close> of the unbound name \<^verbatim>\<open>binascii\<close> escape, and the file is not
  marked invalid. A header with major version 3 is rejected with \<^verbatim>\<open>UserWarning\<close>, as claimed.
\<close>

theorem Dsc_Parse_wrong_signature_raises:
  "Dsc_Parse ReadCString_ascii Dsc_init (Some dsc_bad_signature) = (Dsc_init, Inl NameError) \<and>
   file_is_valid (fst (Dsc_Parse ReadCString_ascii Dsc_init (Some dsc_bad_signature))) = True \<and>
   Dsc_Parse ReadCString_ascii Dsc_init (Some dsc_version3) = (Dsc_init, Inl UserWarning)"
  by code_simp

subsection \<open>The closest timesync item\<close>

lemma closest_loop_takeWhile:
  "closest_loop c items ct =
     (case takeWhile (\<lambda>i. continuousTime i \<le> ct) items of [] \<Rightarrow> c | x # xs \<Rightarrow> last (x # xs))"
proof (induction items arbitrary: c)
  case Nil
  show ?case by simp
next
  case (Cons i items)
  show ?case
  proof (cases "continuousTime i \<le> ct")
    case True
    then show ?thesis using Cons.IH[of i] by (simp split: list.splits)
  next
    case False
    then show ?thesis by simp
  qed
qed

lemma sorted_filter_takeWhile:
  "sorted (map continuousTime items) \<Longrightarrow>
   filter (\<lambda>i. continuousTime i \<le> ct) items = takeWhile (\<lambda>i. continuousTime i \<le> ct) items"
proof (induction items)
  case Nil
  show ?case by simp
next
  case (Cons i items)
  show ?case
  proof (cases "continuousTime i \<le> ct")
    case True
    with Cons show ?thesis by simp
  next
    case False
    have "\<forall>j \<in> set items. continuousTime i \<le> continuousTime j" using Cons.prems by simp
    then have "\<forall>j \<in> set items. \<not> continuousTime j \<le> ct" using False by auto
    then have "filter (\<lambda>i. continuousTime i \<le> ct) items = []" by (simp add: filter_empty_conv)
    with False show ?thesis by simp
  qed
qed

subsection \<open>Integers that a floating-point number holds exactly\<close>

lemma pow2_neg: "pow2 (- int k) = 1 / 2 ^ k"
  by (auto simp: pow2_def)

lemma round_half_even_int [simp]: "round_half_even (of_int k) = k"
  by (simp add: round_half_even_def)

lemma ilog2_of_int: "1 \<le> a \<Longrightarrow> ilog2 (of_int a) = bitlen a - 1"
  by (simp add: ilog2_def)

lemma bitlen_less_power: "0 < a \<Longrightarrow> a < 2 ^ n \<Longrightarrow> bitlen a - 1 < int n"
proof -
  assume a: "0 < a" and b: "a < 2 ^ n"
  have "(2::int) ^ nat (bitlen a - 1) \<le> a" using bitlen_bounds[OF a] by simp
  then have "(2::int) ^ nat (bitlen a - 1) < 2 ^ n" using b by (rule le_less_trans)
  then have "nat (bitlen a - 1) < n"
    using power_strict_increasing_iff[of "2::int" "nat (bitlen a - 1)" n] by simp
  then show ?thesis by simp
qed

lemma bitlen_pos: "0 < a \<Longrightarrow> 0 \<le> bitlen a - 1"
  using bitlen_eq_zero_iff[of a] bitlen_nonneg[of a] by simp

lemma round_double_of_int:
  assumes "\<bar>z\<bar> < 2 ^ 53"
  shows "round_double (of_int z) = Finite (of_int z)"
proof (cases "z = 0")
  case True
  then show ?thesis by (simp add: round_double_def)
next
  case False
  define a where "a = \<bar>z\<bar>"
  have a: "0 < a" "1 \<le> a" "a < 2 ^ 53" using False assms by (simp_all add: a_def)
  define e where "e = bitlen a - 1"
  have e: "0 \<le> e" "e < 53" using bitlen_pos[OF a(1)] bitlen_less_power[OF a(1) a(3)] by (simp_all add: e_def)
  have abs: "\<bar>of_int z :: rat\<bar> = of_int a" by (simp add: a_def)
  have il: "ilog2 \<bar>of_int z :: rat\<bar> = e" unfolding abs e_def by (rule ilog2_of_int[OF a(2)])
  define k where "k = nat (52 - e)"
  have ek: "e - 52 = - int k" using e by (simp add: k_def)
  have mx: "max e (- 1022) = e" using e by simp
  have q: "pow2 (e - 52) = 1 / 2 ^ k" unfolding ek by (rule pow2_neg)
  have d: "(of_int z :: rat) / pow2 (e - 52) = of_int (z * 2 ^ k)" by (simp add: q)
  have r: "round_half_even ((of_int z :: rat) / pow2 (e - 52)) = z * 2 ^ k" by (simp only: d round_half_even_int)
  have bk: "(of_int (z * 2 ^ k) :: rat) * pow2 (e - 52) = of_int z" by (simp add: q)
  have nz: "(of_int z :: rat) \<noteq> 0" using False by simp
  show ?thesis
    unfolding round_double_def il mx Let_def r bk using nz e by simp
qed

lemma float_of_int_small: "\<bar>z\<bar> < 2 ^ 53 \<Longrightarrow> float_of_int z = Inr (Finite (of_int z))"
  by (simp add: float_of_int_def round_double_of_int)

lemma float_of_int_no_overflow:
  assumes "\<bar>z\<bar> < 2 ^ 1023"
  shows "\<exists>y. float_of_int z = Inr (Finite y)"
proof (cases "z = 0")
  case True
  then show ?thesis by (simp add: float_of_int_def round_double_def)
next
  case False
  define a where "a = \<bar>z\<bar>"
  have a: "0 < a" "1 \<le> a" "a < 2 ^ 1023" using False assms by (simp_all add: a_def)
  have abs: "\<bar>of_int z :: rat\<bar> = of_int a" by (simp add: a_def)
  have e: "bitlen a - 1 < 1023" using bitlen_less_power[OF a(1) a(3)] by simp
  have il: "ilog2 \<bar>of_int z :: rat\<bar> = bitlen a - 1" unfolding abs by (rule ilog2_of_int[OF a(2)])
  have nz: "(of_int z :: rat) \<noteq> 0" using False by simp
  define e' where "e' = max (bitlen a - 1) (- 1022)"
  have e': "\<not> 1023 < e'" "e' \<noteq> 1023" using e by (simp_all add: e'_def)
  have "\<exists>y. round_double (of_int z) = Finite y"
    unfolding round_double_def il Let_def e'_def[symmetric] using nz e' by simp
  then show ?thesis by (auto simp: float_of_int_def)
qed

lemma time_of_item_zero_denominator:
  assumes "ts_denominator I = 0" and "int (ts_numerator I) < 2 ^ 1023"
    and "\<bar>int ct - int (continuousTime I)\<bar> < 2 ^ 1023"
  shows "time_of_item python_float I ct = Inl ZeroDivisionError"
proof -
  obtain n where n: "float_of_int (int (ts_numerator I)) = Inr (Finite n)"
    using float_of_int_no_overflow[of "int (ts_numerator I)"] assms(2) by auto
  obtain d where d: "float_of_int (int ct - int (continuousTime I)) = Inr (Finite d)"
    using float_of_int_no_overflow[OF assms(3)] by auto
  have z: "float_of_int 0 = Inr (Finite 0)" by (simp add: float_of_int_def round_double_def)
  show ?thesis
    by (simp add: time_of_item_def python_float_def n d z assms(1) float_div_def)
qed

lemma time_of_item_exact:
  fixes I :: ts_item and ct :: nat
  defines "d \<equiv> int ct - int (continuousTime I)"
  assumes s: "\<bar>time_stamp I\<bar> < 2 ^ 53" and dn: "\<bar>d * int (ts_numerator I)\<bar> < 2 ^ 53"
    and db: "\<bar>d\<bar> < 2 ^ 53" and nb: "int (ts_numerator I) < 2 ^ 53"
    and den: "0 < ts_denominator I" "int (ts_denominator I) < 2 ^ 53"
    and dv: "int (ts_denominator I) dvd d * int (ts_numerator I)"
    and res: "\<bar>time_stamp I + d * int (ts_numerator I) div int (ts_denominator I)\<bar> < 2 ^ 53"
  shows "time_of_item python_float I ct =
     Inr (Finite (of_int (time_stamp I) +
                  of_int d * of_int (int (ts_numerator I)) / of_int (int (ts_denominator I))))"
proof -
  let ?n = "int (ts_numerator I)" and ?m = "int (ts_denominator I)"
  have c1: "float_of_int ?n = Inr (Finite (of_int ?n))" using nb by (intro float_of_int_small) simp
  have c2: "float_of_int (int ct - int (continuousTime I)) = Inr (Finite (of_int d))"
    using db unfolding d_def by (rule float_of_int_small)
  have c3: "float_of_int ?m = Inr (Finite (of_int ?m))" using den by (intro float_of_int_small) simp
  have c4: "float_of_int (time_stamp I) = Inr (Finite (of_int (time_stamp I)))"
    using s by (rule float_of_int_small)
  have m1: "float_mul (Finite 1) (Finite (of_int ?n)) = Finite (of_int ?n)"
    using nb round_double_of_int[of ?n] by (simp add: float_mul_def)
  have m2: "float_mul (Finite (of_int d)) (Finite (of_int ?n)) = Finite (of_int (d * ?n))"
    using dn round_double_of_int[of "d * ?n"] by (simp add: float_mul_def)
  have q: "(of_int (d * ?n) :: rat) / of_int ?m = of_int (d * ?n div ?m)"
    using of_int_div[OF dv, where ?'a = rat] by simp
  have qb: "\<bar>d * ?n div ?m\<bar> < 2 ^ 53"
  proof -
    obtain k where k: "d * ?n = ?m * k" using dv by (rule dvdE)
    have m1: "1 \<le> ?m" using den(1) by simp
    have "\<bar>k\<bar> \<le> ?m * \<bar>k\<bar>" using m1 by (simp add: mult_le_cancel_right1)
    then have "\<bar>d * ?n div ?m\<bar> \<le> \<bar>d * ?n\<bar>" using k den(1) by (simp add: abs_mult)
    then show ?thesis using dn by simp
  qed
  have nz: "Finite (of_int ?m) \<noteq> Finite 0" using den(1) by simp
  have dv2: "float_div (Finite (of_int (d * ?n))) (Finite (of_int ?m)) =
      Inr (Finite (of_int (d * ?n div ?m)))"
    using nz q round_double_of_int[OF qb] by (simp add: float_div_def)
  have ad: "float_add (Finite (of_int (time_stamp I))) (Finite (of_int (d * ?n div ?m))) =
      Finite (of_int (time_stamp I + d * ?n div ?m))"
    using round_double_of_int[OF res] by (simp add: float_add_def)
  have "time_of_item python_float I ct = Inr (Finite (of_int (time_stamp I + d * ?n div ?m)))"
    using c1 c2 c3 c4 m1 m2 dv2 ad by (simp add: time_of_item_def python_float_def)
  moreover have "(of_int (time_stamp I + d * ?n div ?m) :: rat) =
      of_int (time_stamp I) + of_int d * of_int ?n / of_int ?m"
    using q by simp
  ultimately show ?thesis by simp
qed

subsection \<open>The claim\<close>

text \<open>
  Claim C1, as the code has it. For a non-empty list of timesync items sorted by
  \<open>continuousTime\<close>, the lookup returns the last item that is not later than \<open>ct\<close>, or the first
  item when all items are later. The time is computed from the returned item \<open>I\<close> in
  floating-point arithmetic. When the denominator of \<open>I\<close> is zero, the computation raises
  \<^verbatim>\<open>ZeroDivisionError\<close> (the numerator and the elapsed time being below \<open>2 ^ 1023\<close>, so that
  their conversion does not overflow). When the stamp, the elapsed time \<open>ct - I.continuousTime\<close>,
  the numerator, their product, the denominator and the result are integers below \<open>2 ^ 53\<close>
  and the denominator divides the product, no operation rounds, and the computed time is
  exactly \<open>I.stamp + (ct - I.continuousTime) * I.numerator / I.denominator\<close>.
\<close>

theorem closest_timesync_item:
  assumes srt: "sorted (map continuousTime items)" and ne: "items \<noteq> []"
  shows "\<exists>I. FindClosestTimesyncItemInList (Some items) ct = Some I \<and>
           I = (if items_upto items ct = [] then hd items else last (items_upto items ct)) \<and>
           (ts_denominator I = 0 \<and> int (ts_numerator I) < 2 ^ 1023 \<and>
            \<bar>int ct - int (continuousTime I)\<bar> < 2 ^ 1023 \<longrightarrow>
              time_from_continuoustime python_float (Some items) ct None = Inl ZeroDivisionError) \<and>
           (\<bar>time_stamp I\<bar> < 2 ^ 53 \<and>
            \<bar>(int ct - int (continuousTime I)) * int (ts_numerator I)\<bar> < 2 ^ 53 \<and>
            \<bar>int ct - int (continuousTime I)\<bar> < 2 ^ 53 \<and> int (ts_numerator I) < 2 ^ 53 \<and>
            0 < ts_denominator I \<and> int (ts_denominator I) < 2 ^ 53 \<and>
            int (ts_denominator I) dvd (int ct - int (continuousTime I)) * int (ts_numerator I) \<and>
            \<bar>time_stamp I + (int ct - int (continuousTime I)) * int (ts_numerator I)
                 div int (ts_denominator I)\<bar> < 2 ^ 53 \<longrightarrow>
              time_from_continuoustime python_float (Some items) ct None =
                Inr (Finite (of_int (time_stamp I) +
                             of_int (int ct - int (continuousTime I)) * of_int (int (ts_numerator I)) /
                               of_int (int (ts_denominator I)))))"
proof -
  obtain first rest where fr: "items = first # rest" using ne by (cases items) auto
  have tw: "items_upto items ct = takeWhile (\<lambda>i. continuousTime i \<le> ct) items"
    unfolding items_upto_def by (rule sorted_filter_takeWhile[OF srt])
  define I where "I = (if items_upto items ct = [] then hd items else last (items_upto items ct))"
  have look: "FindClosestTimesyncItemInList (Some items) ct = Some I"
  proof (cases "takeWhile (\<lambda>i. continuousTime i \<le> ct) items")
    case Nil
    then show ?thesis using fr tw closest_loop_takeWhile[of first items ct]
      by (simp add: FindClosestTimesyncItemInList_def I_def)
  next
    case (Cons x xs)
    then show ?thesis using fr tw closest_loop_takeWhile[of first items ct]
      by (simp add: FindClosestTimesyncItemInList_def I_def)
  qed
  have tm: "time_from_continuoustime python_float (Some items) ct None =
      time_of_item python_float I ct"
    using look by (simp add: time_from_continuoustime_def)
  have zero: "ts_denominator I = 0 \<and> int (ts_numerator I) < 2 ^ 1023 \<and>
            \<bar>int ct - int (continuousTime I)\<bar> < 2 ^ 1023 \<longrightarrow>
              time_from_continuoustime python_float (Some items) ct None = Inl ZeroDivisionError"
    unfolding tm using time_of_item_zero_denominator[of I ct] by blast
  have exact: "\<bar>time_stamp I\<bar> < 2 ^ 53 \<and>
            \<bar>(int ct - int (continuousTime I)) * int (ts_numerator I)\<bar> < 2 ^ 53 \<and>
            \<bar>int ct - int (continuousTime I)\<bar> < 2 ^ 53 \<and> int (ts_numerator I) < 2 ^ 53 \<and>
            0 < ts_denominator I \<and> int (ts_denominator I) < 2 ^ 53 \<and>
            int (ts_denominator I) dvd (int ct - int (continuousTime I)) * int (ts_numerator I) \<and>
            \<bar>time_stamp I + (int ct - int (continuousTime I)) * int (ts_numerator I)
                 div int (ts_denominator I)\<bar> < 2 ^ 53 \<longrightarrow>
              time_from_continuoustime python_float (Some items) ct None =
                Inr (Finite (of_int (time_stamp I) +
                             of_int (int ct - int (continuousTime I)) * of_int (int (ts_numerator I)) /
                               of_int (int (ts_denominator I))))"
    unfolding tm using time_of_item_exact[of I ct] by blast
  show ?thesis
    using look zero exact unfolding I_def by blast
qed

text \<open>
  The theorem at \<open>two_items\<close> and \<open>ct = 1600\<close>: the first item is the closest one, and the
  time is \<open>1600000000 + 600 * 125 / 3 = 1600025000\<close>. And at the item with a zero
  denominator: the computation raises \<^verbatim>\<open>ZeroDivisionError\<close>.
\<close>

theorem closest_timesync_item_witness:
  "sorted (map continuousTime two_items) \<and> two_items \<noteq> [] \<and>
   FindClosestTimesyncItemInList (Some two_items) 1600 = Some (hd two_items) \<and>
   time_from_continuoustime python_float (Some two_items) 1600 None = Inr (Finite 1600025000) \<and>
   sorted (map continuousTime [zero_denominator_item]) \<and> [zero_denominator_item] \<noteq> [] \<and>
   FindClosestTimesyncItemInList (Some [zero_denominator_item]) 1500 = Some zero_denominator_item \<and>
   time_from_continuoustime python_float (Some [zero_denominator_item]) 1500 None =
     Inl ZeroDivisionError"
proof -
  have s: "sorted (map continuousTime two_items)" by (simp add: two_items_def)
  have n: "two_items \<noteq> []" by (simp add: two_items_def)
  have u: "items_upto two_items 1600 = [hd two_items]" by (simp add: items_upto_def two_items_def)
  obtain I where I: "FindClosestTimesyncItemInList (Some two_items) 1600 = Some I"
      "I = (if items_upto two_items 1600 = [] then hd two_items else last (items_upto two_items 1600))"
      "\<bar>time_stamp I\<bar> < 2 ^ 53 \<and>
            \<bar>(int 1600 - int (continuousTime I)) * int (ts_numerator I)\<bar> < 2 ^ 53 \<and>
            \<bar>int 1600 - int (continuousTime I)\<bar> < 2 ^ 53 \<and> int (ts_numerator I) < 2 ^ 53 \<and>
            0 < ts_denominator I \<and> int (ts_denominator I) < 2 ^ 53 \<and>
            int (ts_denominator I) dvd (int 1600 - int (continuousTime I)) * int (ts_numerator I) \<and>
            \<bar>time_stamp I + (int 1600 - int (continuousTime I)) * int (ts_numerator I)
                 div int (ts_denominator I)\<bar> < 2 ^ 53 \<longrightarrow>
              time_from_continuoustime python_float (Some two_items) 1600 None =
                Inr (Finite (of_int (time_stamp I) +
                             of_int (int 1600 - int (continuousTime I)) * of_int (int (ts_numerator I)) /
                               of_int (int (ts_denominator I))))"
    using closest_timesync_item[OF s n, of 1600] by blast
  have Ih: "I = hd two_items" using I(2) u by simp
  have c: "FindClosestTimesyncItemInList (Some two_items) 1600 = Some (hd two_items)"
    using I(1) Ih by simp
  have t: "time_from_continuoustime python_float (Some two_items) 1600 None = Inr (Finite 1600025000)"
    using I(3) unfolding Ih by (simp add: two_items_def)
  have s0: "sorted (map continuousTime [zero_denominator_item])" by simp
  have n0: "[zero_denominator_item] \<noteq> []" by simp
  obtain J where J: "FindClosestTimesyncItemInList (Some [zero_denominator_item]) 1500 = Some J"
      "J = (if items_upto [zero_denominator_item] 1500 = [] then hd [zero_denominator_item]
            else last (items_upto [zero_denominator_item] 1500))"
      "ts_denominator J = 0 \<and> int (ts_numerator J) < 2 ^ 1023 \<and>
            \<bar>int 1500 - int (continuousTime J)\<bar> < 2 ^ 1023 \<longrightarrow>
              time_from_continuoustime python_float (Some [zero_denominator_item]) 1500 None =
                Inl ZeroDivisionError"
    using closest_timesync_item[OF s0 n0, of 1500] by blast
  have Jh: "J = zero_denominator_item" using J(2) by (simp add: items_upto_def split: if_splits)
  have c0: "FindClosestTimesyncItemInList (Some [zero_denominator_item]) 1500 =
      Some zero_denominator_item"
    using J(1) Jh by simp
  have t0: "time_from_continuoustime python_float (Some [zero_denominator_item]) 1500 None =
      Inl ZeroDivisionError"
    using J(3) unfolding Jh by (simp add: zero_denominator_item_def)
  show ?thesis using s n c t s0 n0 c0 t0 by (intro conjI)
qed

text \<open>
  Claim C1 as stated fails in three ways. At the empty list, which is sorted, the lookup
  returns no item (\<^verbatim>\<open>None\<close>), and the time computation raises \<^verbatim>\<open>AttributeError\<close>. At the item
  of the conversion scenario (stamp \<open>1600000000000000000\<close>, rate \<open>1 / 1\<close>) and \<open>ct = 1500\<close>, the
  computed time is \<open>1600000000000000512\<close>, the floating-point number nearest to
  \<open>1600000000000000500\<close>, which the formula of the claim gives. At an item with a zero
  denominator, no time is computed: \<^verbatim>\<open>ZeroDivisionError\<close> is raised.
\<close>

theorem closest_timesync_item_counterexample:
  "sorted (map continuousTime []) \<and>
   FindClosestTimesyncItemInList (Some []) 1500 = None \<and>
   time_from_continuoustime python_float (Some []) 1500 None = Inl AttributeError \<and>
   sorted (map continuousTime [scenario_item]) \<and>
   FindClosestTimesyncItemInList (Some [scenario_item]) 1500 = Some scenario_item \<and>
   time_from_continuoustime python_float (Some [scenario_item]) 1500 None =
     Inr (Finite 1600000000000000512) \<and>
   (1600000000000000512 :: rat) \<noteq> 1600000000000000000 + (1500 - 1000) * 1 / 1 \<and>
   sorted (map continuousTime [zero_denominator_item]) \<and>
   time_from_continuoustime python_float (Some [zero_denominator_item]) 1500 None =
     Inl ZeroDivisionError"
  by code_simp

subsection \<open>The uncompressed file position\<close>

text \<open>
  A chunk that is neither a catalog nor a compressed chunk advances the uncompressed file
  position by \<open>16 + data_size\<close>, and by 8 more when the result is not a multiple of 8: the
  remainder modulo 8 is never changed.
\<close>

lemma chunk_step_unknown_tag:
  assumes "ParseChunkHeaderData (slice file_content (cs_pos s) (cs_pos s + 16)) = Inr (tag, subtag, n)"
    and "tag \<noteq> 0x600B" and "tag \<noteq> 0x600D"
  shows "\<exists>s'. TraceV3_chunk_step E has_callback file_content s = Inr s' \<and>
     cs_uncompressed_file_pos s' =
       cs_uncompressed_file_pos s + (16 + n) +
         (if (cs_uncompressed_file_pos s + (16 + n)) mod 8 \<noteq> 0 then 8 else 0)"
proof -
  have m: "(if n mod 8 \<noteq> 0 then n + (8 - n mod 8) else n) mod 8 = 0"
    by presburger
  show ?thesis using assms m
    by (simp add: TraceV3_chunk_step_def chunk_by_tag_def Let_def)
qed

text \<open>A file that starts with \<open>tv3_header_chunk\<close> is opened, and the walk starts at 56.\<close>

lemma parse_header_chunk:
  "TraceV3_ParseFileHeader X TraceV3_init (slice (tv3_header_chunk @ rest) 16 56) = Inr TraceV3_init"
proof -
  have s: "slice (tv3_header_chunk @ rest) 16 56 =
      [1, 0, 0, 0, 1, 0, 0, 0, 0, 0, 0, 0, 0, 0, 0, 0,
       0, 0, 0, 0, 0, 0, 0, 0, 0, 0, 0, 0, 0, 0, 0, 0,
       0, 0, 0, 0, 0, 0, 0, 0]"
    by (simp add: slice_def tv3_header_chunk_def)
  have l: "header_items_loop (slice (tv3_header_chunk @ rest) 16 56) 40 TraceV3_init = Inr TraceV3_init"
    unfolding s by (subst header_items_loop.simps) simp
  have d: "DebugPrintTimestampFromContTime X TraceV3_init
             (header_item_continuousTime TraceV3_init) = Inr ()"
    by (simp add: DebugPrintTimestampFromContTime_def FindClosestTimesyncItemInList_def
        TraceV3_init_def)
  have n: "length (slice (slice (tv3_header_chunk @ rest) 16 56) 0 40) = 40"
    unfolding s by (simp add: slice_def)
  show ?thesis
    unfolding TraceV3_ParseFileHeader_def using n l d by simp
qed

lemma open_header_chunk:
  assumes "ParseFileHeader E = TraceV3_ParseFileHeader X"
  shows "TraceV3_open E ts_list TraceV3_init (tv3_header_chunk @ rest) =
     Inr \<lparr>cs_pos = 56, cs_uncompressed_file_pos = 56, cs_catalog = None, cs_meta_chunk_index = 0,
          cs_logs = [], cs_delivered = [], cs_self = TraceV3_init\<rparr>"
proof -
  have h: "ParseChunkHeaderData (slice (tv3_header_chunk @ rest) 0 16) = Inr (0x1000, 0x11, 40)"
    by (simp add: ParseChunkHeaderData_def unpack_IIQ_def slice_def tv3_header_chunk_def)
  have p: "ParseFileHeader E TraceV3_init (slice (tv3_header_chunk @ rest) 16 56) = Inr TraceV3_init"
    unfolding assms by (rule parse_header_chunk)
  have b: "system_boot_uuid TraceV3_init = None" by (simp add: TraceV3_init_def)
  show ?thesis
    unfolding TraceV3_open_def using h p b by simp
qed

text \<open>
  Claim C5 at the file \<open>tv3_unaligned_file\<close>, whatever the parameters are: after the header
  chunk, which holds the 40 bytes of the fixed header, the position is 56; the chunk of
  unknown tag with 3 bytes of data moves it to \<open>56 + (16 + 3) = 75\<close>, and the alignment step
  adds \<^verbatim>\<open>8 - (chunk_data_size % 8)\<close> with the size already rounded to 8, which is 8: the
  counter becomes 83, not a multiple of 8.
\<close>

theorem uncompressed_file_pos_not_aligned:
  "TraceV3_open (program_env X lz4 state_parser simple_dump_parser) ts_list TraceV3_init
     tv3_unaligned_file =
     Inr \<lparr>cs_pos = 56, cs_uncompressed_file_pos = 56, cs_catalog = None, cs_meta_chunk_index = 0,
          cs_logs = [], cs_delivered = [], cs_self = TraceV3_init\<rparr> \<and>
   TraceV3_chunk_step (program_env X lz4 state_parser simple_dump_parser) has_callback
     tv3_unaligned_file
     \<lparr>cs_pos = 56, cs_uncompressed_file_pos = 56, cs_catalog = None, cs_meta_chunk_index = 0,
      cs_logs = [], cs_delivered = [], cs_self = TraceV3_init\<rparr> =
     Inr \<lparr>cs_pos = 80, cs_uncompressed_file_pos = 83, cs_catalog = None, cs_meta_chunk_index = 0,
          cs_logs = [], cs_delivered = [], cs_self = TraceV3_init\<rparr> \<and>
   (83::nat) mod 8 \<noteq> 0 \<and> (56 + (16 + 3) :: nat) = 75"
proof -
  have o: "TraceV3_open (program_env X lz4 state_parser simple_dump_parser) ts_list TraceV3_init
     tv3_unaligned_file =
     Inr \<lparr>cs_pos = 56, cs_uncompressed_file_pos = 56, cs_catalog = None, cs_meta_chunk_index = 0,
          cs_logs = [], cs_delivered = [], cs_self = TraceV3_init\<rparr>"
    unfolding tv3_unaligned_file_def
    by (rule open_header_chunk[where X = X]) (simp add: program_env_def)
  have h: "ParseChunkHeaderData (slice tv3_unaligned_file 56 72) = Inr (0x600C, 0, 3)"
    by (simp add: ParseChunkHeaderData_def unpack_IIQ_def slice_def tv3_unaligned_file_def
        tv3_header_chunk_def)
  have s: "TraceV3_chunk_step (program_env X lz4 state_parser simple_dump_parser) has_callback
     tv3_unaligned_file
     \<lparr>cs_pos = 56, cs_uncompressed_file_pos = 56, cs_catalog = None, cs_meta_chunk_index = 0,
      cs_logs = [], cs_delivered = [], cs_self = TraceV3_init\<rparr> =
     Inr \<lparr>cs_pos = 80, cs_uncompressed_file_pos = 83, cs_catalog = None, cs_meta_chunk_index = 0,
          cs_logs = [], cs_delivered = [], cs_self = TraceV3_init\<rparr>"
    unfolding TraceV3_chunk_step_def using h by (simp add: chunk_by_tag_def Let_def)
  show ?thesis using o s by simp
qed

subsection \<open>Batches of log entries\<close>















text \<open>
  The specification of the batches at three chunks that give 60000, 50000 and 1 entries:
  nothing is handed over after the first chunk, the 110000 entries after the second, and the
  last entry by the final flush.
\<close>

lemma batches_with_flush_example:
  "batches_with_flush [replicate 60000 x, replicate 50000 x, [x]] =
     [replicate 60000 x @ replicate 50000 x, [x]]"
  by (simp add: batches_with_flush_def)

lemma chunk_steps_loop:
  "chunk_steps E cb fc fsz n s0 = Some s \<Longrightarrow>
   TraceV3_chunk_loop E cb fc fsz s0 = TraceV3_chunk_loop E cb fc fsz s"
proof (induction n arbitrary: s0)
  case 0
  then show ?case by simp
next
  case (Suc n)
  from Suc.prems obtain s1 where
    p: "cs_pos s0 < fsz" and
    st: "TraceV3_chunk_step E cb fc s0 = Inr s1" and rest: "chunk_steps E cb fc fsz n s1 = Some s"
    by (auto split: if_splits sum.splits)
  have "TraceV3_chunk_loop E cb fc fsz s0 = TraceV3_chunk_loop E cb fc fsz s1"
    using p st by (subst TraceV3_chunk_loop.simps) simp
  then show ?case using Suc.IH[OF rest] by simp
qed

subsection \<open>A sub-chunk of an unknown process\<close>

text \<open>
  Claim C10. When the chunk loop reaches a compressed chunk whose decompressed data starts
  with a sub-chunk of a process that the current chunk meta does not know, \<^verbatim>\<open>GetProcInfo\<close>
  answers \<^verbatim>\<open>None\<close>, \<^verbatim>\<open>ProcessDataChunk\<close> raises \<^verbatim>\<open>AttributeError\<close> at \<^verbatim>\<open>proc_info.pid\<close>, and \<^verbatim>\<open>Parse\<close>
  catches it: the file is given up, marked invalid, and the result is \<^verbatim>\<open>False\<close>; the entries
  that were pending are not delivered.
\<close>

theorem missing_proc_info_aborts_file:
  assumes op: "TraceV3_open E ts_list self fc = Inr s0"
    and reach: "chunk_steps E cb fc fsz n s0 = Some s"
    and more: "cs_pos s < fsz"
    and hdr: "ParseChunkHeaderData (slice fc (cs_pos s) (cs_pos s + 16)) = Inr (0x600D, subtag, sz)"
    and dec: "DecompressChunkData E (slice fc (cs_pos s + 16) (cs_pos s + 16 + sz)) sz = Inr unc"
    and cat: "cs_catalog s = Some c"
    and idx: "cs_meta_chunk_index s < length (ChunkMetaInfo c)"
    and len: "32 \<le> length unc"
    and missing: "GetProcInfo (le_nat (slice unc 16 24)) (le_nat (slice unc 24 28))
                    (ChunkMetaInfo c ! cs_meta_chunk_index s) = None"
  shows "ProcessDataChunk E (cs_self s) unc (length unc) (cs_catalog s) (cs_meta_chunk_index s)
           (cs_uncompressed_file_pos s + 16) = Inl AttributeError \<and>
         TraceV3_Parse E ts_list self (Some fc) fsz cb =
           (cs_delivered s, (cs_self s)\<lparr>tv3_is_valid := False\<rparr>, Inr (Some False))"
proof -
  have l16: "length (slice unc 0 16) = 16" and l32: "length (slice unc 16 32) = 16"
    using len by (simp_all add: slice_def)
  have h: "\<exists>t st ds. ParseChunkHeaderData (slice unc 0 16) = Inr (t, st, ds)"
    using l16 by (simp add: ParseChunkHeaderData_def unpack_IIQ_def)
  have sl: "slice (slice unc 16 32) 0 8 = slice unc 16 24"
    "slice (slice unc 16 32) 8 12 = slice unc 24 28"
    by (simp_all add: slice_def take_drop min_def)
  have q: "\<exists>t. unpack_QII (slice unc 16 32) =
     Inr (le_nat (slice unc 16 24), le_nat (slice unc 24 28), t)"
    using l32 sl by (simp add: unpack_QII_def)
  have p: "ProcessDataChunk_loop E unc (length unc) c (ChunkMetaInfo c ! cs_meta_chunk_index s)
             (cs_uncompressed_file_pos s + 16) 0 (cs_self s) [] = Inl AttributeError"
    using len h q missing by (subst ProcessDataChunk_loop.simps) auto
  have pd: "ProcessDataChunk E (cs_self s) unc (length unc) (cs_catalog s) (cs_meta_chunk_index s)
           (cs_uncompressed_file_pos s + 16) = Inl AttributeError"
    using cat idx p by (simp add: ProcessDataChunk_def)
  have st: "TraceV3_chunk_step E cb fc s = Inl AttributeError"
    using hdr dec pd by (simp add: TraceV3_chunk_step_def chunk_by_tag_def)
  have "TraceV3_chunk_loop E cb fc fsz s = (s, Some AttributeError)"
    using more st by (subst TraceV3_chunk_loop.simps) simp
  then have "TraceV3_chunk_loop E cb fc fsz s0 = (s, Some AttributeError)"
    using chunk_steps_loop[OF reach] by simp
  then have "TraceV3_ParseFileObject E ts_list self fc fsz cb =
      (cs_delivered s, cs_self s, Some AttributeError)"
    using op by (simp add: TraceV3_ParseFileObject_def)
  then have "TraceV3_Parse E ts_list self (Some fc) fsz cb =
           (cs_delivered s, (cs_self s)\<lparr>tv3_is_valid := False\<rparr>, Inr (Some False))"
    by (simp add: TraceV3_Parse_def)
  then show ?thesis using pd by simp
qed

subsection \<open>The theorem at a concrete file\<close>

lemma decompress_stored:
  "TraceV3_DecompressChunkData lz4
     ([0x62, 0x76, 0x34, 0x2D, 32, 0, 0, 0] @ firehose_sub_chunk p @ [0x62, 0x76, 0x34, 0x24]) 44 =
   Inr (firehose_sub_chunk p)"
  apply (simp add: TraceV3_DecompressChunkData_def bv41_def bv4_raw_def slice_def
      firehose_sub_chunk_def)
  apply (subst DecompressChunkData_loop.simps)
  apply (simp add: bv41_def bv4_raw_def bv4_end_def slice_def unpack_I_def)
  apply (subst DecompressChunkData_loop.simps)
  apply (simp add: bv41_def bv4_raw_def bv4_end_def slice_def unpack_I_def)
  done

lemma parse_catalog_chunk:
  "TraceV3_ParseMetaChunk X TraceV3_init (slice (tv3_header_chunk @ tv3_catalog_chunk @ rest) 72 128) =
     Inr (parsed_catalog, TraceV3_init)"
proof -
  let ?d = "[0, 0, 0, 0, 0, 0, 0, 0, 1, 0, 0, 0, 0, 0, 0, 0,
      0, 0, 0, 0, 0, 0, 0, 0,
      0, 0, 0, 0, 0, 0, 0, 0, 0, 0, 0, 0, 0, 0, 0, 0,
      0, 0, 0, 0, 0, 0, 0, 0, 0, 0, 0, 0, 0, 0, 0, 0] :: bytes"
  have s: "slice (tv3_header_chunk @ tv3_catalog_chunk @ rest) 72 128 = ?d"
    by (simp add: slice_def tv3_header_chunk_def tv3_catalog_chunk_def)
  have dbg: "DebugPrintTimestampFromContTime X TraceV3_init c = Inr ()" for c
    by (simp add: DebugPrintTimestampFromContTime_def FindClosestTimesyncItemInList_def
        TraceV3_init_def)
  have h: "unpack_HHHHQQ (slice ?d 0 24) = Inr (0, 0, 0, 0, 1, 0)"
    by (simp add: unpack_HHHHQQ_def slice_def)
  have f: "meta_files_loop X ?d 24 24 empty_catalog TraceV3_init = Inr (24, empty_catalog, TraceV3_init)"
    by (subst meta_files_loop.simps) simp
  have p: "meta_procs_loop X ?d 24 24 (empty_catalog\<lparr>Strings := slice ?d 24 24\<rparr>) =
      Inr (24, empty_catalog)"
    by (subst meta_procs_loop.simps) (simp add: slice_def empty_catalog_def)
  have m: "meta_chunk_meta X TraceV3_init ?d 24 empty_catalog = Inr (56, parsed_catalog)"
    by (simp add: meta_chunk_meta_def unpack_QQII_def unpack_I_def unpack_many_H_def slice_def
        dbg empty_catalog_def parsed_catalog_def Let_def)
  have c: "meta_chunks_loop X TraceV3_init ?d 56 24 empty_catalog = Inr parsed_catalog"
    apply (subst meta_chunks_loop.simps)
    apply (simp add: m)
    apply (subst meta_chunks_loop.simps)
    apply simp
    done
  have l: "length ?d = 56" by simp
  show ?thesis
    unfolding s TraceV3_ParseMetaChunk_def l by (simp add: h dbg f p c)
qed

lemma step_catalog_chunk:
  assumes "ParseMetaChunk E = TraceV3_ParseMetaChunk X"
  shows "TraceV3_chunk_step E cb (tv3_header_chunk @ tv3_catalog_chunk @ rest)
     \<lparr>cs_pos = 56, cs_uncompressed_file_pos = 56, cs_catalog = None, cs_meta_chunk_index = 0,
      cs_logs = [], cs_delivered = [], cs_self = TraceV3_init\<rparr> =
     Inr \<lparr>cs_pos = 128, cs_uncompressed_file_pos = 128, cs_catalog = Some parsed_catalog,
          cs_meta_chunk_index = 0, cs_logs = [], cs_delivered = [], cs_self = TraceV3_init\<rparr>"
proof -
  have h: "ParseChunkHeaderData (slice (tv3_header_chunk @ tv3_catalog_chunk @ rest) 56 72) =
      Inr (0x600B, 0x11, 56)"
    by (simp add: ParseChunkHeaderData_def unpack_IIQ_def slice_def tv3_header_chunk_def
        tv3_catalog_chunk_def)
  have p: "ParseMetaChunk E TraceV3_init (slice (tv3_header_chunk @ tv3_catalog_chunk @ rest) 72 128) =
      Inr (parsed_catalog, TraceV3_init)"
    unfolding assms by (rule parse_catalog_chunk)
  show ?thesis
    unfolding TraceV3_chunk_step_def using h p by (simp add: chunk_by_tag_def Let_def)
qed

lemma data_chunk_header:
  "ParseChunkHeaderData (slice (tv3_header_chunk @ tv3_catalog_chunk @ tv3_data_chunk p) 128 144) =
     Inr (0x600D, 0x11, 44)"
  by (simp add: ParseChunkHeaderData_def unpack_IIQ_def slice_def tv3_header_chunk_def
      tv3_catalog_chunk_def tv3_data_chunk_def)

lemma data_chunk_body:
  "slice (tv3_header_chunk @ tv3_catalog_chunk @ tv3_data_chunk p) 144 188 =
     [0x62, 0x76, 0x34, 0x2D, 32, 0, 0, 0] @ firehose_sub_chunk p @ [0x62, 0x76, 0x34, 0x24]"
  by (simp add: slice_def tv3_header_chunk_def tv3_catalog_chunk_def tv3_data_chunk_def
      firehose_sub_chunk_def)

lemma unknown_proc:
  "GetProcInfo (le_nat (slice (firehose_sub_chunk 9) 16 24)) (le_nat (slice (firehose_sub_chunk 9) 24 28))
     (ChunkMetaInfo parsed_catalog ! 0) = None"
  by (simp add: GetProcInfo_def parsed_catalog_def)

text \<open>
  The theorem at \<open>tv3_missing_proc_file\<close>, read by the parsers of the program: the header chunk
  and the catalog chunk are parsed, and the sub-chunk of the compressed chunk belongs to the
  process \<open>(1, 9)\<close>, which the chunk meta of the catalog does not list.
\<close>

theorem missing_proc_info_aborts_file_witness:
  "ProcessDataChunk absent_env TraceV3_init (firehose_sub_chunk 9) 32 (Some parsed_catalog) 0 144 =
     Inl AttributeError \<and>
   TraceV3_Parse absent_env [] TraceV3_init (Some tv3_missing_proc_file) 192 True =
     ([], TraceV3_init\<lparr>tv3_is_valid := False\<rparr>, Inr (Some False))"
proof -
  let ?s0 = "\<lparr>cs_pos = 56, cs_uncompressed_file_pos = 56, cs_catalog = None,
      cs_meta_chunk_index = 0, cs_logs = [], cs_delivered = [], cs_self = TraceV3_init\<rparr>
      :: pyfloat chunk_state"
  let ?s1 = "\<lparr>cs_pos = 128, cs_uncompressed_file_pos = 128, cs_catalog = Some parsed_catalog,
      cs_meta_chunk_index = 0, cs_logs = [], cs_delivered = [], cs_self = TraceV3_init\<rparr>
      :: pyfloat chunk_state"
  have eh: "ParseFileHeader absent_env = TraceV3_ParseFileHeader absent_externals"
    and em: "ParseMetaChunk absent_env = TraceV3_ParseMetaChunk absent_externals"
    and ed: "DecompressChunkData absent_env = TraceV3_DecompressChunkData (\<lambda>c n d. Inl OtherException)"
    by (simp_all add: absent_env_def program_env_def)
  have op: "TraceV3_open absent_env [] TraceV3_init tv3_missing_proc_file = Inr ?s0"
    unfolding tv3_missing_proc_file_def by (rule open_header_chunk[OF eh])
  have st1: "TraceV3_chunk_step absent_env True tv3_missing_proc_file ?s0 = Inr ?s1"
    unfolding tv3_missing_proc_file_def by (rule step_catalog_chunk[OF em])
  have reach: "chunk_steps absent_env True tv3_missing_proc_file 192 (Suc 0) ?s0 = Some ?s1"
    by (simp add: st1)
  have more: "cs_pos ?s1 < 192" by simp
  have hdr: "ParseChunkHeaderData (slice tv3_missing_proc_file (cs_pos ?s1) (cs_pos ?s1 + 16)) =
      Inr (0x600D, 0x11, 44)"
    unfolding tv3_missing_proc_file_def using data_chunk_header[of 9] by simp
  have dec: "DecompressChunkData absent_env
      (slice tv3_missing_proc_file (cs_pos ?s1 + 16) (cs_pos ?s1 + 16 + 44)) 44 =
      Inr (firehose_sub_chunk 9)"
    unfolding tv3_missing_proc_file_def ed
    using decompress_stored[of "\<lambda>c n d. Inl OtherException" 9] data_chunk_body[of 9]
    by simp
  have cat: "cs_catalog ?s1 = Some parsed_catalog" by simp
  have idx: "cs_meta_chunk_index ?s1 < length (ChunkMetaInfo parsed_catalog)"
    by (simp add: parsed_catalog_def)
  have len: "32 \<le> length (firehose_sub_chunk 9)" by (simp add: firehose_sub_chunk_def)
  have missing: "GetProcInfo (le_nat (slice (firehose_sub_chunk 9) 16 24))
      (le_nat (slice (firehose_sub_chunk 9) 24 28))
      (ChunkMetaInfo parsed_catalog ! cs_meta_chunk_index ?s1) = None"
    using unknown_proc by simp
  have l32: "length (firehose_sub_chunk 9) = 32" by (simp add: firehose_sub_chunk_def)
  note t = missing_proc_info_aborts_file[OF op reach more hdr dec cat idx len missing]
  show ?thesis using t l32 by simp
qed

end
